(* ===== verification/Prelude.thy ===== *)
theory Prelude
  imports Complex_Main "HOL-Library.Word"
begin

text \<open>
  Shared vocabulary of the development: the exceptions of \<^verbatim>\<open>src/Fractals.py\<close> as a
  datatype, results as sums, the \<^verbatim>\<open>for\<close> loop with exception propagation, and the
  Python and NumPy primitives the renderer calls (\<^verbatim>\<open>int()\<close>, \<^verbatim>\<open>range\<close>, \<^verbatim>\<open>min\<close>,
  \<^verbatim>\<open>list.index\<close>, \<^verbatim>\<open>np.average\<close>, the cast to \<^verbatim>\<open>uint8\<close>), each with the lemmas the
  component theories rely on.  Python floats are modelled as exact reals; a NaN is
  the value \<open>None\<close> of an option type.
\<close>

section \<open>Collections of facts\<close>

named_theorems py_defs "definitions of the modelled Python and NumPy primitives"
named_theorems fractal_defs "definitions of the renderer's operations"
named_theorems loop_simps "unfolding rules of the loops"

section \<open>Exceptions and results\<close>

text \<open>
  \<open>OddResolutionError\<close> and \<open>TopError\<close> are the two exception classes of the module;
  the others are raised by the primitives it calls: four by Python and NumPy on
  values, one by the access to an attribute that has not been assigned, four by the
  operating system on files.
\<close>

datatype error =
    OddResolutionError | TopError
  | ValueError | KeyError | ZeroDivisionError | IndexError
  | AttributeError
  | FileExistsError | FileNotFoundError | NotADirectoryError | IsADirectoryError

type_synonym 'a result = "error + 'a"

abbreviation raise :: "error \<Rightarrow> 'a result" where
  "raise e \<equiv> Inl e"

abbreviation return :: "'a \<Rightarrow> 'a result" where
  "return v \<equiv> Inr v"

definition is_ok :: "'a result \<Rightarrow> bool" where
  "is_ok r = (case r of Inl _ \<Rightarrow> False | Inr _ \<Rightarrow> True)"

lemma is_ok_simps [simp]: "is_ok (Inr v)" "\<not> is_ok (Inl e)"
  by (simp_all add: is_ok_def)

lemma is_ok_iff: "is_ok r \<longleftrightarrow> (\<exists>v. r = Inr v)"
  by (cases r) simp_all

section \<open>The for loop\<close>

text \<open>
  \<open>for_loop body xs s\<close> is \<^verbatim>\<open>for x in xs: s = body(s, x)\<close>, where an exception raised
  by the body ends the loop and is the loop's result.  The type of exceptions is a
  parameter, so that a loop can carry the output written before the exception.
\<close>

fun for_loop :: "('s \<Rightarrow> 'a \<Rightarrow> 'e + 's) \<Rightarrow> 'a list \<Rightarrow> 's \<Rightarrow> 'e + 's" where
  "for_loop body [] s = Inr s"
| "for_loop body (x # xs) s =
     (case body s x of Inl e \<Rightarrow> Inl e | Inr s' \<Rightarrow> for_loop body xs s')"

lemma for_loop_append:
  "for_loop body (xs @ ys) s =
     (case for_loop body xs s of Inl e \<Rightarrow> Inl e | Inr s' \<Rightarrow> for_loop body ys s')"
  by (induction xs arbitrary: s) (auto split: sum.splits)

lemma for_loop_snoc:
  "for_loop body (xs @ [x]) s =
     (case for_loop body xs s of Inl e \<Rightarrow> Inl e | Inr s' \<Rightarrow> body s' x)"
  by (simp add: for_loop_append split: sum.splits)

text \<open>Hoare rule for partial correctness: an invariant of the body holds at exit.\<close>

lemma for_loop_invariant:
  assumes "for_loop body xs s = Inr t" and "P s"
    and "\<And>s x s'. x \<in> set xs \<Longrightarrow> P s \<Longrightarrow> body s x = Inr s' \<Longrightarrow> P s'"
  shows "P t"
  using assms
proof (induction xs arbitrary: s)
  case Nil
  then show ?case by simp
next
  case (Cons x xs)
  from Cons.prems(1) obtain s' where b: "body s x = Inr s'" and l: "for_loop body xs s' = Inr t"
    by (auto split: sum.splits)
  from Cons.prems(2) b have "P s'" by (rule Cons.prems(3) [OF list.set_intros(1)])
  with l show ?case by (rule Cons.IH) (auto intro: Cons.prems(3))
qed

text \<open>Total correctness: a body that cannot raise under the invariant gives a loop
  that cannot raise.\<close>

lemma for_loop_total:
  assumes "P s"
    and "\<And>s x. x \<in> set xs \<Longrightarrow> P s \<Longrightarrow> \<exists>s'. body s x = Inr s' \<and> P s'"
  shows "\<exists>t. for_loop body xs s = Inr t \<and> P t"
  using assms
proof (induction xs arbitrary: s)
  case Nil
  then show ?case by simp
next
  case (Cons x xs)
  from Cons.prems obtain s' where b: "body s x = Inr s'" and p: "P s'"
    by (meson list.set_intros(1))
  from p have "\<exists>t. for_loop body xs s' = Inr t \<and> P t"
    by (rule Cons.IH) (auto intro: Cons.prems(2))
  with b show ?case by simp
qed

text \<open>An exception of the loop is an exception of one pass, met in a state that
  satisfies the invariant.\<close>

lemma for_loop_raises:
  assumes "for_loop body xs s = Inl e" and "P s"
    and "\<And>s x s'. x \<in> set xs \<Longrightarrow> P s \<Longrightarrow> body s x = Inr s' \<Longrightarrow> P s'"
    and "\<And>s x. x \<in> set xs \<Longrightarrow> P s \<Longrightarrow> body s x = Inl e \<Longrightarrow> Q"
  shows Q
  using assms
proof (induction xs arbitrary: s)
  case Nil
  then show ?case by simp
next
  case (Cons x xs)
  show ?case
  proof (cases "body s x")
    case (Inl e')
    with Cons.prems(1) have "body s x = Inl e" by simp
    with Cons.prems(2) show ?thesis by (intro Cons.prems(4) [of x s]) simp_all
  next
    case (Inr s')
    with Cons.prems(2) have p: "P s'" by (intro Cons.prems(3) [of x s s']) simp_all
    from Inr Cons.prems(1) have l: "for_loop body xs s' = Inl e" by simp
    from l p show ?thesis
      by (rule Cons.IH) (auto intro: Cons.prems(3,4))
  qed
qed

text \<open>Functional refinement: a map of the states that commutes with the body commutes
  with the loop.\<close>

lemma for_loop_commute:
  assumes "\<And>s x. x \<in> set xs \<Longrightarrow> map_sum h k (f s x) = g (k s) x"
  shows "map_sum h k (for_loop f xs s) = for_loop g xs (k s)"
  using assms
proof (induction xs arbitrary: s)
  case Nil
  then show ?case by simp
next
  case (Cons x xs)
  from Cons.prems [of x s] have "map_sum h k (f s x) = g (k s) x" by simp
  with Cons.IH Cons.prems show ?case
    by (cases "f s x") (auto simp: map_sum_def split: sum.splits)
qed

text \<open>Congruence rules that let the simplifier rewrite inside the branches of a case or
  a conditional.\<close>

lemmas case_congs = sum.case_cong option.case_cong if_cong

lemma for_loop_cong:
  assumes "\<And>s x. x \<in> set xs \<Longrightarrow> f s x = g s x"
  shows "for_loop f xs s = for_loop g xs s"
  using assms by (induction xs arbitrary: s) (auto split: sum.splits)

text \<open>The same two rules for a loop over \<open>0, \<dots>, n - 1\<close>, with the invariant indexed by
  the number of passes.\<close>

lemma for_loop_upt_invariant:
  assumes "for_loop body [0..<n] s = Inr t" and "P 0 s"
    and "\<And>k s s'. k < n \<Longrightarrow> P k s \<Longrightarrow> body s k = Inr s' \<Longrightarrow> P (Suc k) s'"
  shows "P n t"
  using assms
proof (induction n arbitrary: t)
  case 0
  then show ?case by simp
next
  case (Suc n)
  from Suc.prems(1) obtain u where u: "for_loop body [0..<n] s = Inr u" and t: "body u n = Inr t"
    by (auto simp: for_loop_snoc split: sum.splits)
  from u Suc.prems(2) have "P n u"
    by (rule Suc.IH) (auto intro: Suc.prems(3))
  with t show ?case by (intro Suc.prems(3) [of n u t]) simp_all
qed

lemma for_loop_upt_total:
  assumes "P 0 s"
    and "\<And>k s. k < n \<Longrightarrow> P k s \<Longrightarrow> \<exists>s'. body s k = Inr s' \<and> P (Suc k) s'"
  shows "\<exists>t. for_loop body [0..<n] s = Inr t \<and> P n t"
  using assms
proof (induction n)
  case 0
  then show ?case by simp
next
  case (Suc n)
  from Suc.prems(1) have "\<exists>u. for_loop body [0..<n] s = Inr u \<and> P n u"
    by (rule Suc.IH) (auto intro: Suc.prems(2))
  then obtain u where u: "for_loop body [0..<n] s = Inr u" "P n u" by blast
  from Suc.prems(2) [of n u] u(2) obtain t where "body u n = Inr t" "P (Suc n) t" by auto
  with u(1) show ?case by (simp add: for_loop_snoc)
qed

text \<open>A loop whose body never raises is a fold.\<close>

text \<open>Nested loops are one loop over the concatenation, and a loop over a mapped list
  is a loop over the list.\<close>

lemma for_loop_map: "for_loop body (map g xs) s = for_loop (\<lambda>s x. body s (g x)) xs s"
  by (induction xs arbitrary: s) (auto split: sum.splits)

lemma for_loop_concat:
  "for_loop body (concat xss) s = for_loop (\<lambda>s xs. for_loop body xs s) xss s"
  by (induction xss arbitrary: s) (auto simp: for_loop_append split: sum.splits)

lemma for_loop_pure: "for_loop (\<lambda>s x. Inr (f s x)) xs s = Inr (foldl f s xs)"
  by (induction xs arbitrary: s) simp_all

section \<open>Python primitives\<close>

text \<open>\<^verbatim>\<open>int(x)\<close> of a float truncates towards zero.\<close>

definition py_int :: "real \<Rightarrow> int" where
  "py_int x = (if 0 \<le> x then \<lfloor>x\<rfloor> else \<lceil>x\<rceil>)"

text \<open>\<^verbatim>\<open>range(n)\<close>: empty for \<open>n \<le> 0\<close>; its elements are never negative.\<close>

definition py_range :: "int \<Rightarrow> nat list" where
  "py_range n = [0..<nat n]"

text \<open>\<^verbatim>\<open>min(xs)\<close> raises \<open>ValueError\<close> on an empty list.\<close>

fun py_min :: "int list \<Rightarrow> int result" where
  "py_min [] = Inl ValueError"
| "py_min (x # xs) = Inr (fold min xs x)"

text \<open>\<^verbatim>\<open>xs.index(v)\<close>: the first position of \<open>v\<close>, \<open>ValueError\<close> if there is none.\<close>

fun py_index :: "'a list \<Rightarrow> 'a \<Rightarrow> nat result" where
  "py_index [] v = Inl ValueError"
| "py_index (x # xs) v =
     (if x = v then Inr 0
      else case py_index xs v of Inl e \<Rightarrow> Inl e | Inr k \<Rightarrow> Inr (Suc k))"

text \<open>\<^verbatim>\<open>d[key]\<close> on a dictionary, given as the list of its items: \<open>KeyError\<close> for a
  missing key.\<close>

definition getitem :: "('k \<times> 'v) list \<Rightarrow> 'k \<Rightarrow> 'v result" where
  "getitem d key = (case map_of d key of None \<Rightarrow> Inl KeyError | Some v \<Rightarrow> Inr v)"

text \<open>\<^verbatim>\<open>a[i, j] = v\<close> on a two-dimensional array, given as the list of its rows:
  \<open>IndexError\<close> outside the array.\<close>

definition setitem2 :: "'a list list \<Rightarrow> nat \<Rightarrow> nat \<Rightarrow> 'a \<Rightarrow> 'a list list result" where
  "setitem2 a i j v =
     (if i < length a \<and> j < length (a ! i) then Inr (a[i := (a ! i)[j := v]])
      else Inl IndexError)"

declare py_int_def [py_defs] py_range_def [py_defs] getitem_def [py_defs]
  setitem2_def [py_defs]

lemma setitem2_eq:
  "i < length a \<Longrightarrow> j < length (a ! i) \<Longrightarrow> setitem2 a i j v = Inr (a[i := (a ! i)[j := v]])"
  by (simp add: setitem2_def)

lemma setitem2_nth:
  assumes "setitem2 a i j v = Inr b" and "i' < length a"
  shows "b ! i' ! j' = (if i' = i \<and> j' = j then v else a ! i' ! j')"
  using assms by (auto simp: setitem2_def nth_list_update split: if_splits)

lemma setitem2_shape:
  assumes "setitem2 a i j v = Inr b"
  shows "length b = length a \<and> (\<forall>k<length a. length (b ! k) = length (a ! k))"
  using assms by (auto simp: setitem2_def nth_list_update split: if_splits)

lemma getitem_ok_iff: "is_ok (getitem d key) \<longleftrightarrow> key \<in> fst ` set d"
  using map_of_eq_None_iff [of d key] by (auto simp: getitem_def split: option.splits)

lemma getitem_eq_Inr_iff: "getitem d key = Inr v \<longleftrightarrow> map_of d key = Some v"
  by (simp add: getitem_def split: option.splits)

lemma getitem_eq_Inl_iff: "getitem d key = Inl e \<longleftrightarrow> key \<notin> fst ` set d \<and> e = KeyError"
  by (auto simp: getitem_def map_of_eq_None_iff [symmetric] split: option.splits)


lemma py_int_of_int [simp]: "py_int (of_int n) = n"
  by (simp add: py_int_def)

lemma py_int_numeral [simp]:
  "py_int (numeral n) = numeral n" "py_int 0 = 0" "py_int 1 = 1"
  by (simp_all add: py_int_def)

lemma py_int_nonneg: "0 \<le> x \<Longrightarrow> py_int x = \<lfloor>x\<rfloor>"
  by (simp add: py_int_def)

lemma py_int_eq_0_iff: "py_int x = 0 \<longleftrightarrow> - 1 < x \<and> x < 1"
  by (auto simp: py_int_def floor_eq_iff ceiling_eq_iff)

lemma py_int_half_even: "even n \<Longrightarrow> py_int (of_int n / 2) = n div 2"
  by (auto elim!: evenE)

lemma py_int_div_nonneg:
  "0 \<le> a \<Longrightarrow> 0 < b \<Longrightarrow> py_int (of_int a / of_int b) = a div b"
  by (simp add: py_int_nonneg floor_divide_of_int_eq)

lemma length_py_range [simp]: "length (py_range n) = nat n"
  by (simp add: py_range_def)

lemma set_py_range [simp]: "set (py_range n) = {k. int k < n}"
  by (auto simp: py_range_def)

lemma py_range_nonpos [simp]: "n \<le> 0 \<Longrightarrow> py_range n = []"
  by (simp add: py_range_def)

lemma nth_py_range [simp]: "k < nat n \<Longrightarrow> py_range n ! k = k"
  by (simp add: py_range_def)

lemma fold_min_eq_Min: "fold min xs (x::int) = Min (insert x (set xs))"
  by (simp add: Min.set_eq_fold [symmetric])

lemma py_min_eq_Inr_iff: "py_min xs = Inr m \<longleftrightarrow> xs \<noteq> [] \<and> m = Min (set xs)"
  by (cases xs) (auto simp: fold_min_eq_Min)

lemma py_min_ok_iff: "is_ok (py_min xs) \<longleftrightarrow> xs \<noteq> []"
  by (cases xs) simp_all

lemma py_index_eq_Inr_iff:
  "py_index xs v = Inr k \<longleftrightarrow> k < length xs \<and> xs ! k = v \<and> (\<forall>j<k. xs ! j \<noteq> v)"
proof (induction xs arbitrary: k)
  case Nil
  then show ?case by simp
next
  case (Cons x xs)
  show ?case
  proof (cases "x = v")
    case True
    then show ?thesis by (cases k) auto
  next
    case False
    show ?thesis
    proof (cases k)
      case 0
      with False show ?thesis by (auto split: sum.splits)
    next
      case (Suc k')
      have "(\<forall>j<Suc k'. (x # xs) ! j \<noteq> v) \<longleftrightarrow> (\<forall>j<k'. xs ! j \<noteq> v)"
        using False by (auto simp: less_Suc_eq_0_disj)
      with False Suc Cons.IH [of k'] show ?thesis by (auto split: sum.splits)
    qed
  qed
qed

lemma py_index_ok_iff: "is_ok (py_index xs v) \<longleftrightarrow> v \<in> set xs"
  by (induction xs) (auto split: sum.splits)

text \<open>On a sorted list the minimum is the head, and the elements above a threshold
  are a suffix.\<close>

lemma fold_min_least: "\<forall>y\<in>set xs. (x::int) \<le> y \<Longrightarrow> fold min xs x = x"
  by (induction xs) (simp_all add: min_absorb2)

lemma py_min_sorted: "sorted xs \<Longrightarrow> xs \<noteq> [] \<Longrightarrow> py_min xs = Inr (hd xs)"
  by (cases xs) (simp_all add: fold_min_least)

lemma sorted_filter_ge_eq_dropWhile:
  fixes xs :: "'a::linorder list"
  assumes "sorted xs"
  shows "filter (\<lambda>x. t \<le> x) xs = dropWhile (\<lambda>x. x < t) xs"
  using assms
proof (induction xs)
  case Nil
  then show ?case by simp
next
  case (Cons x xs)
  show ?case
  proof (cases "x < t")
    case True
    with Cons show ?thesis by simp
  next
    case False
    with Cons.prems have "\<forall>y\<in>set (x # xs). t \<le> y" by auto
    then have "filter (\<lambda>x. t \<le> x) (x # xs) = x # xs" by (simp add: filter_id_conv)
    with False show ?thesis by simp
  qed
qed

lemma hd_dropWhile_nth:
  "dropWhile P xs \<noteq> [] \<Longrightarrow> hd (dropWhile P xs) = xs ! length (takeWhile P xs)"
  by (simp add: dropWhile_eq_drop hd_drop_conv_nth)

lemma length_takeWhile_eq_iff:
  "length (takeWhile P xs) = k \<longleftrightarrow>
     k \<le> length xs \<and> (\<forall>j<k. P (xs ! j)) \<and> (k < length xs \<longrightarrow> \<not> P (xs ! k))"
proof
  assume "length (takeWhile P xs) = k"
  then show "k \<le> length xs \<and> (\<forall>j<k. P (xs ! j)) \<and> (k < length xs \<longrightarrow> \<not> P (xs ! k))"
    by (metis length_takeWhile_le nth_length_takeWhile nth_mem set_takeWhileD takeWhile_nth)
next
  assume a: "k \<le> length xs \<and> (\<forall>j<k. P (xs ! j)) \<and> (k < length xs \<longrightarrow> \<not> P (xs ! k))"
  then have "takeWhile P xs = take k xs"
    by (intro takeWhile_eq_take_P_nth) auto
  with a show "length (takeWhile P xs) = k" by simp
qed

lemma sorted_wrt_less_le_last:
  fixes xs :: "'a::linorder list"
  shows "sorted_wrt (<) xs \<Longrightarrow> x \<in> set xs \<Longrightarrow> x \<le> last xs"
  by (induction xs) (auto simp: less_imp_le)

lemma sorted_wrt_less_snoc:
  fixes xs :: "'a::linorder list"
  assumes "sorted_wrt (<) xs" and "xs \<noteq> []" and "last xs < y"
  shows "sorted_wrt (<) (xs @ [y])"
  using assms sorted_wrt_less_le_last [OF assms(1)]
  by (auto simp: sorted_wrt_append intro: le_less_trans)

text \<open>Floor division against a positive divisor.\<close>

lemma int_le_div_iff:
  fixes n x t :: int
  assumes "0 < x"
  shows "t \<le> n div x \<longleftrightarrow> t * x \<le> n"
proof
  assume "t \<le> n div x"
  with assms have "t * x \<le> (n div x) * x" by (simp add: mult_right_mono)
  also have "\<dots> \<le> n"
    using assms pos_mod_sign [of x n] div_mult_mod_eq [of n x] by linarith
  finally show "t * x \<le> n" .
next
  assume "t * x \<le> n"
  then have "(t * x) div x \<le> n div x" using assms by (rule zdiv_mono1)
  with assms show "t \<le> n div x" by simp
qed

section \<open>NumPy primitives\<close>

text \<open>
  \<^verbatim>\<open>np.average\<close> of a one-dimensional array: the arithmetic mean, NaN for the empty
  array (NumPy warns and returns NaN; it does not raise).
\<close>

definition np_average :: "real list \<Rightarrow> real option" where
  "np_average xs = (if xs = [] then None else Some (sum_list xs / real (length xs)))"

text \<open>
  Storing a float into a \<^verbatim>\<open>uint8\<close> array converts it as C does: truncation towards
  zero.  For a value outside \<open>[0, 256)\<close> C leaves the result undefined; the model
  takes the truncated integer modulo 256, and the lemmas below are stated for values
  in range.
\<close>

definition to_uint8 :: "real \<Rightarrow> 8 word" where
  "to_uint8 v = word_of_int (py_int v)"

declare np_average_def [py_defs] to_uint8_def [py_defs]

lemma np_average_eq_None_iff [simp]: "np_average xs = None \<longleftrightarrow> xs = []"
  by (simp add: np_average_def)

lemma np_average_replicate: "0 < n \<Longrightarrow> np_average (replicate n v) = Some v"
  by (simp add: np_average_def sum_list_replicate)

lemma sum_list_bounds:
  fixes xs :: "real list"
  assumes "\<forall>x\<in>set xs. lo \<le> x \<and> x \<le> hi"
  shows "lo * real (length xs) \<le> sum_list xs \<and> sum_list xs \<le> hi * real (length xs)"
  using assms by (induction xs) (auto simp: algebra_simps)

lemma np_average_bounds:
  assumes "np_average xs = Some a" and "\<forall>x\<in>set xs. lo \<le> x \<and> x \<le> hi"
  shows "lo \<le> a \<and> a \<le> hi"
proof -
  from assms(1) have ne: "xs \<noteq> []" and a: "a = sum_list xs / real (length xs)"
    by (auto simp: np_average_def split: if_splits)
  from ne have pos: "0 < real (length xs)" by simp
  from sum_list_bounds [OF assms(2)] pos show ?thesis
    unfolding a by (simp add: pos_le_divide_eq pos_divide_le_eq)
qed

lemma unat_to_uint8:
  assumes "0 \<le> v" and "v < 256"
  shows "unat (to_uint8 v) = nat \<lfloor>v\<rfloor>"
proof -
  from assms have "0 \<le> \<lfloor>v\<rfloor>" and "\<lfloor>v\<rfloor> < 256" by (simp_all add: floor_less_iff)
  then show ?thesis
    using assms(1) by (simp add: to_uint8_def py_int_nonneg unat_eq_nat_uint uint_word_of_int)
qed

lemma to_uint8_of_nat: "n < 256 \<Longrightarrow> to_uint8 (real n) = of_nat n"
  by (simp add: to_uint8_def py_int_nonneg)

section \<open>The cast outside its range\<close>

text \<open>
  NumPy leaves the cast of a float outside the range of \<^verbatim>\<open>uint8\<close> undefined.  The model
  fixes it as truncation towards zero followed by wrap-around modulo 256, so that 256
  is stored as 0 and \<open>-1\<close> as 255; this is a choice of the model, recorded here, and the
  properties of the rendered image are stated for channels between 0 and 256
  (\<open>unat_to_uint8\<close>), where the cast is the integer part.
\<close>

lemma to_uint8_wraps:
  "uint (to_uint8 v) = py_int v mod 256 \<and>
   (0 \<le> v \<and> v < 256 \<longrightarrow> unat (to_uint8 v) = nat \<lfloor>v\<rfloor>)"
  using unat_to_uint8 [of v] by (simp add: to_uint8_def uint_word_of_int)

lemma to_uint8_wraps_example:
  "uint (to_uint8 256) = 0 \<and> uint (to_uint8 (- 1)) = 255 \<and> unat (to_uint8 (255 / 2)) = 127"
proof -
  have "\<lfloor>255 / 2 :: real\<rfloor> = 127" and "\<lceil>- 1 :: real\<rceil> = - 1"
    by (simp_all add: floor_eq_iff ceiling_eq_iff)
  with to_uint8_wraps [of 256] to_uint8_wraps [of "- 1"] to_uint8_wraps [of "255 / 2"]
  show ?thesis by (simp add: py_int_def)
qed

end
