(* ===== verification/Geometry.thy ===== *)
theory Geometry
  imports Prelude
begin

text \<open>
  The attributes that \<^verbatim>\<open>Fractal.mandelbrot\<close> stores on the object, the coordinate
  mapper \<^verbatim>\<open>pixels_to_coordinates\<close> and the escape test \<^verbatim>\<open>coordinates_good\<close>, with the
  lemmas on the affine map (centre, top row, one-pixel steps, injectivity) and on the
  radius-2 disc.
\<close>

section \<open>The object state\<close>

text \<open>
  One field per attribute assigned in \<^verbatim>\<open>mandelbrot\<close>; the methods below read them
  through \<open>self\<close>.  Image sizes, the magnification and the iteration budget are
  Python integers, the centre and the top are floats.
\<close>

record fractal =
  SPEAK :: bool
  MAGNIFICATION :: int
  DIVERGENCE_ITERATIONS :: int
  DIVERGENCE_LEVELS :: "int list"
  IMAGE_SIZE :: "int \<times> int"
  CENTER :: "real \<times> real"
  TOP :: real
  CENTER_PIXEL :: "int \<times> int"

text \<open>\<^verbatim>\<open>(int(w / 2), int(h / 2))\<close>: true division, then truncation.\<close>

definition center_pixel :: "int \<times> int \<Rightarrow> int \<times> int" where
  "center_pixel image_size =
     (py_int (real_of_int (fst image_size) / 2), py_int (real_of_int (snd image_size) / 2))"

section \<open>The coordinate mapper\<close>

definition unit_per_pixel :: "fractal \<Rightarrow> real" where
  "unit_per_pixel self =
     (TOP self - snd (CENTER self)) / (real_of_int (snd (IMAGE_SIZE self)) / 2)"

text \<open>
  The float division by \<^verbatim>\<open>IMAGE_SIZE[1] / 2\<close> raises \<open>ZeroDivisionError\<close> for an image
  of height 0; otherwise the method returns the pair \<open>(real, imaginary)\<close>.
\<close>

definition pixels_to_coordinates :: "fractal \<Rightarrow> real \<Rightarrow> real \<Rightarrow> (real \<times> real) result" where
  "pixels_to_coordinates self pixel_x pixel_y =
     (if snd (IMAGE_SIZE self) = 0 then raise ZeroDivisionError
      else
        let real = (pixel_x - real_of_int (fst (CENTER_PIXEL self))) * unit_per_pixel self
                     + fst (CENTER self);
            imaginary = (pixel_y - real_of_int (snd (CENTER_PIXEL self))) * unit_per_pixel self
                     - snd (CENTER self)
        in return (real, imaginary))"

section \<open>The escape test\<close>

definition coordinates_good :: "real \<Rightarrow> real \<Rightarrow> bool" where
  "coordinates_good re imaginary \<longleftrightarrow> sqrt (re\<^sup>2 + imaginary\<^sup>2) \<le> 2"

declare center_pixel_def [fractal_defs] unit_per_pixel_def [fractal_defs]
  pixels_to_coordinates_def [fractal_defs]

section \<open>Lemmas on the centre pixel\<close>

lemma center_pixel_even:
  "even w \<Longrightarrow> even h \<Longrightarrow> center_pixel (w, h) = (w div 2, h div 2)"
  by (simp add: center_pixel_def py_int_half_even)

lemma center_pixel_nonneg:
  "0 \<le> w \<Longrightarrow> 0 \<le> h \<Longrightarrow> center_pixel (w, h) = (w div 2, h div 2)"
  using py_int_div_nonneg [of w 2] py_int_div_nonneg [of h 2]
  by (simp add: center_pixel_def)

text \<open>For an odd negative size truncation and floor division differ.\<close>

lemma center_pixel_odd_negative: "center_pixel (- 3, - 3) = (- 1, - 1)"
  by (simp add: center_pixel_def py_int_def)

section \<open>Lemmas on the coordinate mapper\<close>

lemma pixels_to_coordinates_ok_iff:
  "is_ok (pixels_to_coordinates self x y) \<longleftrightarrow> snd (IMAGE_SIZE self) \<noteq> 0"
  by (simp add: pixels_to_coordinates_def Let_def)

lemma pixels_to_coordinates_raises_iff:
  "pixels_to_coordinates self x y = raise e \<longleftrightarrow> snd (IMAGE_SIZE self) = 0 \<and> e = ZeroDivisionError"
  by (auto simp: pixels_to_coordinates_def Let_def)

lemma pixels_to_coordinates_eq:
  "snd (IMAGE_SIZE self) \<noteq> 0 \<Longrightarrow>
   pixels_to_coordinates self x y =
     return ((x - real_of_int (fst (CENTER_PIXEL self))) * unit_per_pixel self + fst (CENTER self),
             (y - real_of_int (snd (CENTER_PIXEL self))) * unit_per_pixel self - snd (CENTER self))"
  by (simp add: pixels_to_coordinates_def Let_def)

lemma unit_per_pixel_pos:
  "snd (CENTER self) < TOP self \<Longrightarrow> 0 < snd (IMAGE_SIZE self) \<Longrightarrow> 0 < unit_per_pixel self"
  by (simp add: unit_per_pixel_def)

lemma unit_per_pixel_half_height:
  "snd (IMAGE_SIZE self) \<noteq> 0 \<Longrightarrow>
   real_of_int (snd (IMAGE_SIZE self)) / 2 * unit_per_pixel self = TOP self - snd (CENTER self)"
  by (simp add: unit_per_pixel_def)

text \<open>Moving by \<open>(dx, dy)\<close> pixels moves the point by \<open>(dx, dy)\<close> units per pixel.\<close>

lemma pixels_to_coordinates_shift:
  assumes "pixels_to_coordinates self x y = return (re, im)"
  shows "pixels_to_coordinates self (x + dx) (y + dy) =
           return (re + dx * unit_per_pixel self, im + dy * unit_per_pixel self)"
proof -
  from assms have nz: "snd (IMAGE_SIZE self) \<noteq> 0"
    using pixels_to_coordinates_ok_iff [of self x y] by simp
  from assms show ?thesis
    by (simp add: pixels_to_coordinates_eq [OF nz] algebra_simps)
qed

lemma pixels_to_coordinates_inj:
  assumes "pixels_to_coordinates self x y = return p"
    and "pixels_to_coordinates self x' y' = return p"
    and "unit_per_pixel self \<noteq> 0"
  shows "x = x' \<and> y = y'"
proof -
  from assms(1) have nz: "snd (IMAGE_SIZE self) \<noteq> 0"
    using pixels_to_coordinates_ok_iff [of self x y] by simp
  from assms show ?thesis
    by (auto simp: pixels_to_coordinates_eq [OF nz])
qed

section \<open>Lemmas on the escape test\<close>

lemma coordinates_good_iff [code]:
  "coordinates_good re im \<longleftrightarrow> re\<^sup>2 + im\<^sup>2 \<le> 4"
proof -
  have "sqrt (re\<^sup>2 + im\<^sup>2) \<le> 2 \<longleftrightarrow> sqrt (re\<^sup>2 + im\<^sup>2) \<le> sqrt 4"
    by simp
  also have "\<dots> \<longleftrightarrow> re\<^sup>2 + im\<^sup>2 \<le> 4"
    by (rule real_sqrt_le_iff)
  finally show ?thesis by (simp add: coordinates_good_def)
qed

lemma coordinates_good_cmod: "coordinates_good (Re z) (Im z) \<longleftrightarrow> cmod z \<le> 2"
  by (simp add: coordinates_good_def cmod_def)

lemma coordinates_good_Complex: "coordinates_good re im \<longleftrightarrow> cmod (Complex re im) \<le> 2"
  by (simp add: coordinates_good_def complex_norm)

lemma coordinates_good_symmetric:
  "coordinates_good (- re) im = coordinates_good re im"
  "coordinates_good re (- im) = coordinates_good re im"
  "coordinates_good im re = coordinates_good re im"
  by (simp_all add: coordinates_good_iff add.commute)

lemma coordinates_good_imp_bounds:
  assumes "coordinates_good re im"
  shows "\<bar>re\<bar> \<le> 2 \<and> \<bar>im\<bar> \<le> 2"
proof -
  from assms have "cmod (Complex re im) \<le> 2" by (simp add: coordinates_good_Complex)
  moreover have "\<bar>re\<bar> \<le> cmod (Complex re im)" "\<bar>im\<bar> \<le> cmod (Complex re im)"
    using abs_Re_le_cmod [of "Complex re im"] abs_Im_le_cmod [of "Complex re im"] by simp_all
  ultimately show ?thesis by linarith
qed

section \<open>Properties\<close>

text \<open>
  C23. The centre pixel is mapped to the point \<open>(center.real, - center.imaginary)\<close>:
  the real part of the configured centre is kept and the imaginary part changes sign.
\<close>

theorem center_pixel_maps_to_center:
  assumes "snd (IMAGE_SIZE self) \<noteq> 0"
  shows "pixels_to_coordinates self (real_of_int (fst (CENTER_PIXEL self)))
           (real_of_int (snd (CENTER_PIXEL self)))
         = return (fst (CENTER self), - snd (CENTER self))"
  using assms by (simp add: pixels_to_coordinates_eq)

theorem center_pixel_maps_to_center_witness:
  "pixels_to_coordinates
     \<lparr>SPEAK = True, MAGNIFICATION = 1, DIVERGENCE_ITERATIONS = 10, DIVERGENCE_LEVELS = [],
      IMAGE_SIZE = (4, 4), CENTER = (- 66 / 100, 1 / 2), TOP = 16 / 10, CENTER_PIXEL = (2, 2)\<rparr>
     2 2 = return (- 66 / 100, - 1 / 2)"
  using center_pixel_maps_to_center
    [of "\<lparr>SPEAK = True, MAGNIFICATION = 1, DIVERGENCE_ITERATIONS = 10, DIVERGENCE_LEVELS = [],
      IMAGE_SIZE = (4, 4), CENTER = (- 66 / 100, 1 / 2), TOP = 16 / 10, CENTER_PIXEL = (2, 2)\<rparr>"]
  by simp

text \<open>
  C24. For an image of even height whose centre pixel is the one \<^verbatim>\<open>mandelbrot\<close>
  stores, every point of pixel row 0 has the imaginary coordinate \<open>- TOP\<close>: the top
  row of the image lies at minus the configured top.
\<close>

theorem top_row_maps_to_minus_top:
  assumes "snd (IMAGE_SIZE self) \<noteq> 0" and "even (snd (IMAGE_SIZE self))"
    and "CENTER_PIXEL self = center_pixel (IMAGE_SIZE self)"
  shows "\<exists>re. pixels_to_coordinates self x 0 = return (re, - TOP self)"
proof -
  have cp: "real_of_int (snd (CENTER_PIXEL self)) = real_of_int (snd (IMAGE_SIZE self)) / 2"
    using assms(2,3) by (auto simp: center_pixel_def elim!: evenE)
  have "(0 - real_of_int (snd (CENTER_PIXEL self))) * unit_per_pixel self - snd (CENTER self)
      = - TOP self"
    unfolding cp using unit_per_pixel_half_height [OF assms(1)] by (simp add: algebra_simps)
  then show ?thesis
    by (simp add: pixels_to_coordinates_eq [OF assms(1)])
qed

theorem top_row_maps_to_minus_top_witness:
  "\<exists>re. pixels_to_coordinates
     \<lparr>SPEAK = True, MAGNIFICATION = 1, DIVERGENCE_ITERATIONS = 10, DIVERGENCE_LEVELS = [],
      IMAGE_SIZE = (4, 4), CENTER = (- 66 / 100, 0), TOP = 16 / 10, CENTER_PIXEL = (2, 2)\<rparr>
     3 0 = return (re, - (16 / 10))"
  using top_row_maps_to_minus_top
    [of "\<lparr>SPEAK = True, MAGNIFICATION = 1, DIVERGENCE_ITERATIONS = 10, DIVERGENCE_LEVELS = [],
      IMAGE_SIZE = (4, 4), CENTER = (- 66 / 100, 0), TOP = 16 / 10, CENTER_PIXEL = (2, 2)\<rparr>" 3]
  by (simp add: center_pixel_def)

text \<open>
  C25. The escape test is inclusive at the boundary: a point at distance exactly 2
  from the origin is good, and a point is not good exactly when its squared distance
  exceeds 4.
\<close>

theorem coordinates_good_boundary:
  "(re\<^sup>2 + im\<^sup>2 = 4 \<longrightarrow> coordinates_good re im) \<and>
   (\<not> coordinates_good re im \<longleftrightarrow> 4 < re\<^sup>2 + im\<^sup>2)"
  by (auto simp: coordinates_good_iff)

theorem coordinates_good_boundary_witness:
  "coordinates_good 2 0 \<and> coordinates_good 0 (- 2) \<and> \<not> coordinates_good 3 0"
  using coordinates_good_boundary [of 2 0] coordinates_good_boundary [of 0 "- 2"]
    coordinates_good_boundary [of 3 0]
  by simp

text \<open>
  The pixel grid is uniform: one pixel to the right adds \<open>unit_per_pixel\<close> to
  the real coordinate, one pixel down adds it to the imaginary coordinate, and
  distinct pixel positions are mapped to distinct points.
\<close>

theorem pixel_grid_uniform:
  assumes "pixels_to_coordinates self x y = return (re, im)"
  shows "pixels_to_coordinates self (x + 1) y = return (re + unit_per_pixel self, im) \<and>
         pixels_to_coordinates self x (y + 1) = return (re, im + unit_per_pixel self) \<and>
         (unit_per_pixel self \<noteq> 0 \<and> pixels_to_coordinates self x' y' = return (re, im)
            \<longrightarrow> x' = x \<and> y' = y)"
  using pixels_to_coordinates_shift [OF assms, of 1 0]
    pixels_to_coordinates_shift [OF assms, of 0 1]
    pixels_to_coordinates_inj [OF _ assms, of x' y']
  by simp

theorem pixel_grid_uniform_witness:
  "pixels_to_coordinates
     \<lparr>SPEAK = True, MAGNIFICATION = 1, DIVERGENCE_ITERATIONS = 10, DIVERGENCE_LEVELS = [],
      IMAGE_SIZE = (4, 4), CENTER = (0, 0), TOP = 2, CENTER_PIXEL = (2, 2)\<rparr>
     (2 + 1) 2 = return (1, 0)"
proof -
  have "pixels_to_coordinates
     \<lparr>SPEAK = True, MAGNIFICATION = 1, DIVERGENCE_ITERATIONS = 10, DIVERGENCE_LEVELS = [],
      IMAGE_SIZE = (4, 4), CENTER = (0, 0), TOP = 2, CENTER_PIXEL = (2, 2)\<rparr>
     2 2 = return (0, 0)"
    by (simp add: pixels_to_coordinates_def)
  from pixel_grid_uniform [OF this] show ?thesis
    by (simp add: unit_per_pixel_def)
qed

end
