(* ===== verification/Escape.thy ===== *)
theory Escape
  imports Geometry
begin

text \<open>
  The divergence classifier: \<^verbatim>\<open>next_mandelbrot\<close> and the escape-time loop of
  \<^verbatim>\<open>mandelbrot\<close> (\<^verbatim>\<open>for d_i in range(self.DIVERGENCE_ITERATIONS)\<close>), its abstract
  specification by the orbit of 0 under \<open>z \<mapsto> z\<^sup>2 + c\<close>, the refinement between the two,
  and the facts on orbits that justify the radius-2 test.
\<close>

section \<open>Operations\<close>

text \<open>\<^verbatim>\<open>z\<close> is \<^verbatim>\<open>None\<close> before the first iteration and stands for 0.\<close>

definition next_mandelbrot :: "complex option \<Rightarrow> complex \<Rightarrow> complex" where
  "next_mandelbrot z c = (let z = (case z of None \<Rightarrow> 0 | Some z \<Rightarrow> z) in z\<^sup>2 + c)"

text \<open>
  The loop over the iteration indices: \<open>Some d_i\<close> is the index at which the loop
  breaks (the first iterate outside the disc), \<open>None\<close> is a loop that runs to its end
  with \<^verbatim>\<open>diverges\<close> still false.
\<close>

fun divergence_loop :: "complex \<Rightarrow> complex option \<Rightarrow> nat list \<Rightarrow> nat option" where
  "divergence_loop c z [] = None"
| "divergence_loop c z (d_i # ds) =
     (let z = next_mandelbrot z c
      in if \<not> coordinates_good (Re z) (Im z) then Some d_i
         else divergence_loop c (Some z) ds)"

declare next_mandelbrot_def [fractal_defs]

section \<open>Abstract specification\<close>

text \<open>The orbit of 0, and the escape time within a budget of \<open>n\<close> iterations.\<close>

primrec orbit :: "complex \<Rightarrow> nat \<Rightarrow> complex" where
  "orbit c 0 = 0"
| "orbit c (Suc n) = (orbit c n)\<^sup>2 + c"

lemmas orbit_Suc = orbit.simps(2)

declare orbit.simps(2) [simp del]

definition escapes_at :: "complex \<Rightarrow> nat \<Rightarrow> bool" where
  "escapes_at c k \<longleftrightarrow> 2 < cmod (orbit c (Suc k)) \<and> (\<forall>j<k. cmod (orbit c (Suc j)) \<le> 2)"

definition escape_time :: "complex \<Rightarrow> nat \<Rightarrow> nat option" where
  "escape_time c n =
     (if \<exists>k<n. 2 < cmod (orbit c (Suc k)) then Some (LEAST k. 2 < cmod (orbit c (Suc k)))
      else None)"

definition mandelbrot_set :: "complex set" where
  "mandelbrot_set = {c. \<forall>n. cmod (orbit c n) \<le> 2}"

section \<open>Lemmas on one iteration\<close>

lemma next_mandelbrot_None [simp]: "next_mandelbrot None c = c"
  by (simp add: next_mandelbrot_def)

lemma next_mandelbrot_Some [simp]: "next_mandelbrot (Some z) c = z\<^sup>2 + c"
  by (simp add: next_mandelbrot_def)

lemma next_mandelbrot_None_eq_Some_0: "next_mandelbrot None c = next_mandelbrot (Some 0) c"
  by simp

lemma next_mandelbrot_orbit [simp]: "next_mandelbrot (Some (orbit c n)) c = orbit c (Suc n)"
  by (simp add: orbit_Suc)

lemma orbit_1 [simp]: "orbit c (Suc 0) = c"
  by (simp add: orbit_Suc)

lemma orbit_zero [simp]: "orbit 0 n = 0"
  by (induction n) (simp_all add: orbit_Suc)

lemma orbit_cnj: "orbit (cnj c) n = cnj (orbit c n)"
  by (induction n) (simp_all add: orbit_Suc)

section \<open>Lemmas on the loop\<close>

lemma divergence_loop_None_start: "divergence_loop c None ds = divergence_loop c (Some 0) ds"
  by (cases ds) simp_all

lemma escapes_at_unique: "escapes_at c k \<Longrightarrow> escapes_at c k' \<Longrightarrow> k = k'"
  unfolding escapes_at_def by (metis linorder_neqE_nat not_le)

lemma divergence_loop_orbit_Cons:
  "divergence_loop c (Some (orbit c k)) (k # ds) =
     (if 2 < cmod (orbit c (Suc k)) then Some k
      else divergence_loop c (Some (orbit c (Suc k))) ds)"
  by (simp add: Let_def coordinates_good_cmod orbit_Suc not_le)

text \<open>The loop started at iterate \<open>k\<close> over the indices \<open>k, \<dots>, k + m - 1\<close>.\<close>

lemma divergence_loop_from:
  "divergence_loop c (Some (orbit c k)) [k..<k + m] =
     (if \<exists>j. k \<le> j \<and> j < k + m \<and> 2 < cmod (orbit c (Suc j))
      then Some (LEAST j. k \<le> j \<and> 2 < cmod (orbit c (Suc j))) else None)"
proof (induction m arbitrary: k)
  case 0
  then show ?case by simp
next
  case (Suc m)
  have list: "[k..<k + Suc m] = k # [Suc k..<Suc k + m]"
    by (simp add: upt_rec)
  have unfold: "divergence_loop c (Some (orbit c k)) [k..<k + Suc m] =
      (if 2 < cmod (orbit c (Suc k)) then Some k
       else divergence_loop c (Some (orbit c (Suc k))) [Suc k..<Suc k + m])"
    by (simp only: list divergence_loop_orbit_Cons)
  show ?case
  proof (cases "2 < cmod (orbit c (Suc k))")
    case True
    then have "(LEAST j. k \<le> j \<and> 2 < cmod (orbit c (Suc j))) = k"
      by (intro Least_equality) auto
    moreover from True have "\<exists>j. k \<le> j \<and> j < k + Suc m \<and> 2 < cmod (orbit c (Suc j))"
      by (intro exI [of _ k]) simp
    ultimately show ?thesis
      using True by (simp only: unfold if_True)
  next
    case False
    have ex: "(\<exists>j. k \<le> j \<and> j < k + Suc m \<and> 2 < cmod (orbit c (Suc j))) \<longleftrightarrow>
              (\<exists>j. Suc k \<le> j \<and> j < Suc k + m \<and> 2 < cmod (orbit c (Suc j)))"
      using False by (metis Suc_leI add_Suc add_Suc_right le_neq_implies_less Suc_leD)
    have least: "(\<lambda>j. k \<le> j \<and> 2 < cmod (orbit c (Suc j))) =
                 (\<lambda>j. Suc k \<le> j \<and> 2 < cmod (orbit c (Suc j)))"
      using False by (metis Suc_leI le_neq_implies_less Suc_leD)
    from False show ?thesis
      by (simp only: unfold if_False ex least Suc.IH [of "Suc k"])
  qed
qed

lemma divergence_loop_eq_escape_time:
  "divergence_loop c None [0..<n] = escape_time c n"
  using divergence_loop_from [of c 0 n]
  by (simp add: divergence_loop_None_start escape_time_def)

lemma divergence_loop_py_range:
  "divergence_loop c None (py_range n) = escape_time c (nat n)"
  by (simp add: py_range_def divergence_loop_eq_escape_time)

lemma escape_time_eq_Some_iff: "escape_time c n = Some k \<longleftrightarrow> k < n \<and> escapes_at c k"
proof
  assume "escape_time c n = Some k"
  then obtain j where j: "j < n" "2 < cmod (orbit c (Suc j))"
    and k: "k = (LEAST k. 2 < cmod (orbit c (Suc k)))"
    by (auto simp: escape_time_def split: if_splits)
  from j(2) have "2 < cmod (orbit c (Suc k))" unfolding k by (rule LeastI)
  moreover have "\<forall>i<k. cmod (orbit c (Suc i)) \<le> 2"
    unfolding k using not_less_Least by (metis not_le)
  moreover have "k \<le> j" unfolding k using j(2) by (rule Least_le)
  ultimately show "k < n \<and> escapes_at c k"
    using j(1) by (simp add: escapes_at_def)
next
  assume a: "k < n \<and> escapes_at c k"
  then have "(LEAST k. 2 < cmod (orbit c (Suc k))) = k"
    by (intro Least_equality) (auto simp: escapes_at_def not_le [symmetric])
  with a show "escape_time c n = Some k"
    by (auto simp: escape_time_def escapes_at_def)
qed

lemma divergence_loop_breaks_iff:
  "divergence_loop c None (py_range n) = Some d_i \<longleftrightarrow> int d_i < n \<and> escapes_at c d_i"
  by (auto simp: divergence_loop_py_range escape_time_eq_Some_iff)

lemma escape_time_eq_None_iff:
  "escape_time c n = None \<longleftrightarrow> (\<forall>k<n. cmod (orbit c (Suc k)) \<le> 2)"
  unfolding escape_time_def by (simp add: not_less) (meson not_le)

lemma escape_time_mono:
  "escape_time c n = Some k \<Longrightarrow> n \<le> n' \<Longrightarrow> escape_time c n' = Some k"
  by (auto simp: escape_time_eq_Some_iff)

section \<open>Lemmas on orbits\<close>

text \<open>Outside the disc of radius 2, and at least as far out as \<open>c\<close>, an iterate grows.\<close>

lemma escape_step_grows:
  assumes "2 < cmod z" and "cmod c \<le> cmod z"
  shows "cmod z < cmod (z\<^sup>2 + c)"
proof -
  have "cmod z * cmod z - cmod z \<le> cmod (z\<^sup>2) - cmod c"
    using assms(2) by (simp add: norm_mult power2_eq_square)
  also have "\<dots> \<le> cmod (z\<^sup>2 + c)"
    using norm_triangle_ineq2 [of "z\<^sup>2" "- c"] by simp
  finally have "cmod z * (cmod z - 1) \<le> cmod (z\<^sup>2 + c)"
    by (simp add: algebra_simps)
  moreover have "cmod z * 1 < cmod z * (cmod z - 1)"
    using assms(1) by (intro mult_strict_left_mono) auto
  ultimately show ?thesis by simp
qed

lemma orbit_escaped_step:
  assumes "2 < cmod (orbit c n)" and "cmod c \<le> cmod (orbit c n)"
  shows "cmod (orbit c n) < cmod (orbit c (Suc n))"
  using escape_step_grows [OF assms] by (simp add: orbit_Suc)

lemma orbit_escaped_stays:
  assumes "2 < cmod (orbit c n)" and "cmod c \<le> cmod (orbit c n)"
  shows "cmod (orbit c n) \<le> cmod (orbit c (n + m))"
proof (induction m)
  case 0
  then show ?case by simp
next
  case (Suc m)
  from Suc assms have "2 < cmod (orbit c (n + m))" "cmod c \<le> cmod (orbit c (n + m))"
    by linarith+
  then have "cmod (orbit c (n + m)) < cmod (orbit c (Suc (n + m)))"
    by (rule orbit_escaped_step)
  with Suc show ?case by simp
qed

text \<open>The first iterate outside the disc is at least as far out as \<open>c\<close>.\<close>

lemma first_escape_dominates:
  assumes "2 < cmod (orbit c n)"
  shows "\<exists>k\<le>n. 2 < cmod (orbit c k) \<and> cmod c \<le> cmod (orbit c k)"
proof (cases "cmod c \<le> 2")
  case True
  with assms show ?thesis by (intro exI [of _ n]) simp
next
  case False
  show ?thesis
  proof (cases n)
    case 0
    with assms show ?thesis by simp
  next
    case (Suc n')
    with False show ?thesis by (intro exI [of _ "Suc 0"]) simp
  qed
qed

lemma small_c_bounded:
  assumes "cmod c \<le> 1 / 4"
  shows "cmod (orbit c n) \<le> 1 / 2"
proof (induction n)
  case 0
  then show ?case by simp
next
  case (Suc n)
  have "cmod (orbit c (Suc n)) \<le> cmod ((orbit c n)\<^sup>2) + cmod c"
    unfolding orbit_Suc by (rule norm_triangle_ineq)
  also have "cmod ((orbit c n)\<^sup>2) = (cmod (orbit c n))\<^sup>2"
    by (simp add: norm_power)
  also have "(cmod (orbit c n))\<^sup>2 \<le> (1 / 2)\<^sup>2"
    using Suc by (intro power_mono) simp_all
  finally show ?case using assms by (simp add: power2_eq_square)
qed

text \<open>One step from the disc stays within radius 6.\<close>

lemma orbit_step_bound: "cmod (orbit c n) \<le> 2 \<Longrightarrow> cmod c \<le> 2 \<Longrightarrow> cmod (orbit c (Suc n)) \<le> 6"
proof -
  assume a: "cmod (orbit c n) \<le> 2" and c: "cmod c \<le> 2"
  have "cmod (orbit c (Suc n)) \<le> (cmod (orbit c n))\<^sup>2 + cmod c"
    unfolding orbit_Suc by (metis norm_triangle_ineq norm_power)
  moreover from a have "(cmod (orbit c n))\<^sup>2 \<le> 2\<^sup>2" by (intro power_mono) simp_all
  ultimately show ?thesis using c by simp
qed

lemma escapes_at_bound:
  assumes "escapes_at c d_i" and "cmod c \<le> 2" and "j \<le> d_i"
  shows "cmod (orbit c (Suc j)) \<le> 6"
proof (cases "j < d_i")
  case True
  with assms(1) have "cmod (orbit c (Suc j)) \<le> 2" by (simp add: escapes_at_def)
  then show ?thesis by simp
next
  case False
  with assms(3) have j: "j = d_i" by simp
  have "cmod (orbit c d_i) \<le> 2"
    using assms(1) by (cases d_i) (simp_all add: escapes_at_def)
  then show ?thesis unfolding j using assms(2) by (rule orbit_step_bound)
qed

section \<open>Lemmas on the set\<close>

lemma member_in_disc: "c \<in> mandelbrot_set \<Longrightarrow> cmod c \<le> 2"
  unfolding mandelbrot_set_def using orbit_1 [of c] by (metis mem_Collect_eq)

lemma member_never_breaks:
  "c \<in> mandelbrot_set \<Longrightarrow> divergence_loop c None (py_range n) = None"
  by (simp add: divergence_loop_py_range escape_time_eq_None_iff mandelbrot_set_def)

lemma breaks_not_member:
  "divergence_loop c None (py_range n) = Some d_i \<Longrightarrow> c \<notin> mandelbrot_set"
  using member_never_breaks [of c n] by auto

lemma outside_disc_not_member: "2 < cmod c \<Longrightarrow> c \<notin> mandelbrot_set"
  using member_in_disc [of c] by auto

lemma zero_member [simp]: "0 \<in> mandelbrot_set"
  by (simp add: mandelbrot_set_def)

text \<open>The loop cannot tell a point from its complex conjugate.\<close>

lemma divergence_loop_cnj:
  "divergence_loop (cnj c) None (py_range n) = divergence_loop c None (py_range n)"
  by (simp add: divergence_loop_py_range escape_time_def orbit_cnj)

section \<open>Properties\<close>

text \<open>
  C3. The escape loop implements the escape-time contract: run with a budget of
  \<open>n\<close> iterations from \<open>z = None\<close>, it breaks at index \<open>d_i\<close> exactly when
  \<open>d_i\<close> is within the budget, iterate \<open>d_i + 1\<close> of the orbit of 0 under
  \<open>z \<mapsto> z\<^sup>2 + c\<close> lies outside the disc of radius 2, and no earlier iterate does;
  it runs to its end exactly when the first \<open>n\<close> iterates stay in the disc.
\<close>

theorem divergence_loop_refines_escape_time:
  "(divergence_loop c None (py_range n) = Some d_i \<longleftrightarrow>
      int d_i < n \<and> 2 < cmod (orbit c (Suc d_i)) \<and> (\<forall>j<d_i. cmod (orbit c (Suc j)) \<le> 2)) \<and>
   (divergence_loop c None (py_range n) = None \<longleftrightarrow>
      (\<forall>k. int k < n \<longrightarrow> cmod (orbit c (Suc k)) \<le> 2))"
  by (auto simp: divergence_loop_py_range escape_time_eq_Some_iff escape_time_eq_None_iff
      escapes_at_def)

theorem divergence_loop_refines_escape_time_witness:
  "divergence_loop (Complex 3 0) None (py_range 5) = Some 0 \<and>
   divergence_loop 0 None (py_range 5) = None"
  using divergence_loop_refines_escape_time [of "Complex 3 0" 5 0]
    divergence_loop_refines_escape_time [of 0 5 0]
  by (simp add: complex_norm)

text \<open>
  C22. The radius-2 test is sound: for a point \<open>c\<close> of the disc, once the loop has
  broken at index \<open>d_i\<close>, every later iterate of the orbit lies outside the disc as
  well, so \<open>c\<close> is not in the Mandelbrot set and a larger budget would not have
  classified it differently.
\<close>

theorem escape_is_final:
  assumes "cmod c \<le> 2" and "divergence_loop c None (py_range n) = Some d_i"
  shows "2 < cmod (orbit c (Suc d_i + m)) \<and> c \<notin> mandelbrot_set"
proof -
  from assms(2) have out: "2 < cmod (orbit c (Suc d_i))"
    by (simp add: divergence_loop_breaks_iff escapes_at_def)
  with assms(1) have "cmod c \<le> cmod (orbit c (Suc d_i))" by simp
  with out have "cmod (orbit c (Suc d_i)) \<le> cmod (orbit c (Suc d_i + m))"
    by (rule orbit_escaped_stays)
  with out show ?thesis
    by (auto simp: mandelbrot_set_def not_le intro: exI [of _ "Suc d_i"])
qed

theorem escape_is_final_witness:
  "cmod (Complex 1 1) \<le> 2 \<and> divergence_loop (Complex 1 1) None (py_range 3) = Some 1 \<and>
   2 < cmod (orbit (Complex 1 1) (Suc 1 + 5)) \<and> Complex 1 1 \<notin> mandelbrot_set"
proof -
  have h1: "cmod (Complex 1 1) \<le> 2"
    by (simp add: complex_norm real_le_lsqrt)
  have h2: "divergence_loop (Complex 1 1) None (py_range 3) = Some 1"
    by (simp add: py_range_def upt_rec coordinates_good_iff Let_def power2_eq_square)
  from escape_is_final [OF h1 h2, of 5] h1 h2 show ?thesis by simp
qed

text \<open>
  A point within distance 1/4 of the origin is classified as a member of the
  set for every budget: its orbit never leaves the disc of radius 1/2.
\<close>

theorem small_c_is_member:
  assumes "cmod c \<le> 1 / 4"
  shows "divergence_loop c None (py_range n) = None"
proof -
  have "cmod (orbit c (Suc k)) \<le> 2" for k
    using small_c_bounded [OF assms, of "Suc k"] by simp
  then show ?thesis
    by (simp add: divergence_loop_py_range escape_time_eq_None_iff)
qed

theorem small_c_is_member_witness:
  "divergence_loop 0 None (py_range 1600) = None"
  using small_c_is_member [of 0 1600] by simp

text \<open>
  A larger iteration budget never changes the index at which the loop breaks.
\<close>

theorem budget_monotone:
  assumes "divergence_loop c None (py_range n) = Some d_i" and "n \<le> n'"
  shows "divergence_loop c None (py_range n') = Some d_i"
  using assms by (auto simp: divergence_loop_breaks_iff)

theorem budget_monotone_witness:
  "divergence_loop (Complex 1 1) None (py_range 1600) = Some 1"
proof -
  have "divergence_loop (Complex 1 1) None (py_range 3) = Some 1"
    by (simp add: py_range_def upt_rec coordinates_good_iff Let_def power2_eq_square)
  then show ?thesis by (rule budget_monotone) simp
qed

text \<open>
  C21. The numbers of the escape loop stay small.  For a point \<open>c\<close> of the disc of radius
  2, the only points that the loop is run for, every value of \<open>z\<close> that the loop
  computes, up to and including the one that makes it break, has modulus at most 6:
  the loop leaves at the first value outside the disc, one squaring after a value
  inside.  The bound is reached for \<open>c = 2\<close>.  So the iteration cannot overflow.
\<close>

theorem iterates_bounded:
  assumes "cmod c \<le> 2" and "divergence_loop c None (py_range n) = r"
  shows "\<forall>j. (case r of Some d_i \<Rightarrow> j \<le> d_i | None \<Rightarrow> int j < n) \<longrightarrow>
           cmod (orbit c (Suc j)) \<le> 6"
proof (cases r)
  case None
  with assms(2) have le2: "\<forall>k<nat n. cmod (orbit c (Suc k)) \<le> 2"
    by (simp add: divergence_loop_py_range escape_time_eq_None_iff)
  have "cmod (orbit c (Suc j)) \<le> 6" if "int j < n" for j
  proof -
    from that have "j < nat n" by simp
    with le2 have "cmod (orbit c (Suc j)) \<le> 2" by simp
    then show ?thesis by simp
  qed
  with None show ?thesis by simp
next
  case (Some d_i)
  with assms(2) have "escapes_at c d_i" by (simp add: divergence_loop_breaks_iff)
  with Some assms(1) show ?thesis by (auto intro: escapes_at_bound)
qed

theorem iterates_bounded_witness:
  "cmod (Complex 2 0) \<le> 2 \<and> divergence_loop (Complex 2 0) None (py_range 5) = Some 1 \<and>
   cmod (orbit (Complex 2 0) 2) \<le> 6 \<and> cmod (orbit (Complex 2 0) 2) = 6"
proof -
  have d: "divergence_loop (Complex 2 0) None (py_range 5) = Some 1"
    by (simp add: py_range_def upt_rec coordinates_good_iff complex_eq_iff power2_eq_square)
  have "orbit (Complex 2 0) 2 = Complex 6 0"
    by (simp add: orbit_Suc numeral_2_eq_2 power2_eq_square complex_eq_iff)
  then have "cmod (orbit (Complex 2 0) 2) = 6" by (simp add: complex_norm)
  with iterates_bounded [OF _ d, rule_format, of 1] d show ?thesis
    by (simp add: complex_norm)
qed

end
