(* ===== verification/Levels.thy ===== *)
theory Levels
  imports Prelude
begin

text \<open>
  Brightness bucketing: the threshold table \<^verbatim>\<open>DIVERGENCE_LEVELS\<close> and the search of
  \<^verbatim>\<open>mandelbrot\<close> that turns the index \<^verbatim>\<open>d_i\<close> of the escaping iteration into a
  brightness level (\<^verbatim>\<open>min\<close> of the thresholds not below \<^verbatim>\<open>d_i + 1\<close>, then
  \<^verbatim>\<open>index\<close>).  The lemmas give the shape of the table, the characterisation of the
  search as a first-index search, its closed form, its totality within the iteration
  budget, and its monotonicity.
\<close>

section \<open>Operations\<close>

text \<open>\<^verbatim>\<open>[n // x for x in reversed(range(1, 256))]\<close>\<close>

definition divergence_levels :: "int \<Rightarrow> int list" where
  "divergence_levels n = map (\<lambda>x. n div int x) (rev [1..<256])"

text \<open>
  \<^verbatim>\<open>d_min = min([x for x in levels if d_i + 1 <= x])\<close>, then \<^verbatim>\<open>levels.index(d_min)\<close>.
  Both calls raise \<open>ValueError\<close> when there is nothing to return.
\<close>

definition divergence_multiplier :: "int list \<Rightarrow> nat \<Rightarrow> nat result" where
  "divergence_multiplier levels d_i =
     (case py_min (filter (\<lambda>x. int d_i + 1 \<le> x) levels) of
        Inl e \<Rightarrow> Inl e
      | Inr d_min \<Rightarrow> py_index levels d_min)"

declare divergence_levels_def [fractal_defs] divergence_multiplier_def [fractal_defs]

section \<open>The threshold table\<close>

lemma length_divergence_levels [simp]: "length (divergence_levels n) = 255"
  by (simp add: divergence_levels_def)

lemma nth_divergence_levels:
  "k < 255 \<Longrightarrow> divergence_levels n ! k = n div (255 - int k)"
  by (simp add: divergence_levels_def rev_nth of_nat_diff)

lemma divergence_levels_nonempty [simp]: "divergence_levels n \<noteq> []"
  using length_divergence_levels [of n] by (metis list.size(3) zero_neq_numeral)

lemma last_divergence_levels: "last (divergence_levels n) = n"
  by (simp add: last_conv_nth nth_divergence_levels)

lemma hd_divergence_levels: "hd (divergence_levels n) = n div 255"
  by (simp add: hd_conv_nth nth_divergence_levels)

lemma sorted_divergence_levels:
  assumes "0 \<le> n"
  shows "sorted (divergence_levels n)"
proof (unfold sorted_iff_nth_mono, intro allI impI)
  fix i j
  assume "i \<le> j" and "j < length (divergence_levels n)"
  then have "j < 255" and "i < 255" by simp_all
  moreover from \<open>i \<le> j\<close> \<open>j < 255\<close> have "n div (255 - int i) \<le> n div (255 - int j)"
    using assms by (intro zdiv_mono2) simp_all
  ultimately show "divergence_levels n ! i \<le> divergence_levels n ! j"
    by (simp add: nth_divergence_levels)
qed

lemma divergence_levels_bounds:
  assumes "0 \<le> n" and "x \<in> set (divergence_levels n)"
  shows "0 \<le> x \<and> x \<le> n"
proof -
  from assms(2) obtain k where k: "k < 255" and x: "x = n div (255 - int k)"
    by (auto simp: in_set_conv_nth nth_divergence_levels)
  from k have pos: "0 < 255 - int k" by simp
  have "n div (255 - int k) \<le> n div 1"
    using assms(1) pos by (intro zdiv_mono2) simp_all
  with assms(1) pos show ?thesis
    by (simp add: x pos_imp_zdiv_nonneg_iff)
qed

section \<open>The search as a first-index search\<close>

text \<open>
  On a sorted table that holds a threshold not below \<open>d_i + 1\<close>, the search returns
  the first index whose threshold is not below \<open>d_i + 1\<close>.
\<close>

lemma divergence_multiplier_sorted:
  assumes "sorted levels" and "\<exists>x\<in>set levels. int d_i + 1 \<le> x"
  shows "divergence_multiplier levels d_i =
           return (length (takeWhile (\<lambda>x. x < int d_i + 1) levels))"
proof -
  let ?P = "\<lambda>x. x < int d_i + 1"
  let ?k = "length (takeWhile ?P levels)"
  have filter: "filter (\<lambda>x. int d_i + 1 \<le> x) levels = dropWhile ?P levels"
    using assms(1) by (rule sorted_filter_ge_eq_dropWhile)
  from assms(2) obtain x where "x \<in> set levels" and "\<not> ?P x"
    by (auto simp: not_less)
  then have ne: "dropWhile ?P levels \<noteq> []"
    by (auto simp: dropWhile_eq_Nil_conv)
  have "length (takeWhile ?P levels) + length (dropWhile ?P levels) = length levels"
    by (metis length_append takeWhile_dropWhile_id)
  with ne have k: "?k < length levels"
    by (cases "dropWhile ?P levels") simp_all
  have min: "py_min (dropWhile ?P levels) = return (levels ! ?k)"
    using assms(1) ne by (simp add: py_min_sorted sorted_dropWhile hd_dropWhile_nth)
  have "\<not> ?P (levels ! ?k)"
    using k by (rule nth_length_takeWhile)
  moreover have "\<forall>j<?k. ?P (levels ! j)"
    by (metis nth_mem set_takeWhileD takeWhile_nth)
  ultimately have "py_index levels (levels ! ?k) = return ?k"
    using k unfolding py_index_eq_Inr_iff by (metis order_less_irrefl)
  with min show ?thesis
    by (simp add: divergence_multiplier_def filter)
qed

lemma divergence_multiplier_raises:
  assumes "\<forall>x\<in>set levels. x < int d_i + 1"
  shows "divergence_multiplier levels d_i = raise ValueError"
proof -
  from assms have "filter (\<lambda>x. int d_i + 1 \<le> x) levels = []"
    by (auto simp: filter_empty_conv)
  then show ?thesis by (simp add: divergence_multiplier_def)
qed

lemma divergence_multiplier_sorted_iff:
  assumes "sorted levels"
  shows "divergence_multiplier levels d_i = return k \<longleftrightarrow>
           k < length levels \<and> int d_i + 1 \<le> levels ! k \<and> (\<forall>j<k. levels ! j < int d_i + 1)"
proof (cases "\<exists>x\<in>set levels. int d_i + 1 \<le> x")
  case True
  then obtain i where i: "i < length levels" "\<not> levels ! i < int d_i + 1"
    by (auto simp: in_set_conv_nth not_less)
  have "k < length levels" if "k \<le> length levels" "\<forall>j<k. levels ! j < int d_i + 1"
    using that i by (metis le_neq_implies_less)
  then show ?thesis
    unfolding divergence_multiplier_sorted [OF assms True]
    by (auto simp: length_takeWhile_eq_iff not_less)
next
  case False
  then have all: "\<forall>x\<in>set levels. x < int d_i + 1" by (auto simp: not_le)
  then have "\<not> (k < length levels \<and> int d_i + 1 \<le> levels ! k)"
    by (metis nth_mem not_le)
  with all show ?thesis
    by (auto simp: divergence_multiplier_raises)
qed

section \<open>Closed form on the threshold table\<close>

definition bucket :: "int \<Rightarrow> nat \<Rightarrow> nat" where
  "bucket n d_i = nat (255 - min 255 (n div (int d_i + 1)))"

lemma bucket_less: "int d_i < n \<Longrightarrow> bucket n d_i < 255"
proof -
  assume "int d_i < n"
  then have "1 * (int d_i + 1) \<le> n" by simp
  then have "1 \<le> n div (int d_i + 1)" by (subst int_le_div_iff) simp_all
  then show ?thesis by (simp add: bucket_def)
qed

lemma bucket_mono:
  assumes "0 \<le> n" and "d_i \<le> d_j"
  shows "bucket n d_i \<le> bucket n d_j"
proof -
  from assms have "n div (int d_j + 1) \<le> n div (int d_i + 1)"
    by (intro zdiv_mono2) simp_all
  then show ?thesis by (simp add: bucket_def)
qed

lemma divergence_multiplier_levels:
  assumes "int d_i < n"
  shows "divergence_multiplier (divergence_levels n) d_i = return (bucket n d_i)"
proof -
  let ?t = "int d_i + 1" and ?k = "bucket n d_i"
  let ?q = "n div ?t"
  from assms have n: "0 \<le> n" and t: "0 < ?t" by simp_all
  from assms have k: "?k < 255" by (rule bucket_less)
  have q: "0 \<le> ?q" using n t by (simp add: pos_imp_zdiv_nonneg_iff)
  have kq: "255 - int ?k = min 255 ?q" using q by (simp add: bucket_def)
  have pos: "0 < 255 - int ?k" using k by simp
  have "(255 - int ?k) * ?t \<le> ?q * ?t"
    using t kq by (intro mult_right_mono) simp_all
  also have "\<dots> \<le> n" using t by (simp add: int_le_div_iff [symmetric])
  finally have ge: "?t \<le> divergence_levels n ! ?k"
    using k pos by (simp add: nth_divergence_levels int_le_div_iff mult.commute)
  have lt: "divergence_levels n ! j < ?t" if "j < ?k" for j
  proof -
    from that k have j: "j < 255" by simp
    from that kq have "?q < 255 - int j" by (simp add: min_def split: if_splits)
    then have "\<not> (255 - int j) \<le> ?q" by simp
    then have "\<not> (255 - int j) * ?t \<le> n" using t by (simp add: int_le_div_iff)
    then have "\<not> ?t \<le> n div (255 - int j)"
      using j by (simp add: int_le_div_iff mult.commute)
    with j show ?thesis by (simp add: nth_divergence_levels)
  qed
  from k ge lt show ?thesis
    by (simp add: divergence_multiplier_sorted_iff [OF sorted_divergence_levels [OF n]])
qed

lemma divergence_levels_upper:
  assumes "x \<in> set (divergence_levels n)"
  shows "x \<le> max 0 n"
proof (cases "0 \<le> n")
  case True
  with assms show ?thesis using divergence_levels_bounds [of n x] by simp
next
  case False
  from assms obtain k where k: "k < 255" and x: "x = n div (255 - int k)"
    by (auto simp: in_set_conv_nth nth_divergence_levels)
  from False k have "n div (255 - int k) < 0"
    by (simp add: div_neg_pos_less0)
  with x show ?thesis by simp
qed

section \<open>Properties\<close>

text \<open>
  C4. The search \<^verbatim>\<open>min\<close>-then-\<^verbatim>\<open>index\<close> over the threshold table has a closed form:
  for an escape index \<open>d_i\<close> within the budget \<open>n\<close> it returns the level
  \<open>255 - min 255 (n div (d_i + 1))\<close>, and for an index at or beyond the budget it raises
  \<open>ValueError\<close>, as no threshold is large enough.
\<close>

theorem divergence_multiplier_closed_form:
  "(int d_i < n \<longrightarrow>
      divergence_multiplier (divergence_levels n) d_i =
        return (nat (255 - min 255 (n div (int d_i + 1))))) \<and>
   (n \<le> int d_i \<longrightarrow>
      divergence_multiplier (divergence_levels n) d_i = raise ValueError)"
proof (intro conjI impI)
  assume "int d_i < n"
  then show "divergence_multiplier (divergence_levels n) d_i =
      return (nat (255 - min 255 (n div (int d_i + 1))))"
    by (simp add: divergence_multiplier_levels bucket_def)
next
  assume n: "n \<le> int d_i"
  have "\<forall>x\<in>set (divergence_levels n). x < int d_i + 1"
    using n divergence_levels_upper [of _ n] by fastforce
  then show "divergence_multiplier (divergence_levels n) d_i = raise ValueError"
    by (rule divergence_multiplier_raises)
qed

theorem divergence_multiplier_closed_form_witness:
  "divergence_multiplier (divergence_levels 1600) 0 = return 0 \<and>
   divergence_multiplier (divergence_levels 1600) 9 = return 95 \<and>
   divergence_multiplier (divergence_levels 1600) 1599 = return 254 \<and>
   divergence_multiplier (divergence_levels 1600) 1600 = raise ValueError"
  using divergence_multiplier_closed_form [of 0 1600]
    divergence_multiplier_closed_form [of 9 1600]
    divergence_multiplier_closed_form [of 1599 1600]
    divergence_multiplier_closed_form [of 1600 1600]
  by simp

text \<open>
  C10. Brightness grows with the escape index: of two samples that escape within the
  budget, the one that escapes later is given a level at least as high, and every
  level is below 255.
\<close>

theorem later_escape_is_brighter:
  assumes "d_i \<le> d_j" and "int d_j < n"
  shows "\<exists>k k'. divergence_multiplier (divergence_levels n) d_i = return k \<and>
           divergence_multiplier (divergence_levels n) d_j = return k' \<and> k \<le> k' \<and> k' < 255"
proof -
  from assms have "int d_i < n" and "0 \<le> n" by simp_all
  with assms show ?thesis
    by (simp add: divergence_multiplier_levels bucket_mono bucket_less)
qed

theorem later_escape_is_brighter_witness:
  "\<exists>k k'. divergence_multiplier (divergence_levels 1600) 3 = return k \<and>
           divergence_multiplier (divergence_levels 1600) 40 = return k' \<and> k \<le> k' \<and> k' < 255"
  using later_escape_is_brighter [of 3 40 1600] by simp

text \<open>
  The threshold table of a non-negative budget \<open>n\<close> has 255 entries, is sorted
  in ascending order, starts with \<open>n div 255\<close>, ends with \<open>n\<close>, and all its entries
  lie between 0 and \<open>n\<close>.
\<close>

theorem divergence_levels_shape:
  assumes "0 \<le> n"
  shows "length (divergence_levels n) = 255 \<and> sorted (divergence_levels n) \<and>
         hd (divergence_levels n) = n div 255 \<and> last (divergence_levels n) = n \<and>
         (\<forall>x\<in>set (divergence_levels n). 0 \<le> x \<and> x \<le> n)"
  using assms divergence_levels_bounds [OF assms]
  by (simp add: sorted_divergence_levels hd_divergence_levels last_divergence_levels)

theorem divergence_levels_shape_witness:
  "length (divergence_levels 1600) = 255 \<and> sorted (divergence_levels 1600) \<and>
   hd (divergence_levels 1600) = 6 \<and> last (divergence_levels 1600) = 1600"
  using divergence_levels_shape [of 1600] by simp

text \<open>
  The level of iteration index 0.  No sample of the program is looked up at this index
  (a point of the disc has its first iterate, the point itself, in the disc, and a
  point outside the disc is not iterated), but it is the level the search would give a
  point outside the disc if it were iterated: 0 when the budget is at least 255, and
  \<open>255 - n\<close> for a smaller positive budget \<open>n\<close>.
\<close>

lemma instant_escape_level:
  assumes "0 < n"
  shows "divergence_multiplier (divergence_levels n) 0 = return (if 255 \<le> n then 0 else nat (255 - n))"
  using assms by (simp add: divergence_multiplier_levels bucket_def)

lemma instant_escape_level_example:
  "divergence_multiplier (divergence_levels 1600) 0 = return 0 \<and>
   divergence_multiplier (divergence_levels 100) 0 = return 155"
  using instant_escape_level [of 1600] instant_escape_level [of 100] by simp

end
