(* ===== verification/Sampler.thy ===== *)
theory Sampler
  imports Escape Levels
begin

text \<open>
  The pixel sampler: the body of the loop \<^verbatim>\<open>for magnification in range(1,
  self.MAGNIFICATION+1)\<close> of \<^verbatim>\<open>mandelbrot\<close>, which maps one sub-pixel position to
  the complex plane, classifies it and updates the pixel's tally, and the loop
  itself.  The lemmas give the behaviour on each branch, the invariant that ties the
  list of brightness levels to the divergence count, the number of samples, the
  absence of exceptions on a well-formed object, and the comparison of the
  classification with the one that runs the escape loop for every point.
\<close>

section \<open>State\<close>

text \<open>
  The dictionary \<^verbatim>\<open>tally\<close> with its keys \<^verbatim>\<open>'mandelbrot'\<close> and \<^verbatim>\<open>'divergence'\<close>, and
  the list \<^verbatim>\<open>divergence_multipliers\<close>, created afresh for each pixel.
\<close>

record pixel_tally =
  tally_mandelbrot :: nat
  tally_divergence :: nat
  divergence_multipliers :: "nat list"

definition empty_tally :: pixel_tally where
  "empty_tally = \<lparr>tally_mandelbrot = 0, tally_divergence = 0, divergence_multipliers = []\<rparr>"

section \<open>Operations\<close>

text \<open>
  The classification of one point \<open>(re, imaginary)\<close>: outside the disc it counts as
  diverging with level 0 at once; inside, the escape loop runs, and a break at index
  \<open>d_i\<close> counts as diverging with the level found for \<open>d_i\<close>, a loop that runs to
  its end counts for the set.
\<close>

definition classify :: "fractal \<Rightarrow> real \<Rightarrow> real \<Rightarrow> pixel_tally \<Rightarrow> pixel_tally result" where
  "classify self re imaginary tally =
     (if coordinates_good re imaginary then
        (case divergence_loop (Complex re imaginary) None
                (py_range (DIVERGENCE_ITERATIONS self)) of
           Some d_i \<Rightarrow>
             (case divergence_multiplier (DIVERGENCE_LEVELS self) d_i of
                Inl e \<Rightarrow> Inl e
              | Inr level \<Rightarrow>
                  return (tally\<lparr>tally_divergence := tally_divergence tally + 1,
                    divergence_multipliers := divergence_multipliers tally @ [level]\<rparr>))
         | None \<Rightarrow> return (tally\<lparr>tally_mandelbrot := tally_mandelbrot tally + 1\<rparr>))
      else
        return (tally\<lparr>tally_divergence := tally_divergence tally + 1,
          divergence_multipliers := divergence_multipliers tally @ [0]\<rparr>))"

text \<open>
  One pass of the loop body: the sub-pixel position is the pixel's corner moved by
  \<^verbatim>\<open>magnification / self.MAGNIFICATION\<close> along the diagonal.
\<close>

definition subpixel :: "fractal \<Rightarrow> nat \<Rightarrow> nat \<Rightarrow> pixel_tally \<Rightarrow> int \<Rightarrow> pixel_tally result" where
  "subpixel self pixel_x pixel_y tally magnification =
     (if MAGNIFICATION self = 0 then raise ZeroDivisionError
      else
        let x = real pixel_x + real_of_int magnification / real_of_int (MAGNIFICATION self);
            y = real pixel_y + real_of_int magnification / real_of_int (MAGNIFICATION self)
        in case pixels_to_coordinates self x y of
             Inl e \<Rightarrow> Inl e
           | Inr (re, imaginary) \<Rightarrow> classify self re imaginary tally)"

definition sample_pixel :: "fractal \<Rightarrow> nat \<Rightarrow> nat \<Rightarrow> pixel_tally result" where
  "sample_pixel self pixel_x pixel_y =
     for_loop (subpixel self pixel_x pixel_y) [1..MAGNIFICATION self] empty_tally"

declare empty_tally_def [fractal_defs] classify_def [fractal_defs] subpixel_def [fractal_defs]
  sample_pixel_def [fractal_defs]

text \<open>
  The object as \<^verbatim>\<open>mandelbrot((2, 2), colors, center=(0, 0), top=2, magnification=2,
  divergence_iterations=10, speak=False)\<close> configures it, for the examples.
\<close>

abbreviation example_object :: fractal where
  "example_object \<equiv>
     \<lparr>SPEAK = False, MAGNIFICATION = 2, DIVERGENCE_ITERATIONS = 10,
      DIVERGENCE_LEVELS = divergence_levels 10, IMAGE_SIZE = (2, 2), CENTER = (0, 0), TOP = 2,
      CENTER_PIXEL = (1, 1)\<rparr>"

section \<open>Invariant of the tally\<close>

definition tally_inv :: "pixel_tally \<Rightarrow> bool" where
  "tally_inv tally \<longleftrightarrow>
     length (divergence_multipliers tally) = tally_divergence tally \<and>
     (\<forall>m\<in>set (divergence_multipliers tally). m < 255)"

definition samples :: "pixel_tally \<Rightarrow> nat" where
  "samples tally = tally_mandelbrot tally + tally_divergence tally"

text \<open>The part of the object state the sampler relies on.\<close>

definition levels_ok :: "fractal \<Rightarrow> bool" where
  "levels_ok self \<longleftrightarrow> DIVERGENCE_LEVELS self = divergence_levels (DIVERGENCE_ITERATIONS self)"

lemma tally_inv_empty [simp]: "tally_inv empty_tally"
  by (simp add: tally_inv_def empty_tally_def)

lemma samples_empty [simp]: "samples empty_tally = 0"
  by (simp add: samples_def empty_tally_def)

section \<open>Lemmas on the classification\<close>

lemma classify_outside:
  "\<not> coordinates_good re im \<Longrightarrow>
   classify self re im tally =
     return (tally\<lparr>tally_divergence := tally_divergence tally + 1,
       divergence_multipliers := divergence_multipliers tally @ [0]\<rparr>)"
  by (simp add: classify_def)

lemma classify_member:
  assumes "coordinates_good re im"
    and "divergence_loop (Complex re im) None (py_range (DIVERGENCE_ITERATIONS self)) = None"
  shows "classify self re im tally = return (tally\<lparr>tally_mandelbrot := tally_mandelbrot tally + 1\<rparr>)"
  using assms by (simp add: classify_def)

lemma classify_diverges:
  assumes "coordinates_good re im" and "levels_ok self"
    and "divergence_loop (Complex re im) None (py_range (DIVERGENCE_ITERATIONS self)) = Some d_i"
  shows "classify self re im tally =
     return (tally\<lparr>tally_divergence := tally_divergence tally + 1,
       divergence_multipliers :=
         divergence_multipliers tally @ [bucket (DIVERGENCE_ITERATIONS self) d_i]\<rparr>)"
proof -
  from assms(3) have "int d_i < DIVERGENCE_ITERATIONS self"
    by (simp add: divergence_loop_breaks_iff)
  then have "divergence_multiplier (DIVERGENCE_LEVELS self) d_i =
      return (bucket (DIVERGENCE_ITERATIONS self) d_i)"
    using assms(2) by (simp add: levels_ok_def divergence_multiplier_levels)
  with assms show ?thesis by (simp add: classify_def)
qed

text \<open>On a well-formed object the classification never raises, counts one sample and
  keeps the invariant.\<close>

lemma classify_total:
  assumes "levels_ok self" and "tally_inv tally"
  shows "\<exists>tally'. classify self re im tally = return tally' \<and> tally_inv tally' \<and>
           samples tally' = Suc (samples tally)"
proof (cases "coordinates_good re im")
  case False
  with assms(2) show ?thesis
    by (auto simp: classify_outside tally_inv_def samples_def)
next
  case True
  show ?thesis
  proof (cases "divergence_loop (Complex re im) None (py_range (DIVERGENCE_ITERATIONS self))")
    case None
    with True assms(2) show ?thesis
      by (auto simp: classify_member tally_inv_def samples_def)
  next
    case (Some d_i)
    then have "int d_i < DIVERGENCE_ITERATIONS self"
      by (simp add: divergence_loop_breaks_iff)
    then have "bucket (DIVERGENCE_ITERATIONS self) d_i < 255"
      by (rule bucket_less)
    with assms(2) show ?thesis
      unfolding classify_diverges [OF True assms(1) Some]
      by (auto simp: tally_inv_def samples_def)
  qed
qed

section \<open>Lemmas on the sampling loop\<close>

lemma subpixel_total:
  assumes "levels_ok self" and "snd (IMAGE_SIZE self) \<noteq> 0" and "MAGNIFICATION self \<noteq> 0"
    and "tally_inv tally"
  shows "\<exists>tally'. subpixel self pixel_x pixel_y tally m = return tally' \<and> tally_inv tally' \<and>
           samples tally' = Suc (samples tally)"
  using assms classify_total [OF assms(1,4)]
  by (simp add: subpixel_def Let_def pixels_to_coordinates_eq)

text \<open>The loop over any list of sub-pixel indices, from any tally.\<close>

lemma subpixel_loop_total:
  assumes "levels_ok self" and "snd (IMAGE_SIZE self) \<noteq> 0" and "MAGNIFICATION self \<noteq> 0"
    and "tally_inv tally"
  shows "\<exists>tally'. for_loop (subpixel self pixel_x pixel_y) ms tally = return tally' \<and>
           tally_inv tally' \<and> samples tally' = samples tally + length ms"
  using assms(4)
proof (induction ms arbitrary: tally)
  case Nil
  then show ?case by simp
next
  case (Cons m ms)
  from subpixel_total [OF assms(1-3) Cons.prems, of pixel_x pixel_y m]
  obtain t where t: "subpixel self pixel_x pixel_y tally m = return t" "tally_inv t"
    "samples t = Suc (samples tally)" by blast
  from Cons.IH [OF t(2)] t(1,3) show ?case by auto
qed

lemma sample_pixel_empty: "MAGNIFICATION self \<le> 0 \<Longrightarrow> sample_pixel self pixel_x pixel_y = return empty_tally"
  by (simp add: sample_pixel_def)

lemma sample_pixel_total:
  assumes "levels_ok self" and "snd (IMAGE_SIZE self) \<noteq> 0"
  shows "\<exists>tally. sample_pixel self pixel_x pixel_y = return tally \<and> tally_inv tally \<and>
           samples tally = nat (MAGNIFICATION self)"
proof (cases "MAGNIFICATION self \<le> 0")
  case True
  then show ?thesis by (simp add: sample_pixel_empty)
next
  case False
  then have "MAGNIFICATION self \<noteq> 0" by simp
  from subpixel_loop_total [OF assms this tally_inv_empty, of pixel_x pixel_y "[1..MAGNIFICATION self]"]
  show ?thesis by (simp add: sample_pixel_def)
qed

text \<open>A sample in the set is counted for the set, whatever the iteration budget and the
  threshold table are.\<close>

lemma classify_in_set:
  assumes "Complex re im \<in> mandelbrot_set"
  shows "classify self re im tally = return (tally\<lparr>tally_mandelbrot := tally_mandelbrot tally + 1\<rparr>)"
proof -
  from assms have "coordinates_good re im"
    by (simp add: coordinates_good_Complex member_in_disc)
  with assms show ?thesis
    by (simp add: classify_member member_never_breaks)
qed

section \<open>The points sampled for a pixel\<close>

text \<open>The point of the plane that sample \<open>k\<close> of the pixel in column \<open>x\<close> and row \<open>y\<close>
  tests.\<close>

definition sample_point :: "fractal \<Rightarrow> nat \<Rightarrow> nat \<Rightarrow> int \<Rightarrow> complex" where
  "sample_point self x y k =
     Complex
       ((real x + real_of_int k / real_of_int (MAGNIFICATION self)
           - real_of_int (fst (CENTER_PIXEL self))) * unit_per_pixel self + fst (CENTER self))
       ((real y + real_of_int k / real_of_int (MAGNIFICATION self)
           - real_of_int (snd (CENTER_PIXEL self))) * unit_per_pixel self - snd (CENTER self))"

lemma subpixel_classify:
  assumes "MAGNIFICATION self \<noteq> 0" and "snd (IMAGE_SIZE self) \<noteq> 0"
  shows "subpixel self x y tally k =
     classify self (Re (sample_point self x y k)) (Im (sample_point self x y k)) tally"
  using assms by (simp add: subpixel_def Let_def pixels_to_coordinates_eq sample_point_def)

lemma foldl_count_member:
  "foldl (\<lambda>t k. t\<lparr>tally_mandelbrot := Suc (tally_mandelbrot t)\<rparr>) tally ks =
     tally\<lparr>tally_mandelbrot := tally_mandelbrot tally + length ks\<rparr>"
  by (induction ks arbitrary: tally) simp_all

lemma foldl_count_outside:
  "foldl (\<lambda>t k. t\<lparr>tally_divergence := Suc (tally_divergence t),
        divergence_multipliers := divergence_multipliers t @ [0]\<rparr>) tally ks =
     tally\<lparr>tally_divergence := tally_divergence tally + length ks,
       divergence_multipliers := divergence_multipliers tally @ replicate (length ks) 0\<rparr>"
  by (induction ks arbitrary: tally) (simp_all add: replicate_append_same)

lemma sample_pixel_members:
  assumes "0 < MAGNIFICATION self" and "snd (IMAGE_SIZE self) \<noteq> 0"
    and "\<forall>k\<in>{1..MAGNIFICATION self}. sample_point self x y k \<in> mandelbrot_set"
  shows "sample_pixel self x y =
     return \<lparr>tally_mandelbrot = nat (MAGNIFICATION self), tally_divergence = 0,
       divergence_multipliers = []\<rparr>"
proof -
  have "for_loop (subpixel self x y) [1..MAGNIFICATION self] empty_tally =
      for_loop (\<lambda>t k. Inr (t\<lparr>tally_mandelbrot := tally_mandelbrot t + 1\<rparr>))
        [1..MAGNIFICATION self] empty_tally"
    using assms by (intro for_loop_cong) (simp add: subpixel_classify classify_in_set)
  then show ?thesis
    by (simp add: sample_pixel_def for_loop_pure foldl_count_member empty_tally_def)
qed

lemma sample_pixel_outside:
  assumes "0 < MAGNIFICATION self" and "snd (IMAGE_SIZE self) \<noteq> 0"
    and "\<forall>k\<in>{1..MAGNIFICATION self}. 2 < cmod (sample_point self x y k)"
  shows "sample_pixel self x y =
     return \<lparr>tally_mandelbrot = 0, tally_divergence = nat (MAGNIFICATION self),
       divergence_multipliers = replicate (nat (MAGNIFICATION self)) 0\<rparr>"
proof -
  have "for_loop (subpixel self x y) [1..MAGNIFICATION self] empty_tally =
      for_loop (\<lambda>t k. Inr (t\<lparr>tally_divergence := tally_divergence t + 1,
        divergence_multipliers := divergence_multipliers t @ [0]\<rparr>))
        [1..MAGNIFICATION self] empty_tally"
    using assms
    by (intro for_loop_cong)
      (simp add: subpixel_classify classify_outside coordinates_good_cmod not_le)
  then show ?thesis
    by (simp add: sample_pixel_def for_loop_pure foldl_count_outside empty_tally_def)
qed

section \<open>The pre-check\<close>

text \<open>
  The classification without the pre-check: the escape loop and the level search, run
  for every point.  It is the branch of \<open>classify\<close> for the points of the disc.
\<close>

definition classify_by_loop :: "fractal \<Rightarrow> real \<Rightarrow> real \<Rightarrow> pixel_tally \<Rightarrow> pixel_tally result" where
  "classify_by_loop self re imaginary tally =
     (case divergence_loop (Complex re imaginary) None
             (py_range (DIVERGENCE_ITERATIONS self)) of
        Some d_i \<Rightarrow>
          (case divergence_multiplier (DIVERGENCE_LEVELS self) d_i of
             Inl e \<Rightarrow> Inl e
           | Inr level \<Rightarrow>
               return (tally\<lparr>tally_divergence := tally_divergence tally + 1,
                 divergence_multipliers := divergence_multipliers tally @ [level]\<rparr>))
      | None \<Rightarrow> return (tally\<lparr>tally_mandelbrot := tally_mandelbrot tally + 1\<rparr>))"

lemma classify_inside:
  "coordinates_good re im \<Longrightarrow> classify self re im tally = classify_by_loop self re im tally"
  by (simp add: classify_def classify_by_loop_def)

text \<open>For a point outside the disc the loop breaks at its first pass, and the level is
  that of the escape index 0.\<close>

lemma classify_by_loop_outside:
  assumes "\<not> coordinates_good re im" and "levels_ok self" and "0 < DIVERGENCE_ITERATIONS self"
  shows "classify_by_loop self re im tally =
     return (tally\<lparr>tally_divergence := tally_divergence tally + 1,
       divergence_multipliers := divergence_multipliers tally @
         [nat (255 - min 255 (DIVERGENCE_ITERATIONS self))]\<rparr>)"
proof -
  from assms(1) have "escapes_at (Complex re im) 0"
    by (simp add: escapes_at_def coordinates_good_Complex)
  with assms(3) have "divergence_loop (Complex re im) None
      (py_range (DIVERGENCE_ITERATIONS self)) = Some 0"
    by (simp add: divergence_loop_breaks_iff)
  moreover from assms(2,3) have "divergence_multiplier (DIVERGENCE_LEVELS self) 0 =
      return (nat (255 - min 255 (DIVERGENCE_ITERATIONS self)))"
    by (simp add: levels_ok_def divergence_multiplier_levels bucket_def)
  ultimately show ?thesis by (simp add: classify_by_loop_def)
qed

text \<open>With a budget below 255 the pre-check changes the level.\<close>

lemma precheck_changes_level:
  assumes "\<not> coordinates_good re im" and "levels_ok self"
    and "0 < DIVERGENCE_ITERATIONS self" and "DIVERGENCE_ITERATIONS self < 255"
  shows "classify self re im tally \<noteq> classify_by_loop self re im tally"
proof
  let ?t = "\<lambda>level. tally\<lparr>tally_divergence := tally_divergence tally + 1,
       divergence_multipliers := divergence_multipliers tally @ [level]\<rparr>"
  assume "classify self re im tally = classify_by_loop self re im tally"
  with assms(1) have "?t 0 = ?t (nat (255 - min 255 (DIVERGENCE_ITERATIONS self)))"
    unfolding classify_by_loop_outside [OF assms(1-3)] by (simp add: classify_def)
  then have "divergence_multipliers (?t 0) =
      divergence_multipliers (?t (nat (255 - min 255 (DIVERGENCE_ITERATIONS self))))"
    by (rule arg_cong)
  with assms(4) show False by simp
qed

section \<open>Properties\<close>

text \<open>
  C7. On an object whose threshold table is the one \<^verbatim>\<open>mandelbrot\<close> builds and whose
  image height is not 0, the sampling of a pixel raises no exception and returns a
  tally that counts exactly \<^verbatim>\<open>MAGNIFICATION\<close> samples (none when \<^verbatim>\<open>MAGNIFICATION\<close> is
  not positive), with one brightness level below 255 for each diverging sample.
\<close>

theorem sample_pixel_counts:
  assumes "DIVERGENCE_LEVELS self = divergence_levels (DIVERGENCE_ITERATIONS self)"
    and "snd (IMAGE_SIZE self) \<noteq> 0"
  shows "\<exists>tally. sample_pixel self pixel_x pixel_y = return tally \<and>
           tally_mandelbrot tally + tally_divergence tally = nat (MAGNIFICATION self) \<and>
           length (divergence_multipliers tally) = tally_divergence tally \<and>
           (\<forall>m\<in>set (divergence_multipliers tally). m < 255)"
  using sample_pixel_total [of self pixel_x pixel_y] assms
  by (auto simp: levels_ok_def tally_inv_def samples_def)

theorem sample_pixel_counts_witness:
  "\<exists>tally. sample_pixel
       example_object 0 0 = return tally \<and>
     tally_mandelbrot tally + tally_divergence tally = 2 \<and>
     length (divergence_multipliers tally) = tally_divergence tally \<and>
     (\<forall>m\<in>set (divergence_multipliers tally). m < 255)"
  using sample_pixel_counts
    [of example_object 0 0]
  by simp

text \<open>
  C29. A sample counted as diverging is not in the Mandelbrot set: the classifier
  errs only towards the set, for points that need more iterations than the budget.
\<close>

theorem classify_diverging_sound:
  assumes "classify self re im tally = return tally'"
    and "tally_divergence tally' \<noteq> tally_divergence tally"
  shows "Complex re im \<notin> mandelbrot_set"
proof (cases "coordinates_good re im")
  case False
  then show ?thesis
    by (simp add: coordinates_good_Complex outside_disc_not_member)
next
  case True
  with assms show ?thesis
    by (auto simp: classify_def breaks_not_member split: option.splits sum.splits)
qed

theorem classify_diverging_sound_witness:
  "classify
     example_object 3 0 empty_tally =
     return \<lparr>tally_mandelbrot = 0, tally_divergence = 1, divergence_multipliers = [0]\<rparr> \<and>
   Complex 3 0 \<notin> mandelbrot_set"
proof -
  have c: "classify
     example_object 3 0 empty_tally =
     return \<lparr>tally_mandelbrot = 0, tally_divergence = 1, divergence_multipliers = [0]\<rparr>"
    by (simp add: classify_def empty_tally_def coordinates_good_iff)
  from classify_diverging_sound [OF c] c show ?thesis by (simp add: empty_tally_def)
qed

text \<open>
  C32. The classification is symmetric in the real axis: a point and its complex
  conjugate are classified alike, with the same brightness level.  The sign that
  \<^verbatim>\<open>pixels_to_coordinates\<close> gives to the imaginary coordinate therefore does not
  change the image.
\<close>

theorem classify_conjugate:
  "classify self re (- im) tally = classify self re im tally"
proof -
  have "cnj (Complex re im) = Complex re (- im)"
    by (simp add: complex_eq_iff)
  with divergence_loop_cnj [of "Complex re im" "DIVERGENCE_ITERATIONS self"] show ?thesis
    by (simp add: classify_def coordinates_good_symmetric(2))
qed

text \<open>
  C39. With a budget of at least 255 iterations the pre-check of \<^verbatim>\<open>mandelbrot\<close> is a
  pure shortcut: for every point the classification is what the escape loop and the
  level search alone would give.  For a point outside the disc the loop would break at
  its first pass and the search would find level 0, which is what the pre-check
  appends without running the loop.  With a smaller budget \<open>n\<close> the search would find
  level \<open>255 - n\<close>, and the pre-check changes the result.
\<close>

theorem precheck_is_shortcut:
  assumes "levels_ok self" and "255 \<le> DIVERGENCE_ITERATIONS self"
  shows "classify self re im tally = classify_by_loop self re im tally"
proof (cases "coordinates_good re im")
  case True
  then show ?thesis by (rule classify_inside)
next
  case False
  from assms(2) have "0 < DIVERGENCE_ITERATIONS self" by simp
  with False assms show ?thesis
    by (simp add: classify_by_loop_outside) (simp add: classify_def)
qed

theorem precheck_is_shortcut_witness:
  "levels_ok (example_object\<lparr>DIVERGENCE_ITERATIONS := 1600, DIVERGENCE_LEVELS := divergence_levels 1600\<rparr>) \<and>
   \<not> coordinates_good 3 0 \<and>
   classify (example_object\<lparr>DIVERGENCE_ITERATIONS := 1600, DIVERGENCE_LEVELS := divergence_levels 1600\<rparr>)
     3 0 empty_tally =
   classify_by_loop
     (example_object\<lparr>DIVERGENCE_ITERATIONS := 1600, DIVERGENCE_LEVELS := divergence_levels 1600\<rparr>)
     3 0 empty_tally"
  using precheck_is_shortcut
    [of "example_object\<lparr>DIVERGENCE_ITERATIONS := 1600, DIVERGENCE_LEVELS := divergence_levels 1600\<rparr>"
      3 0 empty_tally]
  by (simp add: levels_ok_def coordinates_good_iff del: divergence_levels_def)

text \<open>
  C40. With a positive budget \<open>n\<close> below 255 the pre-check is more than a shortcut.  For
  a point outside the disc the escape loop would break at its first pass and the level
  search would record level \<open>255 - n\<close>; the pre-check records level 0, the darkest
  one, so the two classifications differ.
\<close>

theorem precheck_small_budget:
  assumes "\<not> coordinates_good re im" and "levels_ok self"
    and "0 < DIVERGENCE_ITERATIONS self" and "DIVERGENCE_ITERATIONS self < 255"
  shows "classify self re im tally =
           return (tally\<lparr>tally_divergence := tally_divergence tally + 1,
             divergence_multipliers := divergence_multipliers tally @ [0]\<rparr>) \<and>
         classify_by_loop self re im tally =
           return (tally\<lparr>tally_divergence := tally_divergence tally + 1,
             divergence_multipliers := divergence_multipliers tally @
               [nat (255 - DIVERGENCE_ITERATIONS self)]\<rparr>) \<and>
         classify self re im tally \<noteq> classify_by_loop self re im tally"
  using assms classify_by_loop_outside [OF assms(1-3), of tally]
    precheck_changes_level [OF assms, of tally]
  by (simp add: classify_def)

theorem precheck_small_budget_witness:
  "classify example_object 3 0 empty_tally =
     return \<lparr>tally_mandelbrot = 0, tally_divergence = 1, divergence_multipliers = [0]\<rparr> \<and>
   classify_by_loop example_object 3 0 empty_tally =
     return \<lparr>tally_mandelbrot = 0, tally_divergence = 1, divergence_multipliers = [245]\<rparr>"
  using precheck_small_budget [of 3 0 example_object empty_tally]
  by (simp add: levels_ok_def coordinates_good_iff empty_tally_def del: divergence_levels_def)

end
