(* ===== verification/Color.thy ===== *)
theory Color
  imports Sampler
begin

text \<open>
  The colour aggregator: the reshaping of the colour table at the start of
  \<^verbatim>\<open>mandelbrot\<close>, and the block that turns a pixel's tally into one colour (one row
  per sample, averaged per channel) and stores it as three bytes.  The lemmas give
  the closed form of the blend, the special cases of a pixel inside the set and of a
  pixel outside the disc, the exceptions, and the byte range.
\<close>

section \<open>Data\<close>

datatype 'a rgb = RGB (red: 'a) (green: 'a) (blue: 'a)

type_synonym color = "real rgb"
type_synonym pixel = "8 word rgb"
type_synonym colors = "(string \<times> color) list"

section \<open>Operations\<close>

text \<open>\<^verbatim>\<open>np.array(value).reshape(1, 3)\<close>: \<open>ValueError\<close> unless there are three numbers.\<close>

definition reshape :: "real list \<Rightarrow> color result" where
  "reshape v = (case v of [r, g, b] \<Rightarrow> return (RGB r g b) | _ \<Rightarrow> raise ValueError)"

text \<open>\<^verbatim>\<open>for key, value in colors.items(): colors[key] = \<dots>\<close>\<close>

definition reshape_colors :: "(string \<times> real list) list \<Rightarrow> colors result" where
  "reshape_colors colors =
     for_loop (\<lambda>done (key, v). case reshape v of Inl e \<Rightarrow> Inl e
                                 | Inr c \<Rightarrow> return (done @ [(key, c)])) colors []"

text \<open>\<^verbatim>\<open>colors['d'] * divergence_multiplier\<close>\<close>

definition scale :: "real \<Rightarrow> color \<Rightarrow> color" where
  "scale k c = map_rgb (\<lambda>v. v * k) c"

text \<open>\<^verbatim>\<open>np.average(color, axis=0)\<close>: the mean of each column, NaN for no rows.\<close>

definition average_axis0 :: "color list \<Rightarrow> color option" where
  "average_axis0 rows =
     (case (np_average (map red rows), np_average (map green rows), np_average (map blue rows)) of
        (Some r, Some g, Some b) \<Rightarrow> Some (RGB r g b)
      | _ \<Rightarrow> None)"

text \<open>The rows appended for the samples inside the set.\<close>

definition mandelbrot_rows :: "colors \<Rightarrow> pixel_tally \<Rightarrow> color list result" where
  "mandelbrot_rows colors tally =
     (if tally_mandelbrot tally > 0 then
        (case getitem colors ''m'' of
           Inl e \<Rightarrow> Inl e
         | Inr m \<Rightarrow> return (replicate (tally_mandelbrot tally) m))
      else return [])"

text \<open>
  The rows appended for the diverging samples: the mean brightness level is divided by
  the number of levels (\<open>multiplier\<close>, for \<^verbatim>\<open>divergence_multiplier\<close>), and each row is
  \<^verbatim>\<open>colors['d']\<close> scaled by it.  \<open>None\<close> stands for a multiplier that is not finite (the
  mean of no levels, or a division by an empty table), which NumPy computes with a
  warning and no exception.
\<close>

definition divergence_rows :: "fractal \<Rightarrow> colors \<Rightarrow> pixel_tally \<Rightarrow> color list option result" where
  "divergence_rows self colors tally =
     (if tally_divergence tally > 0 then
        let multiplier =
              (case np_average (map real (divergence_multipliers tally)) of
                 None \<Rightarrow> None
               | Some a \<Rightarrow>
                   if DIVERGENCE_LEVELS self = [] then None
                   else Some (a / real (length (DIVERGENCE_LEVELS self))))
        in (case getitem colors ''d'' of
              Inl e \<Rightarrow> Inl e
            | Inr d \<Rightarrow>
                return (map_option (\<lambda>k. replicate (tally_divergence tally) (scale k d))
                  multiplier))
      else return (Some []))"

definition pixel_color :: "fractal \<Rightarrow> colors \<Rightarrow> pixel_tally \<Rightarrow> color option result" where
  "pixel_color self colors tally =
     (case mandelbrot_rows colors tally of
        Inl e \<Rightarrow> Inl e
      | Inr ms \<Rightarrow>
          (case divergence_rows self colors tally of
             Inl e \<Rightarrow> Inl e
           | Inr None \<Rightarrow> return None
           | Inr (Some ds) \<Rightarrow> return (average_axis0 (ms @ ds))))"

text \<open>
  \<^verbatim>\<open>image_array[pixel_y, pixel_x] = color\<close>: each channel is cast to a byte.  The
  cast of NaN is taken to be 0, which is what the conversion yields on x86-64 and
  AArch64.
\<close>

definition cast_pixel :: "color option \<Rightarrow> pixel" where
  "cast_pixel c = (case c of None \<Rightarrow> RGB 0 0 0 | Some c \<Rightarrow> map_rgb to_uint8 c)"

declare reshape_def [fractal_defs] reshape_colors_def [fractal_defs] scale_def [fractal_defs]
  average_axis0_def [fractal_defs] mandelbrot_rows_def [fractal_defs]
  divergence_rows_def [fractal_defs] pixel_color_def [fractal_defs] cast_pixel_def [fractal_defs]

section \<open>Abstract specification\<close>

text \<open>
  The blend of \<open>m\<close> samples of colour \<open>cm\<close> with \<open>d\<close> samples of colour \<open>cd\<close> at
  brightness \<open>k\<close>, per channel.
\<close>

definition blend :: "nat \<Rightarrow> nat \<Rightarrow> real \<Rightarrow> color \<Rightarrow> color \<Rightarrow> color" where
  "blend m d k cm cd =
     RGB ((real m * red cm + real d * (red cd * k)) / real (m + d))
         ((real m * green cm + real d * (green cd * k)) / real (m + d))
         ((real m * blue cm + real d * (blue cd * k)) / real (m + d))"

definition brightness :: "fractal \<Rightarrow> pixel_tally \<Rightarrow> real" where
  "brightness self tally =
     sum_list (map real (divergence_multipliers tally)) / real (length (divergence_multipliers tally))
       / real (length (DIVERGENCE_LEVELS self))"

definition in_byte_range :: "color \<Rightarrow> bool" where
  "in_byte_range c \<longleftrightarrow> (\<forall>v\<in>set_rgb c. 0 \<le> v \<and> v \<le> 255)"

section \<open>Lemmas on the colour table\<close>

lemma reshape_eq_Inr_iff: "reshape v = return c \<longleftrightarrow> v = [red c, green c, blue c]"
  by (cases c) (auto simp: reshape_def split: list.splits)

lemma reshape_ok_iff: "is_ok (reshape v) \<longleftrightarrow> length v = 3"
  by (auto simp: reshape_def numeral_3_eq_3 split: list.splits)

lemma reshape_colors_snoc:
  "for_loop (\<lambda>done (key, v). case reshape v of Inl e \<Rightarrow> Inl e
                              | Inr c \<Rightarrow> return (done @ [(key, c)])) colors acc =
   (case reshape_colors colors of Inl e \<Rightarrow> Inl e | Inr cs \<Rightarrow> return (acc @ cs))"
  unfolding reshape_colors_def
proof (induction colors arbitrary: acc)
  case Nil
  then show ?case by simp
next
  case (Cons kv colors)
  obtain key v where kv: "kv = (key, v)" by (cases kv)
  show ?case
  proof (cases "reshape v")
    case (Inl e)
    with kv show ?thesis by simp
  next
    case (Inr c)
    with kv show ?thesis
      using Cons.IH [of "acc @ [(key, c)]"] Cons.IH [of "[(key, c)]"]
      by (simp split: sum.splits)
  qed
qed

lemma reshape_colors_Nil [simp]: "reshape_colors [] = return []"
  by (simp add: reshape_colors_def)

lemma reshape_colors_Cons:
  "reshape_colors ((key, v) # colors) =
     (case reshape v of Inl e \<Rightarrow> Inl e
      | Inr c \<Rightarrow> (case reshape_colors colors of Inl e \<Rightarrow> Inl e
                  | Inr cs \<Rightarrow> return ((key, c) # cs)))"
  using reshape_colors_snoc [of colors "[(key, c)]" for c]
  by (simp add: reshape_colors_def split: sum.splits)

lemma reshape_colors_ok_iff:
  "is_ok (reshape_colors colors) \<longleftrightarrow> (\<forall>(key, v)\<in>set colors. length v = 3)"
proof (induction colors)
  case Nil
  then show ?case by simp
next
  case (Cons kv colors)
  obtain key v where kv: "kv = (key, v)" by (cases kv)
  from Cons reshape_ok_iff [of v] show ?case
    unfolding kv reshape_colors_Cons by (auto split: sum.splits)
qed

lemma reshape_colors_raises:
  "reshape_colors colors = raise e \<Longrightarrow> e = ValueError"
proof (induction colors)
  case Nil
  then show ?case by simp
next
  case (Cons kv colors)
  obtain key v where kv: "kv = (key, v)" by (cases kv)
  from Cons show ?case
    unfolding kv reshape_colors_Cons
    by (auto simp: reshape_def split: sum.splits list.splits)
qed

lemma reshape_colors_keys:
  "reshape_colors colors = return cs \<Longrightarrow> map fst cs = map fst colors"
proof (induction colors arbitrary: cs)
  case Nil
  then show ?case by simp
next
  case (Cons kv colors)
  obtain key v where kv: "kv = (key, v)" by (cases kv)
  from Cons.prems Cons.IH show ?case
    unfolding kv reshape_colors_Cons by (auto split: sum.splits)
qed

section \<open>Lemmas on the average\<close>

lemma average_axis0_Nil [simp]: "average_axis0 [] = None"
  by (simp add: average_axis0_def np_average_def)

lemma average_axis0_eq:
  "rows \<noteq> [] \<Longrightarrow>
   average_axis0 rows =
     Some (RGB (sum_list (map red rows) / real (length rows))
               (sum_list (map green rows) / real (length rows))
               (sum_list (map blue rows) / real (length rows)))"
  by (simp add: average_axis0_def np_average_def)

lemma average_axis0_blend:
  assumes "0 < m + d"
  shows "average_axis0 (replicate m cm @ replicate d (scale k cd)) = Some (blend m d k cm cd)"
proof -
  from assms have "replicate m cm @ replicate d (scale k cd) \<noteq> []" by auto
  then show ?thesis
    by (cases cd) (simp add: average_axis0_eq sum_list_replicate blend_def scale_def)
qed

section \<open>Lemmas on the blend\<close>

lemma blend_member_only: "0 < m \<Longrightarrow> blend m 0 k cm cd = cm"
  by (cases cm) (simp add: blend_def)

lemma blend_level_0: "0 < d \<Longrightarrow> blend 0 d 0 cm cd = RGB 0 0 0"
  by (simp add: blend_def)

lemma blend_diverging_only: "0 < d \<Longrightarrow> blend 0 d k cm cd = scale k cd"
  by (cases cd) (simp add: blend_def scale_def)

lemma blend_channel_bounds:
  fixes a b k :: real
  assumes "0 < m + d" and "0 \<le> a" "a \<le> 255" and "0 \<le> b" "b \<le> 255" and "0 \<le> k" "k \<le> 1"
  shows "0 \<le> (real m * a + real d * (b * k)) / real (m + d) \<and>
         (real m * a + real d * (b * k)) / real (m + d) \<le> 255"
proof -
  have bk: "0 \<le> b * k" "b * k \<le> 255"
    using assms mult_mono [of b 255 k 1] by simp_all
  have pos: "0 < real (m + d)"
    using assms(1) by (simp only: of_nat_0_less_iff)
  have "real m * a + real d * (b * k) \<le> real m * 255 + real d * 255"
    using assms(3) bk(2) by (intro add_mono mult_left_mono) simp_all
  also have "\<dots> = 255 * real (m + d)" by simp
  finally have "(real m * a + real d * (b * k)) / real (m + d) \<le> 255"
    using pos by (simp only: pos_divide_le_eq)
  moreover have "0 \<le> real m * a + real d * (b * k)"
    using assms(2) bk(1) by simp
  then have "0 \<le> (real m * a + real d * (b * k)) / real (m + d)"
    using pos by (intro divide_nonneg_pos)
  ultimately show ?thesis by simp
qed

lemma blend_in_byte_range:
  assumes "0 < m + d" and "in_byte_range cm" and "in_byte_range cd" and "0 \<le> k" "k \<le> 1"
  shows "in_byte_range (blend m d k cm cd)"
  using assms
    blend_channel_bounds [of m d "red cm" "red cd" k]
    blend_channel_bounds [of m d "green cm" "green cd" k]
    blend_channel_bounds [of m d "blue cm" "blue cd" k]
  by (cases cm; cases cd) (simp add: in_byte_range_def blend_def)

section \<open>Lemmas on the pixel colour\<close>

lemma mandelbrot_rows_eq:
  assumes "0 < tally_mandelbrot tally \<longrightarrow> getitem colors ''m'' = return cm"
  shows "mandelbrot_rows colors tally = return (replicate (tally_mandelbrot tally) cm)"
  using assms by (simp add: mandelbrot_rows_def)

lemma divergence_rows_eq:
  assumes "length (divergence_multipliers tally) = tally_divergence tally"
    and "DIVERGENCE_LEVELS self \<noteq> []"
    and "0 < tally_divergence tally \<longrightarrow> getitem colors ''d'' = return cd"
  shows "divergence_rows self colors tally =
           return (Some (replicate (tally_divergence tally) (scale (brightness self tally) cd)))"
proof (cases "0 < tally_divergence tally")
  case False
  then show ?thesis by (simp add: divergence_rows_def)
next
  case True
  with assms(1) have "divergence_multipliers tally \<noteq> []"
    by auto
  with True assms(2,3) show ?thesis
    by (simp add: divergence_rows_def np_average_def brightness_def)
qed

lemma mandelbrot_rows_ok_iff:
  "is_ok (mandelbrot_rows colors tally) \<longleftrightarrow>
     (0 < tally_mandelbrot tally \<longrightarrow> ''m'' \<in> fst ` set colors)"
  using getitem_ok_iff [of colors "''m''"]
  by (auto simp: mandelbrot_rows_def split: sum.splits)

lemma divergence_rows_ok_iff:
  "is_ok (divergence_rows self colors tally) \<longleftrightarrow>
     (0 < tally_divergence tally \<longrightarrow> ''d'' \<in> fst ` set colors)"
  using getitem_ok_iff [of colors "''d''"]
  by (auto simp: divergence_rows_def split: sum.splits)

lemma pixel_color_ok_iff:
  "is_ok (pixel_color self colors tally) \<longleftrightarrow>
     (0 < tally_mandelbrot tally \<longrightarrow> ''m'' \<in> fst ` set colors) \<and>
     (0 < tally_divergence tally \<longrightarrow> ''d'' \<in> fst ` set colors)"
  using mandelbrot_rows_ok_iff [of colors tally] divergence_rows_ok_iff [of self colors tally]
  by (auto simp: pixel_color_def split: sum.splits option.splits)

lemma pixel_color_raises: "pixel_color self colors tally = raise e \<Longrightarrow> e = KeyError"
  by (auto simp: pixel_color_def mandelbrot_rows_def divergence_rows_def getitem_eq_Inl_iff
      split: sum.splits option.splits if_splits)

text \<open>No samples: the average of no rows is NaN.\<close>

lemma pixel_color_no_samples:
  "tally_mandelbrot tally = 0 \<Longrightarrow> tally_divergence tally = 0 \<Longrightarrow>
   pixel_color self colors tally = return None"
  by (simp add: pixel_color_def mandelbrot_rows_def divergence_rows_def)

lemma pixel_color_blend:
  assumes "length (divergence_multipliers tally) = tally_divergence tally"
    and "0 < samples tally" and "DIVERGENCE_LEVELS self \<noteq> []"
    and "0 < tally_mandelbrot tally \<longrightarrow> getitem colors ''m'' = return cm"
    and "0 < tally_divergence tally \<longrightarrow> getitem colors ''d'' = return cd"
  shows "pixel_color self colors tally =
           return (Some (blend (tally_mandelbrot tally) (tally_divergence tally)
                           (brightness self tally) cm cd))"
  using assms(2)
  by (simp add: pixel_color_def mandelbrot_rows_eq [OF assms(4)]
      divergence_rows_eq [OF assms(1,3,5)] average_axis0_blend samples_def)

section \<open>Lemmas on the brightness\<close>

lemma brightness_bounds:
  assumes "tally_inv tally" and "0 < tally_divergence tally"
    and "length (DIVERGENCE_LEVELS self) = 255"
  shows "0 \<le> brightness self tally \<and> brightness self tally \<le> 254 / 255"
proof -
  let ?ms = "map real (divergence_multipliers tally)"
  from assms(1,2) have ne: "?ms \<noteq> []" by (auto simp: tally_inv_def)
  then have avg: "np_average ?ms = Some (sum_list ?ms / real (length ?ms))"
    by (simp add: np_average_def)
  from assms(1) have "\<forall>x\<in>set ?ms. 0 \<le> x \<and> x \<le> 254"
    by (auto simp: tally_inv_def)
  from np_average_bounds [OF avg this] assms(3) show ?thesis
    by (simp add: brightness_def)
qed

lemma brightness_single:
  "divergence_multipliers tally = [k] \<Longrightarrow>
   brightness self tally = real k / real (length (DIVERGENCE_LEVELS self))"
  by (simp add: brightness_def)

section \<open>Lemmas on the stored bytes\<close>

lemma cast_pixel_in_range:
  assumes "in_byte_range c"
  shows "map_rgb unat (cast_pixel (Some c)) = map_rgb (\<lambda>v. nat \<lfloor>v\<rfloor>) c"
  using assms by (cases c) (simp add: cast_pixel_def in_byte_range_def unat_to_uint8)

lemma cast_pixel_bytes:
  "cast_pixel (Some (RGB (real r) (real g) (real b))) = RGB (of_nat r) (of_nat g) (of_nat b)"
  if "r < 256" "g < 256" "b < 256"
  using that by (simp add: cast_pixel_def to_uint8_of_nat)

lemma brightness_unit:
  assumes "tally_inv tally" and "length (DIVERGENCE_LEVELS self) = 255"
  shows "0 \<le> brightness self tally \<and> brightness self tally \<le> 1"
proof (cases "0 < tally_divergence tally")
  case True
  from brightness_bounds [OF assms(1) True assms(2)] show ?thesis by simp
next
  case False
  with assms(1) have "divergence_multipliers tally = []" by (simp add: tally_inv_def)
  then show ?thesis by (simp add: brightness_def)
qed

lemma brightness_level_0:
  "divergence_multipliers tally = replicate n 0 \<Longrightarrow> brightness self tally = 0"
  by (simp add: brightness_def sum_list_replicate)

text \<open>A pixel all of whose samples are in the set is given \<^verbatim>\<open>colors['m']\<close> itself;
  \<^verbatim>\<open>colors['d']\<close> is not looked up.\<close>

lemma pixel_color_members:
  assumes "0 < tally_mandelbrot tally" and "tally_divergence tally = 0"
    and "map_of colors ''m'' = Some cm"
  shows "pixel_color self colors tally = return (Some cm)"
proof -
  from assms(3) have "getitem colors ''m'' = return cm"
    by (simp add: getitem_eq_Inr_iff)
  with assms(1,2) average_axis0_blend [of "tally_mandelbrot tally" 0 cm 0 cm] show ?thesis
    by (simp add: pixel_color_def mandelbrot_rows_def divergence_rows_def blend_member_only)
qed

text \<open>A pixel all of whose samples have brightness level 0 is black whatever
  \<^verbatim>\<open>colors['d']\<close> is.\<close>

lemma pixel_color_level_0:
  assumes "tally_mandelbrot tally = 0" and "0 < tally_divergence tally"
    and "divergence_multipliers tally = replicate (tally_divergence tally) 0"
    and "DIVERGENCE_LEVELS self \<noteq> []" and "map_of colors ''d'' = Some cd"
  shows "pixel_color self colors tally = return (Some (RGB 0 0 0))"
proof -
  from assms(3) have inv: "length (divergence_multipliers tally) = tally_divergence tally"
    by (metis length_replicate)
  have "pixel_color self colors tally =
      return (Some (blend 0 (tally_divergence tally) (brightness self tally) cm cd))" for cm
    using pixel_color_blend [OF inv _ assms(4), of colors cm cd] assms(1,2,5)
    by (simp add: samples_def getitem_eq_Inr_iff)
  with assms(2,3) show ?thesis
    by (simp add: brightness_level_0 [of tally "tally_divergence tally"] blend_level_0)
qed

section \<open>Properties\<close>

text \<open>
  C8. The colour of a pixel with at least one sample is the blend of its samples:
  with \<open>m\<close> samples in the set, \<open>d\<close> diverging samples and mean brightness level
  \<open>a\<close>, each channel is \<open>(m * colors['m'] + d * colors['d'] * a / len(levels)) / (m + d)\<close>.
  A colour whose samples do not call for it need not be in the table.
\<close>

theorem pixel_color_refines_blend:
  assumes "length (divergence_multipliers tally) = tally_divergence tally"
    and "0 < tally_mandelbrot tally + tally_divergence tally"
    and "DIVERGENCE_LEVELS self \<noteq> []"
    and "0 < tally_mandelbrot tally \<longrightarrow> map_of colors ''m'' = Some cm"
    and "0 < tally_divergence tally \<longrightarrow> map_of colors ''d'' = Some cd"
  shows "pixel_color self colors tally =
           return (Some (blend (tally_mandelbrot tally) (tally_divergence tally)
             (sum_list (map real (divergence_multipliers tally)) / real (tally_divergence tally)
                / real (length (DIVERGENCE_LEVELS self))) cm cd))"
  using pixel_color_blend [OF assms(1) _ assms(3), of colors cm cd] assms(2,4,5)
  by (simp add: samples_def getitem_eq_Inr_iff brightness_def assms(1))

theorem pixel_color_refines_blend_witness:
  "pixel_color
     example_object
     [(''m'', RGB 255 0 0), (''d'', RGB 0 0 255)]
     \<lparr>tally_mandelbrot = 1, tally_divergence = 1, divergence_multipliers = [51]\<rparr> =
   return (Some (RGB (255 / 2) 0 (51 / 2)))"
  using pixel_color_refines_blend
    [of "\<lparr>tally_mandelbrot = 1, tally_divergence = 1, divergence_multipliers = [51]\<rparr>"
      example_object
      "[(''m'', RGB 255 0 0), (''d'', RGB 0 0 255)]" "RGB 255 0 0" "RGB 0 0 255"]
  by (simp add: blend_def)

text \<open>
  C9. With both colours of the table in the range of a byte, the colour of a pixel
  with at least one sample is in that range too, so the cast to \<^verbatim>\<open>uint8\<close> does not
  wrap around: each stored byte is the integer part of its channel.
\<close>

theorem pixel_bytes_in_range:
  assumes "tally_inv tally" and "0 < samples tally" and "length (DIVERGENCE_LEVELS self) = 255"
    and "map_of colors ''m'' = Some cm" and "map_of colors ''d'' = Some cd"
    and "in_byte_range cm" and "in_byte_range cd"
  shows "\<exists>c. pixel_color self colors tally = return (Some c) \<and> in_byte_range c \<and>
           map_rgb unat (cast_pixel (Some c)) = map_rgb (\<lambda>v. nat \<lfloor>v\<rfloor>) c"
proof -
  let ?c = "blend (tally_mandelbrot tally) (tally_divergence tally) (brightness self tally) cm cd"
  from assms(3) have ne: "DIVERGENCE_LEVELS self \<noteq> []" by auto
  from assms(1) have len: "length (divergence_multipliers tally) = tally_divergence tally"
    by (simp add: tally_inv_def)
  have "pixel_color self colors tally = return (Some ?c)"
    using len assms(2) ne by (rule pixel_color_blend) (simp_all add: getitem_eq_Inr_iff assms)
  moreover have "in_byte_range ?c"
    using assms(2,6,7) brightness_unit [OF assms(1,3)]
    by (intro blend_in_byte_range) (simp_all add: samples_def)
  ultimately show ?thesis
    by (simp add: cast_pixel_in_range)
qed

theorem pixel_bytes_in_range_witness:
  "\<exists>c. pixel_color
       example_object
       [(''m'', RGB 255 0 0), (''d'', RGB 0 0 255)]
       \<lparr>tally_mandelbrot = 1, tally_divergence = 1, divergence_multipliers = [51]\<rparr> =
         return (Some c) \<and> in_byte_range c \<and>
       map_rgb unat (cast_pixel (Some c)) = map_rgb (\<lambda>v. nat \<lfloor>v\<rfloor>) c"
  using pixel_bytes_in_range
    [of "\<lparr>tally_mandelbrot = 1, tally_divergence = 1, divergence_multipliers = [51]\<rparr>"
      example_object
      "[(''m'', RGB 255 0 0), (''d'', RGB 0 0 255)]" "RGB 255 0 0" "RGB 0 0 255"]
  by (simp add: tally_inv_def samples_def in_byte_range_def)

text \<open>
  C33. The only exception of the colour block is \<open>KeyError\<close>, and it is raised
  exactly when a colour that the samples call for is missing from the table:
  \<^verbatim>\<open>'m'\<close> when some sample is in the set, \<^verbatim>\<open>'d'\<close> when some sample diverges.
\<close>

theorem pixel_color_key_error:
  "pixel_color self colors tally = raise e \<longleftrightarrow>
     e = KeyError \<and>
     (0 < tally_mandelbrot tally \<and> ''m'' \<notin> fst ` set colors \<or>
      0 < tally_divergence tally \<and> ''d'' \<notin> fst ` set colors)"
proof -
  have "(\<exists>e. pixel_color self colors tally = raise e) \<longleftrightarrow>
      \<not> is_ok (pixel_color self colors tally)"
    by (cases "pixel_color self colors tally") simp_all
  then show ?thesis
    using pixel_color_raises [of self colors tally]
    by (auto simp: pixel_color_ok_iff)
qed

theorem pixel_color_key_error_witness:
  "pixel_color example_object [(''m'', RGB 255 0 0)]
     \<lparr>tally_mandelbrot = 1, tally_divergence = 1, divergence_multipliers = [7]\<rparr> =
   raise KeyError"
  using pixel_color_key_error
    [of example_object "[(''m'', RGB 255 0 0)]"
      "\<lparr>tally_mandelbrot = 1, tally_divergence = 1, divergence_multipliers = [7]\<rparr>" KeyError]
  by simp

end
