(* ===== verification/Render.thy ===== *)
theory Render
  imports Color
begin

text \<open>
  The render loop and the method \<^verbatim>\<open>mandelbrot\<close> as a whole: validation of the
  configuration, the assignments to the object, the two nested loops over the
  pixels with the progress announcements, and the hand-over to \<^verbatim>\<open>write_image\<close>.
  Printing, speech and the image file are modelled as a list of output events.  The
  lemmas give the invariant of the loop state, the rendered image as a function of
  the pixel coordinates, the absence of exceptions for a valid configuration, and
  the sequence of announcements.
\<close>

section \<open>Output\<close>

text \<open>
  \<open>P_STRING cr ci p\<close> is the text \<^verbatim>\<open>P_STRING.format(cr=\<dots>, ci=\<dots>, p=\<dots>)\<close>;
  \<open>IMAGE_F cr ci top w h\<close> is the file name built from the centre, the top and the
  size.  Both are kept as the values they are built from; theory \<open>Output\<close> gives their
  text.
\<close>

datatype progress = P_STRING real real int

datatype image_file = IMAGE_F real real real int int

datatype event =
    Print progress
  | Say progress
  | RunAndWait
  | Save image_file "pixel list list"

text \<open>An exception, with the output written before it was raised.\<close>

type_synonym 'a outcome = "(error \<times> event list) + 'a"

section \<open>State of the render loop\<close>

text \<open>
  The local variables of \<^verbatim>\<open>mandelbrot\<close> that live across pixels: the image, the
  counter \<^verbatim>\<open>i\<close> (here \<open>pixels_done\<close>), the last announced percentage, and the
  output so far (\<open>trace\<close>).
\<close>

record render_state =
  image_array :: "pixel list list"
  pixels_done :: nat
  p_complete :: int
  trace :: "event list"

section \<open>Operations\<close>

text \<open>Validation and the assignments to the object, up to \<^verbatim>\<open>CENTER_PIXEL\<close>.  The
  parameter \<^verbatim>\<open>top\<close> is written \<open>top_im\<close>.\<close>

definition configure ::
  "int \<times> int \<Rightarrow> (string \<times> real list) list \<Rightarrow> (real \<times> real) option \<Rightarrow> real \<Rightarrow> int \<Rightarrow> int \<Rightarrow> bool
    \<Rightarrow> (fractal \<times> colors) result" where
  "configure image_size colors center top_im magnification divergence_iterations speak =
     (if fst image_size mod 2 = 1 \<or> snd image_size mod 2 = 1 then raise OddResolutionError
      else
        let center = (case center of None \<Rightarrow> (- 66 / 100, 0) | Some c \<Rightarrow> c)
        in if snd center \<ge> top_im then raise TopError
           else
             (case reshape_colors colors of
                Inl e \<Rightarrow> Inl e
              | Inr colors \<Rightarrow>
                  return (\<lparr>SPEAK = speak,
                            MAGNIFICATION = magnification,
                            DIVERGENCE_ITERATIONS = divergence_iterations,
                            DIVERGENCE_LEVELS = divergence_levels divergence_iterations,
                            IMAGE_SIZE = image_size,
                            CENTER = center,
                            TOP = top_im,
                            CENTER_PIXEL = center_pixel image_size\<rparr>, colors)))"

text \<open>\<^verbatim>\<open>np.zeros((h, w, 3), dtype=np.uint8)\<close>: \<open>ValueError\<close> for a negative dimension.\<close>

definition np_zeros :: "int \<Rightarrow> int \<Rightarrow> pixel list list result" where
  "np_zeros h w =
     (if h < 0 \<or> w < 0 then raise ValueError
      else return (replicate (nat h) (replicate (nat w) (RGB 0 0 0))))"

text \<open>\<^verbatim>\<open>print\<close>, and \<^verbatim>\<open>tts.say\<close> with \<^verbatim>\<open>tts.runAndWait\<close> when speech is on.\<close>

definition announce :: "fractal \<Rightarrow> int \<Rightarrow> event list" where
  "announce self p =
     Print (P_STRING (fst (CENTER self)) (snd (CENTER self)) p) #
     (if SPEAK self then [Say (P_STRING (fst (CENTER self)) (snd (CENTER self)) p), RunAndWait]
      else [])"

text \<open>\<^verbatim>\<open>int(percent_complete*100)//10*10\<close> for the counter value \<open>i\<close>.\<close>

definition percent :: "fractal \<Rightarrow> nat \<Rightarrow> int" where
  "percent self i =
     (let percent_complete =
            real (i + 1) / real_of_int (fst (IMAGE_SIZE self) * snd (IMAGE_SIZE self))
      in py_int (percent_complete * 100) div 10 * 10)"

text \<open>The colour of one pixel as bytes: sampling, blending and the cast.\<close>

definition pixel_value :: "fractal \<Rightarrow> colors \<Rightarrow> nat \<Rightarrow> nat \<Rightarrow> pixel result" where
  "pixel_value self colors pixel_x pixel_y =
     (case sample_pixel self pixel_x pixel_y of
        Inl e \<Rightarrow> Inl e
      | Inr tally \<Rightarrow>
          (case pixel_color self colors tally of
             Inl e \<Rightarrow> Inl e
           | Inr color \<Rightarrow> return (cast_pixel color)))"

text \<open>
  The end of the loop body: the counter is incremented and a new decade of the
  percentage is announced.  The division raises \<open>ZeroDivisionError\<close> for an image
  without pixels.
\<close>

definition count_pixel :: "fractal \<Rightarrow> render_state \<Rightarrow> render_state outcome" where
  "count_pixel self st =
     (if fst (IMAGE_SIZE self) * snd (IMAGE_SIZE self) = 0
      then Inl (ZeroDivisionError, trace st)
      else
        let i = pixels_done st + 1;
            p_complete' = percent self i
        in if p_complete' > p_complete st
           then Inr (st\<lparr>pixels_done := i, p_complete := p_complete',
                  trace := trace st @ announce self p_complete'\<rparr>)
           else Inr (st\<lparr>pixels_done := i\<rparr>))"

text \<open>The body of the inner loop: the pixel is computed, stored and counted.\<close>

definition render_pixel :: "fractal \<Rightarrow> colors \<Rightarrow> nat \<Rightarrow> render_state \<Rightarrow> nat \<Rightarrow> render_state outcome" where
  "render_pixel self colors pixel_y st pixel_x =
     (case pixel_value self colors pixel_x pixel_y of
        Inl e \<Rightarrow> Inl (e, trace st)
      | Inr color \<Rightarrow>
          (case setitem2 (image_array st) pixel_y pixel_x color of
             Inl e \<Rightarrow> Inl (e, trace st)
           | Inr image_array' \<Rightarrow> count_pixel self (st\<lparr>image_array := image_array'\<rparr>)))"

definition render_row :: "fractal \<Rightarrow> colors \<Rightarrow> render_state \<Rightarrow> nat \<Rightarrow> render_state outcome" where
  "render_row self colors st pixel_y =
     for_loop (render_pixel self colors pixel_y) (py_range (fst (IMAGE_SIZE self))) st"

definition render_image :: "fractal \<Rightarrow> colors \<Rightarrow> render_state \<Rightarrow> render_state outcome" where
  "render_image self colors st =
     for_loop (render_row self colors) (py_range (snd (IMAGE_SIZE self))) st"

text \<open>The file name, and \<^verbatim>\<open>write_image\<close> as one output event.\<close>

definition image_path :: "fractal \<Rightarrow> image_file" where
  "image_path self =
     IMAGE_F (fst (CENTER self)) (snd (CENTER self)) (TOP self)
       (fst (IMAGE_SIZE self)) (snd (IMAGE_SIZE self))"

definition write_image :: "pixel list list \<Rightarrow> image_file \<Rightarrow> event list" where
  "write_image img IMAGE_PATH = [Save IMAGE_PATH img]"

text \<open>
  The method: the object after the call and the output on success, the exception and
  the output before it otherwise.
\<close>

definition mandelbrot ::
  "int \<times> int \<Rightarrow> (string \<times> real list) list \<Rightarrow> (real \<times> real) option \<Rightarrow> real \<Rightarrow> int \<Rightarrow> int \<Rightarrow> bool
    \<Rightarrow> (fractal \<times> event list) outcome" where
  "mandelbrot image_size colors center top_im magnification divergence_iterations speak =
     (case configure image_size colors center top_im magnification divergence_iterations speak of
        Inl e \<Rightarrow> Inl (e, [])
      | Inr (self, colors) \<Rightarrow>
          (case np_zeros (snd image_size) (fst image_size) of
             Inl e \<Rightarrow> Inl (e, [])
           | Inr zeros \<Rightarrow>
               (case render_image self colors
                       \<lparr>image_array = zeros, pixels_done = 0, p_complete = 0,
                        trace = announce self 0\<rparr> of
                  Inl x \<Rightarrow> Inl x
                | Inr st \<Rightarrow>
                    Inr (self, trace st @ write_image (image_array st) (image_path self)))))"

text \<open>The defaults of the optional parameters.\<close>

definition mandelbrot_default ::
  "int \<times> int \<Rightarrow> (string \<times> real list) list \<Rightarrow> (fractal \<times> event list) outcome" where
  "mandelbrot_default image_size colors = mandelbrot image_size colors None (16 / 10) 1 1600 True"

declare configure_def [fractal_defs] np_zeros_def [fractal_defs] announce_def [fractal_defs]
  percent_def [fractal_defs] pixel_value_def [fractal_defs] count_pixel_def [fractal_defs]
  render_pixel_def [fractal_defs]
  render_row_def [fractal_defs] render_image_def [fractal_defs] image_path_def [fractal_defs]
  write_image_def [fractal_defs] mandelbrot_def [fractal_defs] mandelbrot_default_def [fractal_defs]

section \<open>Reading the output\<close>

text \<open>The percentages printed, the percentages spoken and the images written, in
  order.\<close>

fun announced :: "event list \<Rightarrow> int list" where
  "announced [] = []"
| "announced (Print (P_STRING cr ci p) # es) = p # announced es"
| "announced (e # es) = announced es"

fun spoken :: "event list \<Rightarrow> int list" where
  "spoken [] = []"
| "spoken (Say (P_STRING cr ci p) # es) = p # spoken es"
| "spoken (e # es) = spoken es"

fun written :: "event list \<Rightarrow> (image_file \<times> pixel list list) list" where
  "written [] = []"
| "written (Save f img # es) = (f, img) # written es"
| "written (e # es) = written es"

lemma announced_append [simp]: "announced (es @ fs) = announced es @ announced fs"
  by (induction es rule: announced.induct) simp_all

lemma spoken_append [simp]: "spoken (es @ fs) = spoken es @ spoken fs"
  by (induction es rule: spoken.induct) simp_all

lemma announced_announce [simp]: "announced (announce self p) = [p]"
  by (simp add: announce_def)

lemma spoken_announce [simp]: "spoken (announce self p) = (if SPEAK self then [p] else [])"
  by (simp add: announce_def)

lemma announced_write_image [simp]: "announced (write_image a f) = []"
  by (simp add: write_image_def)

lemma written_append [simp]: "written (es @ fs) = written es @ written fs"
  by (induction es rule: written.induct) simp_all

lemma written_announce [simp]: "written (announce self p) = []"
  by (simp add: announce_def)

lemma written_write_image [simp]: "written (write_image a f) = [(f, a)]"
  by (simp add: write_image_def)

section \<open>Lemmas on the percentage\<close>

abbreviation n_pixels :: "fractal \<Rightarrow> int" where
  "n_pixels self \<equiv> fst (IMAGE_SIZE self) * snd (IMAGE_SIZE self)"

lemma percent_eq:
  assumes "0 < n_pixels self"
  shows "percent self i = 100 * (int i + 1) div n_pixels self div 10 * 10"
proof -
  have "real (i + 1) / real_of_int (n_pixels self) * 100 =
        real_of_int (100 * (int i + 1)) / real_of_int (n_pixels self)"
    by simp
  moreover have "py_int (real_of_int (100 * (int i + 1)) / real_of_int (n_pixels self)) =
        100 * (int i + 1) div n_pixels self"
    using assms by (intro py_int_div_nonneg) simp_all
  ultimately show ?thesis
    by (simp only: percent_def Let_def)
qed

lemma percent_mod_10 [simp]: "percent self i mod 10 = 0"
  by (simp add: percent_def Let_def)

lemma percent_mono:
  assumes "0 < n_pixels self" and "i \<le> j"
  shows "percent self i \<le> percent self j"
proof -
  have "100 * (int i + 1) \<le> 100 * (int j + 1)"
    using assms(2) by simp
  then have "100 * (int i + 1) div n_pixels self \<le> 100 * (int j + 1) div n_pixels self"
    using assms(1) by (rule zdiv_mono1)
  then have "100 * (int i + 1) div n_pixels self div 10 \<le> 100 * (int j + 1) div n_pixels self div 10"
    by (rule zdiv_mono1) simp
  then show ?thesis by (simp only: percent_eq [OF assms(1)] mult_right_mono)
qed

lemma percent_nonneg: "0 < n_pixels self \<Longrightarrow> 0 \<le> percent self i"
  by (simp add: percent_eq pos_imp_zdiv_nonneg_iff)

text \<open>After the last pixel the counter is the number of pixels, and the percentage is
  computed from the counter plus one.\<close>

lemma percent_last:
  assumes "0 < n_pixels self" and "int i = n_pixels self"
  shows "percent self i = (100 + 100 div n_pixels self) div 10 * 10"
proof -
  have "100 * (n_pixels self + 1) = 100 + n_pixels self * 100" by (simp add: algebra_simps)
  moreover have "(100 + n_pixels self * 100) div n_pixels self = 100 + 100 div n_pixels self"
    using assms(1) by (intro div_mult_self2) auto
  ultimately have "100 * (n_pixels self + 1) div n_pixels self = 100 + 100 div n_pixels self"
    by (simp only:)
  with assms show ?thesis by (simp only: percent_eq)
qed

section \<open>Invariants of the loop state\<close>

text \<open>The image has the configured height and width.\<close>

definition shape_ok :: "fractal \<Rightarrow> pixel list list \<Rightarrow> bool" where
  "shape_ok self a \<longleftrightarrow>
     length a = nat (snd (IMAGE_SIZE self)) \<and>
     (\<forall>k<length a. length (a ! k) = nat (fst (IMAGE_SIZE self)))"

text \<open>
  The announcements start at 0, increase strictly, are multiples of ten, and end
  with \<open>p_complete\<close>, which is the percentage of the current counter; they are spoken
  exactly when speech is on.
\<close>

definition progress_inv :: "fractal \<Rightarrow> render_state \<Rightarrow> bool" where
  "progress_inv self st \<longleftrightarrow>
     announced (trace st) \<noteq> [] \<and>
     hd (announced (trace st)) = 0 \<and>
     last (announced (trace st)) = p_complete st \<and>
     sorted_wrt (<) (announced (trace st)) \<and>
     (\<forall>p\<in>set (announced (trace st)). p mod 10 = 0) \<and>
     p_complete st = (if pixels_done st = 0 then 0 else percent self (pixels_done st)) \<and>
     spoken (trace st) = (if SPEAK self then announced (trace st) else [])"

definition initial_state :: "fractal \<Rightarrow> pixel list list \<Rightarrow> render_state" where
  "initial_state self zeros =
     \<lparr>image_array = zeros, pixels_done = 0, p_complete = 0, trace = announce self 0\<rparr>"

lemma np_zeros_shape:
  "np_zeros (snd (IMAGE_SIZE self)) (fst (IMAGE_SIZE self)) = return a \<Longrightarrow> shape_ok self a"
  by (auto simp: np_zeros_def shape_ok_def split: if_splits)

lemma np_zeros_ok_iff: "is_ok (np_zeros h w) \<longleftrightarrow> 0 \<le> h \<and> 0 \<le> w"
  by (auto simp: np_zeros_def)

lemma np_zeros_nth:
  "np_zeros h w = return a \<Longrightarrow> i < nat h \<Longrightarrow> j < nat w \<Longrightarrow> a ! i ! j = RGB 0 0 0"
  by (auto simp: np_zeros_def split: if_splits)

lemma progress_inv_initial [simp]: "progress_inv self (initial_state self zeros)"
  by (simp add: progress_inv_def initial_state_def)

lemma shape_ok_initial [simp]:
  "shape_ok self (image_array (initial_state self zeros)) = shape_ok self zeros"
  by (simp add: initial_state_def)

section \<open>Lemmas on counting a pixel\<close>

lemma count_pixel_eq:
  assumes "n_pixels self \<noteq> 0"
  shows "count_pixel self st =
     Inr (st\<lparr>pixels_done := Suc (pixels_done st),
            p_complete := max (p_complete st) (percent self (Suc (pixels_done st))),
            trace := trace st @
              (if p_complete st < percent self (Suc (pixels_done st))
               then announce self (percent self (Suc (pixels_done st))) else [])\<rparr>)"
  using assms by (simp add: count_pixel_def Let_def max_def)

lemma count_pixel_raises: "n_pixels self = 0 \<Longrightarrow> count_pixel self st = Inl (ZeroDivisionError, trace st)"
  by (simp add: count_pixel_def)

lemma count_pixel_progress_inv:
  assumes "0 < n_pixels self" and "progress_inv self st" and "count_pixel self st = Inr st'"
  shows "progress_inv self st'"
proof -
  let ?p = "percent self (Suc (pixels_done st))"
  from assms(1) have nz: "n_pixels self \<noteq> 0" by auto
  have st': "st' = st\<lparr>pixels_done := Suc (pixels_done st), p_complete := max (p_complete st) ?p,
      trace := trace st @ (if p_complete st < ?p then announce self ?p else [])\<rparr>"
    using assms(3) unfolding count_pixel_eq [OF nz] by simp
  have le: "p_complete st \<le> ?p"
    using assms(2) percent_mono [OF assms(1), of "pixels_done st" "Suc (pixels_done st)"]
      percent_nonneg [OF assms(1), of "Suc (pixels_done st)"]
    by (auto simp: progress_inv_def split: if_splits)
  show ?thesis
  proof (cases "p_complete st < ?p")
    case True
    let ?A = "announced (trace st)"
    from assms(2) have A: "?A \<noteq> []" "hd ?A = 0" "last ?A = p_complete st"
      "sorted_wrt (<) ?A" "\<forall>p\<in>set ?A. p mod 10 = 0"
      "spoken (trace st) = (if SPEAK self then ?A else [])"
      by (simp_all add: progress_inv_def)
    from A(1,3,4) True have "sorted_wrt (<) (?A @ [?p])"
      by (intro sorted_wrt_less_snoc) simp_all
    with A True show ?thesis
      unfolding st' progress_inv_def by (simp add: max_def)
  next
    case False
    with le assms(2) show ?thesis
      unfolding st' progress_inv_def by (auto simp: max_def)
  qed
qed

section \<open>Lemmas on one pixel\<close>

lemma progress_inv_image_update [simp]:
  "progress_inv self (st\<lparr>image_array := a\<rparr>) = progress_inv self st"
  by (simp add: progress_inv_def)

lemma n_pixels_pos:
  assumes "x < nat (fst (IMAGE_SIZE self))" and "y < nat (snd (IMAGE_SIZE self))"
  shows "0 < n_pixels self"
proof -
  from assms have "0 < fst (IMAGE_SIZE self)" "0 < snd (IMAGE_SIZE self)" by linarith+
  then show ?thesis by (rule mult_pos_pos)
qed

lemma shape_ok_update:
  assumes "shape_ok self a" and "y < nat (snd (IMAGE_SIZE self))"
  shows "shape_ok self (a[y := (a ! y)[x := v]])"
  using assms by (auto simp: shape_ok_def nth_list_update)

lemma nth_nth_update:
  assumes "shape_ok self a" and "y < nat (snd (IMAGE_SIZE self))" and "x < nat (fst (IMAGE_SIZE self))"
    and "y' < nat (snd (IMAGE_SIZE self))"
  shows "a[y := (a ! y)[x := v]] ! y' ! x' = (if y' = y \<and> x' = x then v else a ! y' ! x')"
  using assms by (auto simp: shape_ok_def nth_list_update)

lemma render_pixel_raises:
  "pixel_value self colors x y = raise e \<Longrightarrow>
   render_pixel self colors y st x = Inl (e, trace st)"
  by (simp add: render_pixel_def)

lemma render_pixel_eq:
  assumes "shape_ok self (image_array st)"
    and "y < nat (snd (IMAGE_SIZE self))" and "x < nat (fst (IMAGE_SIZE self))"
    and "pixel_value self colors x y = return v"
  shows "render_pixel self colors y st x =
           count_pixel self (st\<lparr>image_array := (image_array st)[y := (image_array st ! y)[x := v]]\<rparr>)"
  using assms by (simp add: render_pixel_def setitem2_def shape_ok_def)

text \<open>What one successful pass of the inner loop has done.\<close>

lemma render_pixel_step:
  assumes sh: "shape_ok self (image_array st)"
    and y: "y < nat (snd (IMAGE_SIZE self))" and x: "x < nat (fst (IMAGE_SIZE self))"
    and r: "render_pixel self colors y st x = Inr st'"
  shows "\<exists>v. pixel_value self colors x y = return v \<and>
           image_array st' = (image_array st)[y := (image_array st ! y)[x := v]] \<and>
           pixels_done st' = Suc (pixels_done st) \<and>
           (progress_inv self st \<longrightarrow> progress_inv self st')"
proof (cases "pixel_value self colors x y")
  case (Inl e)
  with r show ?thesis by (simp add: render_pixel_raises)
next
  case (Inr v)
  let ?st = "st\<lparr>image_array := (image_array st)[y := (image_array st ! y)[x := v]]\<rparr>"
  from x y have pos: "0 < n_pixels self" by (rule n_pixels_pos)
  then have nz: "n_pixels self \<noteq> 0" by auto
  from r have c: "count_pixel self ?st = Inr st'"
    by (simp only: render_pixel_eq [OF sh y x Inr])
  then have "progress_inv self ?st \<longrightarrow> progress_inv self st'"
    using count_pixel_progress_inv [OF pos] by blast
  moreover from c have "image_array st' = image_array ?st" "pixels_done st' = Suc (pixels_done ?st)"
    unfolding count_pixel_eq [OF nz] by auto
  ultimately show ?thesis using Inr by simp
qed

lemma render_pixel_total:
  assumes "shape_ok self (image_array st)"
    and "y < nat (snd (IMAGE_SIZE self))" and "x < nat (fst (IMAGE_SIZE self))"
    and "is_ok (pixel_value self colors x y)"
  shows "\<exists>st'. render_pixel self colors y st x = Inr st'"
proof -
  from assms(4) obtain v where v: "pixel_value self colors x y = return v"
    by (auto simp: is_ok_iff)
  from n_pixels_pos [OF assms(3,2)] have "n_pixels self \<noteq> 0" by auto
  then show ?thesis
    by (simp add: render_pixel_eq [OF assms(1-3) v] count_pixel_eq)
qed

section \<open>Lemmas on the loops\<close>

text \<open>After \<open>k\<close> pixels of row \<open>y\<close>, started in state \<open>s0\<close>.\<close>

definition row_inv :: "fractal \<Rightarrow> colors \<Rightarrow> nat \<Rightarrow> render_state \<Rightarrow> nat \<Rightarrow> render_state \<Rightarrow> bool" where
  "row_inv self colors y s0 k s \<longleftrightarrow>
     shape_ok self (image_array s) \<and>
     pixels_done s = pixels_done s0 + k \<and>
     (\<forall>x<k. pixel_value self colors x y = return (image_array s ! y ! x)) \<and>
     (\<forall>y' x'. y' < nat (snd (IMAGE_SIZE self)) \<longrightarrow> y' \<noteq> y \<or> k \<le> x' \<longrightarrow>
        image_array s ! y' ! x' = image_array s0 ! y' ! x') \<and>
     (progress_inv self s0 \<longrightarrow> progress_inv self s)"

text \<open>After \<open>j\<close> rows, started in state \<open>s0\<close>.\<close>

definition image_inv :: "fractal \<Rightarrow> colors \<Rightarrow> render_state \<Rightarrow> nat \<Rightarrow> render_state \<Rightarrow> bool" where
  "image_inv self colors s0 j s \<longleftrightarrow>
     shape_ok self (image_array s) \<and>
     pixels_done s = pixels_done s0 + j * nat (fst (IMAGE_SIZE self)) \<and>
     (\<forall>y<j. \<forall>x<nat (fst (IMAGE_SIZE self)).
        pixel_value self colors x y = return (image_array s ! y ! x)) \<and>
     (\<forall>y' x'. y' < nat (snd (IMAGE_SIZE self)) \<longrightarrow> j \<le> y' \<longrightarrow>
        image_array s ! y' ! x' = image_array s0 ! y' ! x') \<and>
     (progress_inv self s0 \<longrightarrow> progress_inv self s)"

lemma row_inv_start: "shape_ok self (image_array s0) \<Longrightarrow> row_inv self colors y s0 0 s0"
  by (simp add: row_inv_def)

lemma image_inv_start: "shape_ok self (image_array s0) \<Longrightarrow> image_inv self colors s0 0 s0"
  by (simp add: image_inv_def)

lemma row_inv_step:
  assumes y: "y < nat (snd (IMAGE_SIZE self))" and k: "k < nat (fst (IMAGE_SIZE self))"
    and inv: "row_inv self colors y s0 k s"
    and r: "render_pixel self colors y s k = Inr s'"
  shows "row_inv self colors y s0 (Suc k) s'"
proof -
  from inv have sh: "shape_ok self (image_array s)" by (simp add: row_inv_def)
  from render_pixel_step [OF sh y k r] obtain v where
    v: "pixel_value self colors k y = return v"
    and img: "image_array s' = (image_array s)[y := (image_array s ! y)[k := v]]"
    and cnt: "pixels_done s' = Suc (pixels_done s)"
    and prog: "progress_inv self s \<longrightarrow> progress_inv self s'" by blast
  have nth: "image_array s' ! y' ! x' = (if y' = y \<and> x' = k then v else image_array s ! y' ! x')"
    if "y' < nat (snd (IMAGE_SIZE self))" for y' x'
    unfolding img using sh y k that by (rule nth_nth_update)
  from sh y have "shape_ok self (image_array s')"
    unfolding img by (rule shape_ok_update)
  with inv v cnt prog y show ?thesis
    by (auto simp: row_inv_def nth less_Suc_eq)
qed

lemma render_row_correct:
  assumes "render_row self colors s0 y = Inr s" and "shape_ok self (image_array s0)"
    and "y < nat (snd (IMAGE_SIZE self))"
  shows "row_inv self colors y s0 (nat (fst (IMAGE_SIZE self))) s"
  using assms(1) unfolding render_row_def py_range_def
  by (rule for_loop_upt_invariant) (auto intro: row_inv_start row_inv_step assms)

lemma image_inv_step:
  assumes j: "j < nat (snd (IMAGE_SIZE self))"
    and inv: "image_inv self colors s0 j s"
    and r: "render_row self colors s j = Inr s'"
  shows "image_inv self colors s0 (Suc j) s'"
proof -
  from inv have sh: "shape_ok self (image_array s)" by (simp add: image_inv_def)
  from render_row_correct [OF r sh j] have row: "row_inv self colors j s (nat (fst (IMAGE_SIZE self))) s'" .
  with inv j show ?thesis
    unfolding image_inv_def row_inv_def
    by (auto simp: less_Suc_eq algebra_simps)
qed

lemma render_image_correct:
  assumes "render_image self colors s0 = Inr s" and "shape_ok self (image_array s0)"
  shows "image_inv self colors s0 (nat (snd (IMAGE_SIZE self))) s"
  using assms(1) unfolding render_image_def py_range_def
  by (rule for_loop_upt_invariant) (auto intro: image_inv_start image_inv_step assms)

lemma render_row_total:
  assumes "shape_ok self (image_array s0)" and "y < nat (snd (IMAGE_SIZE self))"
    and "\<forall>x<nat (fst (IMAGE_SIZE self)). is_ok (pixel_value self colors x y)"
  shows "\<exists>s. render_row self colors s0 y = Inr s \<and> shape_ok self (image_array s)"
  unfolding render_row_def py_range_def
proof (rule for_loop_upt_total [where P = "\<lambda>k s. shape_ok self (image_array s)"])
  show "shape_ok self (image_array s0)" by fact
next
  fix k and s :: render_state
  assume k: "k < nat (fst (IMAGE_SIZE self))" and sh: "shape_ok self (image_array s)"
  from render_pixel_total [OF sh assms(2) k] assms(3) k
  obtain s' where s': "render_pixel self colors y s k = Inr s'" by blast
  from render_pixel_step [OF sh assms(2) k s'] shape_ok_update [OF sh assms(2)]
  have "shape_ok self (image_array s')" by auto
  with s' show "\<exists>s'. render_pixel self colors y s k = Inr s' \<and> shape_ok self (image_array s')"
    by blast
qed

lemma render_image_total:
  assumes "shape_ok self (image_array s0)"
    and "\<forall>y<nat (snd (IMAGE_SIZE self)). \<forall>x<nat (fst (IMAGE_SIZE self)).
           is_ok (pixel_value self colors x y)"
  shows "\<exists>s. render_image self colors s0 = Inr s"
proof -
  have "\<exists>s. for_loop (render_row self colors) [0..<nat (snd (IMAGE_SIZE self))] s0 = Inr s \<and>
          shape_ok self (image_array s)"
    by (rule for_loop_upt_total [where P = "\<lambda>k s. shape_ok self (image_array s)"])
      (auto intro: assms(1) render_row_total simp: assms(2))
  then show ?thesis by (auto simp: render_image_def py_range_def)
qed

section \<open>Abstract specification of the image\<close>

text \<open>
  An image is rendered when it has the configured shape and every cell holds the
  value of its pixel.  The value of a pixel depends on the object and the colours
  only: not on other pixels, the order of the loops, or the output.
\<close>

definition rendered :: "fractal \<Rightarrow> colors \<Rightarrow> pixel list list \<Rightarrow> bool" where
  "rendered self colors a \<longleftrightarrow>
     shape_ok self a \<and>
     (\<forall>y<nat (snd (IMAGE_SIZE self)). \<forall>x<nat (fst (IMAGE_SIZE self)).
        pixel_value self colors x y = return (a ! y ! x))"

lemma rendered_unique:
  assumes "rendered self colors a" and "rendered self colors b"
  shows "a = b"
proof (rule nth_equalityI)
  from assms show len: "length a = length b" by (simp add: rendered_def shape_ok_def)
  fix y assume y: "y < length a"
  with assms len have "length (a ! y) = length (b ! y)"
    by (simp add: rendered_def shape_ok_def)
  moreover have "a ! y ! x = b ! y ! x" if "x < length (a ! y)" for x
    using assms y that by (auto simp: rendered_def shape_ok_def)
  ultimately show "a ! y = b ! y" by (rule nth_equalityI)
qed

lemma render_image_rendered:
  assumes "render_image self colors s0 = Inr s" and "shape_ok self (image_array s0)"
  shows "rendered self colors (image_array s)"
  using render_image_correct [OF assms] by (simp add: image_inv_def rendered_def)

lemma render_image_counts:
  assumes "render_image self colors s0 = Inr s" and "shape_ok self (image_array s0)"
  shows "pixels_done s = pixels_done s0 + nat (snd (IMAGE_SIZE self)) * nat (fst (IMAGE_SIZE self))"
  using render_image_correct [OF assms] by (simp add: image_inv_def)

lemma render_image_progress:
  assumes "render_image self colors s0 = Inr s" and "shape_ok self (image_array s0)"
    and "progress_inv self s0"
  shows "progress_inv self s"
  using render_image_correct [OF assms(1,2)] assms(3) by (simp add: image_inv_def)

section \<open>Lemmas on the value of a pixel\<close>

lemma pixel_value_total:
  assumes "levels_ok self" and "snd (IMAGE_SIZE self) \<noteq> 0"
    and "''m'' \<in> fst ` set colors" and "''d'' \<in> fst ` set colors"
  shows "is_ok (pixel_value self colors x y)"
proof -
  from sample_pixel_total [OF assms(1,2)] obtain tally
    where t: "sample_pixel self x y = return tally" by blast
  from assms(3,4) have "is_ok (pixel_color self colors tally)"
    by (simp add: pixel_color_ok_iff)
  with t show ?thesis
    by (auto simp: pixel_value_def is_ok_iff)
qed

lemma pixel_value_raises:
  assumes "levels_ok self" and "snd (IMAGE_SIZE self) \<noteq> 0"
    and "pixel_value self colors x y = raise e"
  shows "e = KeyError"
proof -
  from sample_pixel_total [OF assms(1,2)] obtain tally
    where t: "sample_pixel self x y = return tally" by blast
  with assms(3) have "pixel_color self colors tally = raise e"
    by (auto simp: pixel_value_def split: sum.splits)
  then show ?thesis by (rule pixel_color_raises)
qed

section \<open>Lemmas on the configuration\<close>

text \<open>The object states that \<^verbatim>\<open>mandelbrot\<close> builds.\<close>

definition configured :: "fractal \<Rightarrow> bool" where
  "configured self \<longleftrightarrow>
     even (fst (IMAGE_SIZE self)) \<and> even (snd (IMAGE_SIZE self)) \<and>
     snd (CENTER self) < TOP self \<and>
     levels_ok self \<and>
     CENTER_PIXEL self = (fst (IMAGE_SIZE self) div 2, snd (IMAGE_SIZE self) div 2)"

text \<open>The three checks in their order, with the parity test as a predicate.\<close>

lemma configure_cases:
  "configure image_size colors center top_im magnification divergence_iterations speak =
     (if odd (fst image_size) \<or> odd (snd image_size) then raise OddResolutionError
      else if top_im \<le> snd (case center of None \<Rightarrow> (- 66 / 100, 0) | Some c \<Rightarrow> c)
        then raise TopError
      else case reshape_colors colors of
             Inl e \<Rightarrow> Inl e
           | Inr cs \<Rightarrow>
               return (\<lparr>SPEAK = speak, MAGNIFICATION = magnification,
                 DIVERGENCE_ITERATIONS = divergence_iterations,
                 DIVERGENCE_LEVELS = divergence_levels divergence_iterations,
                 IMAGE_SIZE = image_size,
                 CENTER = (case center of None \<Rightarrow> (- 66 / 100, 0) | Some c \<Rightarrow> c),
                 TOP = top_im, CENTER_PIXEL = center_pixel image_size\<rparr>, cs))"
  by (simp add: configure_def Let_def odd_iff_mod_2_eq_one)

lemma configure_odd:
  "odd (fst image_size) \<or> odd (snd image_size) \<Longrightarrow>
   configure image_size colors center top_im magnification divergence_iterations speak =
     raise OddResolutionError"
  by (auto simp: configure_cases)

lemma configure_top:
  assumes "even (fst image_size)" and "even (snd image_size)"
    and "top_im \<le> snd (case center of None \<Rightarrow> (- 66 / 100, 0) | Some c \<Rightarrow> c)"
  shows "configure image_size colors center top_im magnification divergence_iterations speak =
     raise TopError"
  using assms by (simp add: configure_cases)

lemma configure_eq:
  assumes "even (fst image_size)" and "even (snd image_size)"
    and "snd (case center of None \<Rightarrow> (- 66 / 100, 0) | Some c \<Rightarrow> c) < top_im"
    and "reshape_colors colors = return cs"
  shows "configure image_size colors center top_im magnification divergence_iterations speak =
     return (\<lparr>SPEAK = speak, MAGNIFICATION = magnification,
               DIVERGENCE_ITERATIONS = divergence_iterations,
               DIVERGENCE_LEVELS = divergence_levels divergence_iterations,
               IMAGE_SIZE = image_size,
               CENTER = (case center of None \<Rightarrow> (- 66 / 100, 0) | Some c \<Rightarrow> c),
               TOP = top_im, CENTER_PIXEL = center_pixel image_size\<rparr>, cs)"
  using assms by (simp add: configure_cases)

lemma configure_Inr_iff:
  "configure image_size colors center top_im magnification divergence_iterations speak =
     return (self, cs) \<longleftrightarrow>
   even (fst image_size) \<and> even (snd image_size) \<and>
   snd (case center of None \<Rightarrow> (- 66 / 100, 0) | Some c \<Rightarrow> c) < top_im \<and>
   reshape_colors colors = return cs \<and>
   self = \<lparr>SPEAK = speak, MAGNIFICATION = magnification,
            DIVERGENCE_ITERATIONS = divergence_iterations,
            DIVERGENCE_LEVELS = divergence_levels divergence_iterations,
            IMAGE_SIZE = image_size,
            CENTER = (case center of None \<Rightarrow> (- 66 / 100, 0) | Some c \<Rightarrow> c),
            TOP = top_im, CENTER_PIXEL = center_pixel image_size\<rparr>"
  by (auto simp: configure_cases split: sum.splits if_splits)

lemma configure_configured:
  assumes "configure image_size colors center top_im magnification divergence_iterations speak =
     return (self, cs)"
  shows "configured self"
  using assms unfolding configure_Inr_iff
  by (cases image_size) (auto simp: configured_def levels_ok_def center_pixel_even)

lemma configure_raises:
  assumes "configure image_size colors center top_im magnification divergence_iterations speak =
     raise e"
  shows "e \<in> {OddResolutionError, TopError, ValueError}"
  using assms
  by (auto simp: configure_cases split: if_splits sum.splits dest: reshape_colors_raises)

section \<open>Lemmas on the method as a whole\<close>

lemma mandelbrot_Inr_iff:
  "mandelbrot image_size colors center top_im magnification divergence_iterations speak =
     Inr (self, evs) \<longleftrightarrow>
   (\<exists>cs zeros st.
      configure image_size colors center top_im magnification divergence_iterations speak =
        return (self, cs) \<and>
      np_zeros (snd image_size) (fst image_size) = return zeros \<and>
      render_image self cs (initial_state self zeros) = Inr st \<and>
      evs = trace st @ write_image (image_array st) (image_path self))"
  by (auto simp: mandelbrot_def initial_state_def split: sum.splits prod.splits)

lemma configure_IMAGE_SIZE:
  "configure image_size colors center top_im magnification divergence_iterations speak =
     return (self, cs) \<Longrightarrow> IMAGE_SIZE self = image_size"
  by (auto simp: configure_Inr_iff)

text \<open>Everything a successful call has established.\<close>

lemma mandelbrot_success:
  assumes "mandelbrot image_size colors center top_im magnification divergence_iterations speak =
     Inr (self, evs)"
  obtains cs st where
    "configure image_size colors center top_im magnification divergence_iterations speak =
       return (self, cs)"
    and "configured self" and "rendered self cs (image_array st)" and "progress_inv self st"
    and "pixels_done st = nat (snd image_size) * nat (fst image_size)"
    and "evs = trace st @ [Save (image_path self) (image_array st)]"
proof -
  from assms obtain cs zeros st where
    c: "configure image_size colors center top_im magnification divergence_iterations speak =
        return (self, cs)"
    and z: "np_zeros (snd image_size) (fst image_size) = return zeros"
    and r: "render_image self cs (initial_state self zeros) = Inr st"
    and e: "evs = trace st @ write_image (image_array st) (image_path self)"
    unfolding mandelbrot_Inr_iff by blast
  from c have size: "IMAGE_SIZE self = image_size" by (rule configure_IMAGE_SIZE)
  with z have sh: "shape_ok self (image_array (initial_state self zeros))"
    by (simp add: np_zeros_shape)
  show ?thesis
  proof (rule that [OF c])
    show "configured self" using c by (rule configure_configured)
    show "rendered self cs (image_array st)" using r sh by (rule render_image_rendered)
    show "progress_inv self st" using r sh by (rule render_image_progress) simp
    show "pixels_done st = nat (snd image_size) * nat (fst image_size)"
      using render_image_counts [OF r sh] by (simp add: size initial_state_def)
    show "evs = trace st @ [Save (image_path self) (image_array st)]"
      using e by (simp add: write_image_def)
  qed
qed

text \<open>The exceptions of the method, with the output that precedes them.\<close>

lemma mandelbrot_configure_raises:
  "configure image_size colors center top_im magnification divergence_iterations speak = raise e \<Longrightarrow>
   mandelbrot image_size colors center top_im magnification divergence_iterations speak = Inl (e, [])"
  by (simp add: mandelbrot_def)

section \<open>Lemmas on the exceptions of the loops\<close>

text \<open>
  The state in which a pass of the loops starts: the image has its shape and the
  announcements are in order.
\<close>

definition loop_inv :: "fractal \<Rightarrow> render_state \<Rightarrow> bool" where
  "loop_inv self st \<longleftrightarrow> shape_ok self (image_array st) \<and> progress_inv self st"

lemma render_pixel_Inl:
  assumes "shape_ok self (image_array st)"
    and "y < nat (snd (IMAGE_SIZE self))" and "x < nat (fst (IMAGE_SIZE self))"
    and "levels_ok self" and "render_pixel self colors y st x = Inl (e, evs)"
  shows "e = KeyError \<and> evs = trace st"
proof (cases "pixel_value self colors x y")
  case (Inl e')
  from assms(2) have "snd (IMAGE_SIZE self) \<noteq> 0" by auto
  from pixel_value_raises [OF assms(4) this Inl] Inl assms(5) show ?thesis
    by (simp add: render_pixel_raises)
next
  case (Inr v)
  from n_pixels_pos [OF assms(3,2)] have "n_pixels self \<noteq> 0" by auto
  with assms(5) show ?thesis
    by (simp add: render_pixel_eq [OF assms(1-3) Inr] count_pixel_eq)
qed

lemma render_pixel_loop_inv:
  assumes "loop_inv self st"
    and "y < nat (snd (IMAGE_SIZE self))" and "x < nat (fst (IMAGE_SIZE self))"
    and "render_pixel self colors y st x = Inr st'"
  shows "loop_inv self st'"
proof -
  from assms(1) have sh: "shape_ok self (image_array st)" by (simp add: loop_inv_def)
  from render_pixel_step [OF sh assms(2-4)] shape_ok_update [OF sh assms(2)] assms(1)
  show ?thesis by (auto simp: loop_inv_def)
qed

lemma render_row_loop_inv:
  assumes "loop_inv self s0" and "y < nat (snd (IMAGE_SIZE self))"
    and "render_row self colors s0 y = Inr s"
  shows "loop_inv self s"
  using assms render_row_correct [OF assms(3) _ assms(2)]
  by (simp add: loop_inv_def row_inv_def)

text \<open>What the output holds when an exception leaves the loops.\<close>

definition interrupted :: "error \<Rightarrow> event list \<Rightarrow> bool" where
  "interrupted e evs \<longleftrightarrow>
     e = KeyError \<and> announced evs \<noteq> [] \<and> hd (announced evs) = 0 \<and>
     sorted_wrt (<) (announced evs)"

lemma render_row_Inl:
  assumes "loop_inv self s0" and "y < nat (snd (IMAGE_SIZE self))" and "levels_ok self"
    and "render_row self colors s0 y = Inl (e, evs)"
  shows "interrupted e evs"
  using assms(4,1) unfolding render_row_def
proof (rule for_loop_raises [where P = "loop_inv self"])
  fix s :: render_state and x s'
  assume x: "x \<in> set (py_range (fst (IMAGE_SIZE self)))" and inv: "loop_inv self s"
    and r: "render_pixel self colors y s x = Inr s'"
  from x have "x < nat (fst (IMAGE_SIZE self))" by simp
  with inv assms(2) show "loop_inv self s'" using r by (rule render_pixel_loop_inv)
next
  fix s :: render_state and x
  assume x: "x \<in> set (py_range (fst (IMAGE_SIZE self)))" and inv: "loop_inv self s"
    and r: "render_pixel self colors y s x = Inl (e, evs)"
  from x have "x < nat (fst (IMAGE_SIZE self))" by simp
  from render_pixel_Inl [OF _ assms(2) this assms(3) r] inv show "interrupted e evs"
    by (simp add: loop_inv_def progress_inv_def interrupted_def)
qed

lemma render_image_Inl:
  assumes "loop_inv self s0" and "levels_ok self"
    and "render_image self colors s0 = Inl (e, evs)"
  shows "interrupted e evs"
  using assms(3,1) unfolding render_image_def
proof (rule for_loop_raises [where P = "loop_inv self"])
  fix s :: render_state and y s'
  assume y: "y \<in> set (py_range (snd (IMAGE_SIZE self)))" and inv: "loop_inv self s"
    and r: "render_row self colors s y = Inr s'"
  from y have "y < nat (snd (IMAGE_SIZE self))" by simp
  with inv show "loop_inv self s'" using r by (rule render_row_loop_inv)
next
  fix s :: render_state and y
  assume y: "y \<in> set (py_range (snd (IMAGE_SIZE self)))" and inv: "loop_inv self s"
    and r: "render_row self colors s y = Inl (e, evs)"
  from y have "y < nat (snd (IMAGE_SIZE self))" by simp
  with inv show "interrupted e evs" using assms(2) r by (rule render_row_Inl)
qed

text \<open>An exception of the method is one of the configuration, of the allocation of the
  image, or of the loops.\<close>

lemma mandelbrot_Inl_cases:
  assumes "mandelbrot image_size colors center top_im magnification divergence_iterations speak =
     Inl (e, evs)"
  obtains
    (configure) "evs = []"
      "configure image_size colors center top_im magnification divergence_iterations speak = raise e"
  | (zeros) self cs where "evs = []" "e = ValueError"
      "configure image_size colors center top_im magnification divergence_iterations speak =
         return (self, cs)"
      "fst image_size < 0 \<or> snd image_size < 0"
  | (loops) self cs zeros where
      "configure image_size colors center top_im magnification divergence_iterations speak =
         return (self, cs)"
      "np_zeros (snd image_size) (fst image_size) = return zeros"
      "render_image self cs (initial_state self zeros) = Inl (e, evs)"
  using assms
  by (auto simp: mandelbrot_def initial_state_def np_zeros_def
      split: sum.splits prod.splits if_splits)

lemma mandelbrot_loops_Inl:
  assumes "configure image_size colors center top_im magnification divergence_iterations speak =
         return (self, cs)"
    and "np_zeros (snd image_size) (fst image_size) = return zeros"
    and "render_image self cs (initial_state self zeros) = Inl (e, evs)"
  shows "interrupted e evs"
proof -
  from assms(1) have size: "IMAGE_SIZE self = image_size" by (rule configure_IMAGE_SIZE)
  with assms(2) have "loop_inv self (initial_state self zeros)"
    by (simp add: loop_inv_def np_zeros_shape)
  moreover from configure_configured [OF assms(1)] have "levels_ok self"
    by (simp add: configured_def)
  ultimately show ?thesis using assms(3) by (rule render_image_Inl)
qed

section \<open>Lemmas on a call that returns\<close>

lemma mandelbrot_ok:
  assumes c: "configure image_size colors center top_im magnification divergence_iterations speak =
       return (self, cs)"
    and size: "0 \<le> fst image_size" "0 \<le> snd image_size"
    and ok: "\<forall>y<nat (snd image_size). \<forall>x<nat (fst image_size). is_ok (pixel_value self cs x y)"
  shows "\<exists>evs. mandelbrot image_size colors center top_im magnification divergence_iterations
           speak = Inr (self, evs)"
proof -
  from c have s: "IMAGE_SIZE self = image_size" by (rule configure_IMAGE_SIZE)
  from size obtain zeros where z: "np_zeros (snd image_size) (fst image_size) = return zeros"
    using np_zeros_ok_iff [of "snd image_size" "fst image_size"] by (auto simp: is_ok_iff)
  then have "shape_ok self (image_array (initial_state self zeros))"
    using np_zeros_shape [of self zeros] by (simp add: s)
  then have "\<exists>st. render_image self cs (initial_state self zeros) = Inr st"
    using ok by (intro render_image_total) (simp_all add: s)
  with c z show ?thesis
    unfolding mandelbrot_Inr_iff by blast
qed

text \<open>A call with a valid configuration returns.\<close>

lemma mandelbrot_returns:
  assumes "even (fst image_size)" and "even (snd image_size)"
    and "0 \<le> fst image_size" and "0 \<le> snd image_size"
    and "snd (case center of None \<Rightarrow> (- 66 / 100, 0) | Some c \<Rightarrow> c) < top_im"
    and "\<forall>(key, v)\<in>set colors. length v = 3"
    and "''m'' \<in> fst ` set colors" and "''d'' \<in> fst ` set colors"
  shows "\<exists>self evs.
      mandelbrot image_size colors center top_im magnification divergence_iterations speak =
        Inr (self, evs)"
proof -
  from assms(6) obtain cs where cs: "reshape_colors colors = return cs"
    using reshape_colors_ok_iff [of colors] by (auto simp: is_ok_iff)
  then have keys: "''m'' \<in> fst ` set cs" "''d'' \<in> fst ` set cs"
    using assms(7,8) reshape_colors_keys [OF cs] by (metis list.set_map)+
  from configure_eq [OF assms(1,2,5) cs] obtain self where
    c: "configure image_size colors center top_im magnification divergence_iterations speak =
      return (self, cs)" by blast
  then have "levels_ok self" and size: "IMAGE_SIZE self = image_size"
    using configure_configured [OF c] by (simp_all add: configured_def configure_IMAGE_SIZE)
  then have "is_ok (pixel_value self cs x y)" if "y < nat (snd image_size)" for x y
    using keys that by (intro pixel_value_total) auto
  with c assms(3,4) show ?thesis
    by (meson mandelbrot_ok)
qed

text \<open>The image of a call that returns is the last event of its output.\<close>

lemma mandelbrot_image:
  assumes "mandelbrot image_size colors center top_im magnification divergence_iterations speak =
     Inr (self, evs)"
  obtains cs img where
    "configure image_size colors center top_im magnification divergence_iterations speak =
       return (self, cs)"
    and "rendered self cs img" and "evs \<noteq> []" and "last evs = Save (image_path self) img"
  using assms by (elim mandelbrot_success) simp

section \<open>Speech does not affect the run\<close>

text \<open>The output with the speech events erased, and the object and the loop state of
  the run without speech.\<close>

fun is_speech :: "event \<Rightarrow> bool" where
  "is_speech (Say p) = True"
| "is_speech RunAndWait = True"
| "is_speech e = False"

definition silent :: "event list \<Rightarrow> event list" where
  "silent evs = filter (\<lambda>e. \<not> is_speech e) evs"

definition mute :: "fractal \<Rightarrow> fractal" where
  "mute self = self\<lparr>SPEAK := False\<rparr>"

definition mute_state :: "render_state \<Rightarrow> render_state" where
  "mute_state st = st\<lparr>trace := silent (trace st)\<rparr>"

lemma silent_Nil [simp]: "silent [] = []"
  by (simp add: silent_def)

lemma silent_append [simp]: "silent (es @ fs) = silent es @ silent fs"
  by (simp add: silent_def)

lemma silent_announce [simp]: "silent (announce self p) = announce (mute self) p"
  by (simp add: silent_def announce_def mute_def)

lemma silent_write_image [simp]: "silent (write_image img f) = write_image img f"
  by (simp add: silent_def write_image_def)

lemma mute_simps [simp]:
  "MAGNIFICATION (mute self) = MAGNIFICATION self"
  "DIVERGENCE_ITERATIONS (mute self) = DIVERGENCE_ITERATIONS self"
  "DIVERGENCE_LEVELS (mute self) = DIVERGENCE_LEVELS self"
  "IMAGE_SIZE (mute self) = IMAGE_SIZE self"
  "CENTER (mute self) = CENTER self"
  "TOP (mute self) = TOP self"
  "CENTER_PIXEL (mute self) = CENTER_PIXEL self"
  "SPEAK (mute self) = False"
  by (simp_all add: mute_def)

lemma mute_state_simps [simp]:
  "image_array (mute_state st) = image_array st"
  "pixels_done (mute_state st) = pixels_done st"
  "p_complete (mute_state st) = p_complete st"
  "trace (mute_state st) = silent (trace st)"
  by (simp_all add: mute_state_def)

lemma pixel_value_mute [simp]: "pixel_value (mute self) colors x y = pixel_value self colors x y"
proof -
  have "subpixel (mute self) x y = subpixel self x y"
    by (intro ext)
      (simp add: subpixel_def classify_def pixels_to_coordinates_def unit_per_pixel_def
        cong: case_congs)
  moreover have "pixel_color (mute self) colors = pixel_color self colors"
    by (intro ext) (simp add: pixel_color_def divergence_rows_def cong: case_congs)
  ultimately show ?thesis
    by (simp add: pixel_value_def sample_pixel_def cong: case_congs)
qed

lemma percent_mute [simp]: "percent (mute self) i = percent self i"
  by (simp add: percent_def)

lemma image_path_mute [simp]: "image_path (mute self) = image_path self"
  by (simp add: image_path_def)

lemma count_pixel_mute:
  "map_sum (map_prod id silent) mute_state (count_pixel self st) =
     count_pixel (mute self) (mute_state st)"
  by (simp add: count_pixel_def Let_def mute_state_def)

lemma mute_state_image:
  "(mute_state st)\<lparr>image_array := a\<rparr> = mute_state (st\<lparr>image_array := a\<rparr>)"
  by (simp add: mute_state_def)

lemma render_pixel_mute:
  "map_sum (map_prod id silent) mute_state (render_pixel self colors y st x) =
     render_pixel (mute self) colors y (mute_state st) x"
  by (simp add: render_pixel_def mute_state_image count_pixel_mute [symmetric] split: sum.splits)

lemma render_row_mute:
  "map_sum (map_prod id silent) mute_state (render_row self colors st y) =
     render_row (mute self) colors (mute_state st) y"
  unfolding render_row_def mute_simps
  by (rule for_loop_commute) (rule render_pixel_mute)

lemma render_image_mute:
  "map_sum (map_prod id silent) mute_state (render_image self colors st) =
     render_image (mute self) colors (mute_state st)"
  unfolding render_image_def mute_simps
  by (rule for_loop_commute) (rule render_row_mute)

lemma configure_mute:
  "map_sum id (map_prod mute id)
     (configure image_size colors center top_im magnification divergence_iterations speak) =
   configure image_size colors center top_im magnification divergence_iterations False"
  by (simp add: configure_cases mute_def split: sum.splits)

section \<open>A worked example\<close>

text \<open>
  The call \<^verbatim>\<open>mandelbrot((2, 2), {'m': [255, 0, 0], 'd': [0, 0, 255]}, center=(0, 0),
  top=2, magnification=1, divergence_iterations=2)\<close>: the four samples are \<open>0\<close>, which
  stays in the disc, \<open>2\<close> and \<open>2\<i>\<close>, which leave it at the second iteration, and
  \<open>2 + 2\<i>\<close>, which is outside the disc from the start.
\<close>

abbreviation example_colors :: "(string \<times> real list) list" where
  "example_colors \<equiv> [(''m'', [255, 0, 0]), (''d'', [0, 0, 255])]"

abbreviation example_self :: "bool \<Rightarrow> fractal" where
  "example_self speak \<equiv>
     \<lparr>SPEAK = speak, MAGNIFICATION = 1, DIVERGENCE_ITERATIONS = 2,
      DIVERGENCE_LEVELS = divergence_levels 2, IMAGE_SIZE = (2, 2), CENTER = (0, 0),
      TOP = 2, CENTER_PIXEL = (1, 1)\<rparr>"

abbreviation example_image :: "pixel list list" where
  "example_image \<equiv> [[RGB 255 0 0, RGB 0 0 254], [RGB 0 0 254, RGB 0 0 0]]"

lemmas example_simps =
  fractal_defs py_defs divergence_multiplier_levels bucket_def Let_def upt_rec
  coordinates_good_iff power2_eq_square numeral_2_eq_2

lemma example_2x2:
  "mandelbrot (2, 2) example_colors (Some (0, 0)) 2 1 2 False =
     Inr (example_self False,
          [Print (P_STRING 0 0 0), Print (P_STRING 0 0 50), Print (P_STRING 0 0 70),
           Print (P_STRING 0 0 100), Print (P_STRING 0 0 120),
           Save (IMAGE_F 0 0 2 2 2) example_image])"
  by (simp add: example_simps del: divergence_levels_def divergence_multiplier_def)

lemma example_2x2_spoken:
  "mandelbrot (2, 2) example_colors (Some (0, 0)) 2 1 2 True =
     Inr (example_self True,
          [Print (P_STRING 0 0 0), Say (P_STRING 0 0 0), RunAndWait,
           Print (P_STRING 0 0 50), Say (P_STRING 0 0 50), RunAndWait,
           Print (P_STRING 0 0 70), Say (P_STRING 0 0 70), RunAndWait,
           Print (P_STRING 0 0 100), Say (P_STRING 0 0 100), RunAndWait,
           Print (P_STRING 0 0 120), Say (P_STRING 0 0 120), RunAndWait,
           Save (IMAGE_F 0 0 2 2 2) example_image])"
  by (simp add: example_simps del: divergence_levels_def divergence_multiplier_def)

text \<open>The same call without \<^verbatim>\<open>'d'\<close>: the first pixel is in the set and is counted;
  the second diverges.\<close>

lemma example_missing_key:
  "mandelbrot (2, 2) [(''m'', [255, 0, 0])] (Some (0, 0)) 2 1 2 False =
     Inl (KeyError, [Print (P_STRING 0 0 0), Print (P_STRING 0 0 50)])"
  by (simp add: example_simps del: divergence_levels_def divergence_multiplier_def)

text \<open>The loops of the first call: the table of colours after conversion, the state in
  which they start and the state in which they end.\<close>

abbreviation example_table :: colors where
  "example_table \<equiv> [(''m'', RGB 255 0 0), (''d'', RGB 0 0 255)]"

abbreviation example_start :: render_state where
  "example_start \<equiv>
     initial_state (example_self False) [[RGB 0 0 0, RGB 0 0 0], [RGB 0 0 0, RGB 0 0 0]]"

abbreviation example_end :: render_state where
  "example_end \<equiv>
     \<lparr>image_array = example_image, pixels_done = 4, p_complete = 120,
      trace = [Print (P_STRING 0 0 0), Print (P_STRING 0 0 50), Print (P_STRING 0 0 70),
               Print (P_STRING 0 0 100), Print (P_STRING 0 0 120)]\<rparr>"

lemma example_render_image:
  "render_image (example_self False) example_table example_start = Inr example_end"
  by (simp add: example_simps initial_state_def
      del: divergence_levels_def divergence_multiplier_def)

lemma example_shape: "shape_ok (example_self False) (image_array example_start)"
  by (simp add: shape_ok_def initial_state_def less_Suc_eq numeral_2_eq_2)

end
