(* ===== verification/Machine.thy ===== *)
theory Machine
  imports Render
begin

text \<open>
  The render loop as a state machine.  The two nested loops of \<^verbatim>\<open>mandelbrot\<close> visit the
  pixels in row-major order, and the counter \<^verbatim>\<open>i\<close> tells where they are: one step of
  the machine is one pass of the inner loop body, for the pixel in row \<open>i div width\<close>
  and column \<open>i mod width\<close>.  The theory defines the step relation and the reachable
  states, proves that the loops of theory \<open>Render\<close> are a run of the machine from the
  initial state to a final one, and establishes the invariant of the reachable states
  by rule induction.
\<close>

section \<open>The machine\<close>

abbreviation width :: "fractal \<Rightarrow> nat" where
  "width self \<equiv> nat (fst (IMAGE_SIZE self))"

abbreviation height :: "fractal \<Rightarrow> nat" where
  "height self \<equiv> nat (snd (IMAGE_SIZE self))"

text \<open>
  A configuration is the loop state, or the exception that ended the loops with the
  output written before it.  A pass is taken while pixels are left.
\<close>

inductive step :: "fractal \<Rightarrow> colors \<Rightarrow> render_state outcome \<Rightarrow> render_state outcome \<Rightarrow> bool"
  for self :: fractal and colors :: colors where
  pass: "pixels_done st < height self * width self \<Longrightarrow>
         step self colors (Inr st)
           (render_pixel self colors (pixels_done st div width self) st
              (pixels_done st mod width self))"

inductive_cases stepE: "step self colors c c'"
inductive_simps step_Inl [simp]: "step self colors (Inl x) c'"

definition final :: "fractal \<Rightarrow> render_state outcome \<Rightarrow> bool" where
  "final self c =
     (case c of Inl x \<Rightarrow> True | Inr st \<Rightarrow> height self * width self \<le> pixels_done st)"

text \<open>The states the machine reaches from the initial state of a call.\<close>

inductive reachable :: "fractal \<Rightarrow> colors \<Rightarrow> pixel list list \<Rightarrow> render_state \<Rightarrow> bool"
  for self :: fractal and colors :: colors and zeros :: "pixel list list" where
  init: "reachable self colors zeros (initial_state self zeros)"
| after: "reachable self colors zeros st \<Longrightarrow> step self colors (Inr st) (Inr st') \<Longrightarrow>
         reachable self colors zeros st'"

section \<open>Lemmas on one step\<close>

lemma final_simps [simp]:
  "final self (Inl x)"
  "final self (Inr st) \<longleftrightarrow> height self * width self \<le> pixels_done st"
  by (simp_all add: final_def)

lemma step_iff:
  "step self colors (Inr st) c \<longleftrightarrow>
     pixels_done st < height self * width self \<and>
     c = render_pixel self colors (pixels_done st div width self) st (pixels_done st mod width self)"
  by (auto intro: step.intros elim: stepE)

lemma step_deterministic_aux: "step self colors c c1 \<Longrightarrow> step self colors c c2 \<Longrightarrow> c1 = c2"
  by (auto elim!: stepE)

lemma final_no_step: "final self c \<Longrightarrow> \<not> step self colors c c'"
  by (cases c) (auto simp: step_iff)

lemma not_final_step: "\<not> final self c \<Longrightarrow> \<exists>c'. step self colors c c'"
  by (cases c) (auto simp: step_iff)

text \<open>The position of pixel \<open>y * width + x\<close>.\<close>

lemma position [simp]:
  assumes "x < width self"
  shows "(y * width self + x) div width self = y" and "(y * width self + x) mod width self = x"
  using assms by simp_all

lemma position_less:
  assumes "x < width self" and "y < height self"
  shows "y * width self + x < height self * width self"
proof -
  from assms(1) have "y * width self + x < Suc y * width self" by simp
  also from assms(2) have "\<dots> \<le> height self * width self"
    by (intro mult_le_mono1) simp
  finally show ?thesis .
qed

lemma step_pixel:
  assumes "x < width self" and "y < height self" and "pixels_done st = y * width self + x"
  shows "step self colors (Inr st) (render_pixel self colors y st x)"
  using assms position_less [OF assms(1,2)] by (simp add: step_iff)

section \<open>The loops as runs of the machine\<close>

text \<open>The first \<open>k\<close> passes of the inner loop for row \<open>y\<close>, started where the counter
  stands at the first pixel of the row.\<close>

lemma row_run:
  assumes sh: "shape_ok self (image_array s)" and y: "y < height self"
    and n: "pixels_done s = y * width self" and k: "k \<le> width self"
  shows "(step self colors)\<^sup>*\<^sup>* (Inr s) (for_loop (render_pixel self colors y) [0..<k] s) \<and>
         (\<forall>t. for_loop (render_pixel self colors y) [0..<k] s = Inr t \<longrightarrow>
            shape_ok self (image_array t) \<and> pixels_done t = y * width self + k)"
  using k
proof (induction k)
  case 0
  with sh n show ?case by simp
next
  case (Suc k)
  let ?r = "for_loop (render_pixel self colors y) [0..<k] s"
  from Suc have run: "(step self colors)\<^sup>*\<^sup>* (Inr s) ?r"
    and inv: "\<And>t. ?r = Inr t \<Longrightarrow> shape_ok self (image_array t) \<and> pixels_done t = y * width self + k"
    by simp_all
  show ?case
  proof (cases ?r)
    case (Inl x)
    with run show ?thesis by (simp add: for_loop_snoc)
  next
    case (Inr t)
    from inv [OF Inr] have t: "shape_ok self (image_array t)" "pixels_done t = y * width self + k"
      by simp_all
    from Suc.prems have x: "k < width self" by simp
    from x y t(2) have "step self colors (Inr t) (render_pixel self colors y t k)"
      by (rule step_pixel)
    with run Inr have "(step self colors)\<^sup>*\<^sup>* (Inr s) (render_pixel self colors y t k)"
      by simp
    moreover have "shape_ok self (image_array t') \<and> pixels_done t' = y * width self + Suc k"
      if "render_pixel self colors y t k = Inr t'" for t'
      using render_pixel_step [OF t(1) y x that] shape_ok_update [OF t(1) y] t(2) by auto
    ultimately show ?thesis
      using Inr by (simp add: for_loop_snoc)
  qed
qed

lemma render_row_run:
  assumes "shape_ok self (image_array s)" and "y < height self" and "pixels_done s = y * width self"
  shows "(step self colors)\<^sup>*\<^sup>* (Inr s) (render_row self colors s y) \<and>
         (\<forall>t. render_row self colors s y = Inr t \<longrightarrow>
            shape_ok self (image_array t) \<and> pixels_done t = Suc y * width self)"
  using row_run [OF assms, of "width self" colors]
  by (simp add: render_row_def py_range_def add.commute)

text \<open>The first \<open>j\<close> passes of the outer loop, started with the counter at 0.\<close>

lemma rows_run:
  assumes sh: "shape_ok self (image_array s)" and n: "pixels_done s = 0" and j: "j \<le> height self"
  shows "(step self colors)\<^sup>*\<^sup>* (Inr s) (for_loop (render_row self colors) [0..<j] s) \<and>
         (\<forall>t. for_loop (render_row self colors) [0..<j] s = Inr t \<longrightarrow>
            shape_ok self (image_array t) \<and> pixels_done t = j * width self)"
  using j
proof (induction j)
  case 0
  with sh n show ?case by simp
next
  case (Suc j)
  let ?r = "for_loop (render_row self colors) [0..<j] s"
  from Suc have run: "(step self colors)\<^sup>*\<^sup>* (Inr s) ?r"
    and inv: "\<And>t. ?r = Inr t \<Longrightarrow> shape_ok self (image_array t) \<and> pixels_done t = j * width self"
    by simp_all
  show ?case
  proof (cases ?r)
    case (Inl x)
    with run show ?thesis by (simp add: for_loop_snoc)
  next
    case (Inr t)
    from inv [OF Inr] have t: "shape_ok self (image_array t)" "pixels_done t = j * width self"
      by simp_all
    from Suc.prems have "j < height self" by simp
    from render_row_run [OF t(1) this t(2), of colors] run Inr show ?thesis
      by (auto simp: for_loop_snoc intro: rtranclp_trans)
  qed
qed

lemma render_image_run:
  assumes "shape_ok self (image_array s)" and "pixels_done s = 0"
  shows "(step self colors)\<^sup>*\<^sup>* (Inr s) (render_image self colors s)"
    and "final self (render_image self colors s)"
  using rows_run [OF assms, of "height self" colors]
  by (auto simp: render_image_def py_range_def final_def split: sum.splits)

section \<open>Invariant of the reachable states\<close>

text \<open>
  In a reachable state the image has its shape, the announcements are in order, the
  counter is within the number of pixels, the pixels before the counter hold their
  final values and the others are still as allocated.
\<close>

definition machine_inv :: "fractal \<Rightarrow> colors \<Rightarrow> pixel list list \<Rightarrow> render_state \<Rightarrow> bool" where
  "machine_inv self colors zeros st \<longleftrightarrow>
     shape_ok self (image_array st) \<and> progress_inv self st \<and>
     pixels_done st \<le> height self * width self \<and>
     (\<forall>k<height self * width self.
        if k < pixels_done st
        then pixel_value self colors (k mod width self) (k div width self) =
               return (image_array st ! (k div width self) ! (k mod width self))
        else image_array st ! (k div width self) ! (k mod width self) =
               zeros ! (k div width self) ! (k mod width self))"

lemma position_of:
  assumes "k < height self * width self"
  shows "k mod width self < width self" and "k div width self < height self"
proof -
  from assms have w: "0 < width self" by (cases "width self") simp_all
  then show "k mod width self < width self" by simp
  from assms w show "k div width self < height self"
    by (simp add: less_mult_imp_div_less)
qed

lemma position_eq_iff:
  assumes "0 < width self"
  shows "k div width self = n div width self \<and> k mod width self = n mod width self \<longleftrightarrow> k = n"
  by (metis div_mult_mod_eq)

lemma machine_inv_init:
  assumes "shape_ok self zeros"
  shows "machine_inv self colors zeros (initial_state self zeros)"
  using assms by (simp add: machine_inv_def initial_state_def progress_inv_initial [unfolded initial_state_def])

lemma machine_inv_step:
  assumes inv: "machine_inv self colors zeros st" and s: "step self colors (Inr st) (Inr st')"
  shows "machine_inv self colors zeros st'"
proof -
  let ?n = "pixels_done st" and ?w = "width self"
  from s have n: "?n < height self * ?w"
    and r: "render_pixel self colors (?n div ?w) st (?n mod ?w) = Inr st'"
    by (auto simp: step_iff)
  from inv have sh: "shape_ok self (image_array st)" and pr: "progress_inv self st"
    by (simp_all add: machine_inv_def)
  note pos = position_of [OF n]
  from n have w: "0 < ?w" by (cases ?w) simp_all
  from render_pixel_step [OF sh pos(2) pos(1) r] pr obtain v where
    v: "pixel_value self colors (?n mod ?w) (?n div ?w) = return v"
    and img: "image_array st' = (image_array st)[?n div ?w := (image_array st ! (?n div ?w))[?n mod ?w := v]]"
    and cnt: "pixels_done st' = Suc ?n" and pr': "progress_inv self st'" by blast
  have nth: "image_array st' ! (k div ?w) ! (k mod ?w) =
      (if k = ?n then v else image_array st ! (k div ?w) ! (k mod ?w))"
    if "k < height self * ?w" for k
    unfolding img
    using nth_nth_update [OF sh pos(2) pos(1) position_of(2) [OF that]] position_eq_iff [OF w, of k ?n]
    by auto
  from sh pos(2) have "shape_ok self (image_array st')"
    unfolding img by (rule shape_ok_update)
  with inv pr' n v show ?thesis
    by (auto simp: machine_inv_def cnt nth less_Suc_eq)
qed

lemma reachable_machine_inv:
  assumes "reachable self colors zeros st" and "shape_ok self zeros"
  shows "machine_inv self colors zeros st"
  using assms by (induction rule: reachable.induct) (auto intro: machine_inv_init machine_inv_step)

section \<open>Runs end, and end in one configuration\<close>

lemma step_counts:
  assumes "shape_ok self (image_array st)" and "step self colors (Inr st) (Inr st')"
  shows "pixels_done st' = Suc (pixels_done st)"
proof -
  from assms(2) have n: "pixels_done st < height self * width self"
    and r: "render_pixel self colors (pixels_done st div width self) st
              (pixels_done st mod width self) = Inr st'"
    by (auto simp: step_iff)
  from render_pixel_step [OF assms(1) position_of(2) [OF n] position_of(1) [OF n] r]
  show ?thesis by blast
qed

lemma run_to_final:
  assumes "machine_inv self colors zeros st"
  shows "\<exists>c. (step self colors)\<^sup>*\<^sup>* (Inr st) c \<and> final self c"
  using assms
proof (induction "height self * width self - pixels_done st" arbitrary: st)
  case 0
  then have "final self (Inr st)" by simp
  then show ?case by blast
next
  case (Suc m)
  then have "\<not> final self (Inr st)" by simp
  then obtain c where c: "step self colors (Inr st) c" using not_final_step by blast
  show ?case
  proof (cases c)
    case (Inl x)
    with c show ?thesis by (metis final_simps(1) r_into_rtranclp)
  next
    case (Inr st')
    with c Suc.prems have inv: "machine_inv self colors zeros st'"
      by (auto intro: machine_inv_step)
    from Suc.prems have "shape_ok self (image_array st)" by (simp add: machine_inv_def)
    with c Inr have "pixels_done st' = Suc (pixels_done st)" by (auto intro: step_counts)
    with Suc.hyps(2) have "m = height self * width self - pixels_done st'" by simp
    from Suc.hyps(1) [OF this inv] c Inr show ?thesis
      by (metis converse_rtranclp_into_rtranclp)
  qed
qed

text \<open>A deterministic relation has at most one final configuration per start.\<close>

lemma final_unique:
  assumes "(step self colors)\<^sup>*\<^sup>* a b" and "(step self colors)\<^sup>*\<^sup>* a c"
    and "final self b" and "final self c"
  shows "b = c"
  using assms
proof (induction rule: converse_rtranclp_induct)
  case base
  then show ?case
    by (metis converse_rtranclpE final_no_step)
next
  case (step a a')
  from step.prems(1) step.hyps(1) step.prems(3) have "(step self colors)\<^sup>*\<^sup>* a' c"
    by (metis converse_rtranclpE final_no_step step_deterministic_aux)
  with step show ?case by simp
qed

text \<open>A run from a reachable state stays within the reachable states.\<close>

lemma reachable_run:
  assumes "(step self colors)\<^sup>*\<^sup>* c c'" and "c = Inr st" and "c' = Inr st'"
    and "reachable self colors zeros st"
  shows "reachable self colors zeros st'"
  using assms
proof (induction arbitrary: st' rule: rtranclp_induct)
  case base
  then show ?case by simp
next
  case (step b c')
  from step.hyps(2) obtain st'' where b: "b = Inr st''" by (cases b) simp_all
  from step.IH [OF step.prems(1) b step.prems(3)] step.hyps(2) b step.prems(2)
  show ?case by (auto intro: reachable.after)
qed

section \<open>Properties\<close>

text \<open>
  C36. The nested loops of \<^verbatim>\<open>mandelbrot\<close> are a run of the machine: started in the
  initial state on an image of the configured shape, the machine reaches the result
  of the loops, pass by pass in row-major order, and that result is final: an
  exception, or a state in which every pixel has been counted.
\<close>

theorem loops_are_a_run:
  assumes "shape_ok self zeros"
  shows "(step self colors)\<^sup>*\<^sup>* (Inr (initial_state self zeros))
           (render_image self colors (initial_state self zeros)) \<and>
         final self (render_image self colors (initial_state self zeros))"
  using assms render_image_run [of self "initial_state self zeros" colors]
  by (simp add: initial_state_def)

theorem loops_are_a_run_witness:
  "(step (example_self False) [(''m'', RGB 255 0 0), (''d'', RGB 0 0 255)])\<^sup>*\<^sup>*
     (Inr (initial_state (example_self False) (replicate 2 (replicate 2 (RGB 0 0 0)))))
     (render_image (example_self False) [(''m'', RGB 255 0 0), (''d'', RGB 0 0 255)]
        (initial_state (example_self False) (replicate 2 (replicate 2 (RGB 0 0 0))))) \<and>
   final (example_self False)
     (render_image (example_self False) [(''m'', RGB 255 0 0), (''d'', RGB 0 0 255)]
        (initial_state (example_self False) (replicate 2 (replicate 2 (RGB 0 0 0)))))"
  using loops_are_a_run
    [of "example_self False" "replicate 2 (replicate 2 (RGB 0 0 0))"
      "[(''m'', RGB 255 0 0), (''d'', RGB 0 0 255)]"]
  by (simp add: shape_ok_def)

text \<open>
  C37. In every state the machine reaches, the counter is within the number of
  pixels, the pixels before the counter, in row-major order, hold the values
  computed for them, and the pixels from the counter on are as allocated: a pixel is
  written once and never changed afterwards.
\<close>

theorem reachable_invariant:
  assumes "reachable self colors zeros st" and "shape_ok self zeros"
    and "k < height self * width self"
  shows "pixels_done st \<le> height self * width self \<and>
         (if k < pixels_done st
          then pixel_value self colors (k mod width self) (k div width self) =
                 return (image_array st ! (k div width self) ! (k mod width self))
          else image_array st ! (k div width self) ! (k mod width self) =
                 zeros ! (k div width self) ! (k mod width self))"
  using reachable_machine_inv [OF assms(1,2)] assms(3) by (simp add: machine_inv_def)

theorem reachable_invariant_witness:
  "reachable (example_self False) example_table
     [[RGB 0 0 0, RGB 0 0 0], [RGB 0 0 0, RGB 0 0 0]] example_end \<and>
   pixels_done example_end \<le> 4 \<and>
   pixel_value (example_self False) example_table 1 0 = return (RGB 0 0 254)"
proof -
  let ?zeros = "[[RGB 0 0 0, RGB 0 0 0], [RGB 0 0 0, RGB 0 0 0]]"
  have shape: "shape_ok (example_self False) ?zeros"
    using example_shape by (simp add: initial_state_def)
  have "pixels_done example_start = 0" by (simp add: initial_state_def)
  from render_image_run(1) [OF example_shape this, of example_table]
  have run: "(step (example_self False) example_table)\<^sup>*\<^sup>* (Inr example_start) (Inr example_end)"
    by (simp only: example_render_image)
  have "reachable (example_self False) example_table ?zeros example_start"
    by (rule reachable.init)
  from reachable_run [OF run refl refl this]
  have fin: "reachable (example_self False) example_table ?zeros example_end" .
  from reachable_invariant [OF fin shape, of 1] fin show ?thesis by simp
qed

text \<open>
  C38. The machine always comes to an end, and to one end only: from every reachable
  state there is a run to a final configuration, within as many passes as pixels are
  left, and every run from that state that ends, ends in that configuration.
\<close>

theorem runs_end:
  assumes "reachable self colors zeros st" and "shape_ok self zeros"
  shows "\<exists>c. (step self colors)\<^sup>*\<^sup>* (Inr st) c \<and> final self c \<and>
           (\<forall>c'. (step self colors)\<^sup>*\<^sup>* (Inr st) c' \<and> final self c' \<longrightarrow> c' = c)"
proof -
  from assms have "machine_inv self colors zeros st" by (rule reachable_machine_inv)
  then obtain c where c: "(step self colors)\<^sup>*\<^sup>* (Inr st) c" "final self c"
    using run_to_final by blast
  then have "c' = c" if "(step self colors)\<^sup>*\<^sup>* (Inr st) c'" "final self c'" for c'
    using that final_unique by blast
  with c show ?thesis by blast
qed

theorem runs_end_witness:
  "\<exists>c. (step (example_self False) [(''m'', RGB 255 0 0), (''d'', RGB 0 0 255)])\<^sup>*\<^sup>*
         (Inr (initial_state (example_self False) (replicate 2 (replicate 2 (RGB 0 0 0))))) c \<and>
       final (example_self False) c"
  using runs_end
    [OF reachable.init, of "example_self False" "replicate 2 (replicate 2 (RGB 0 0 0))"
      "[(''m'', RGB 255 0 0), (''d'', RGB 0 0 255)]"]
  by (auto simp: shape_ok_def)

end
