(* ===== verification/Output.thy ===== *)
theory Output
  imports Render "HOL-Library.Sublist"
begin

text \<open>
  What a call of \<^verbatim>\<open>mandelbrot\<close> leaves behind: the lines on the console, the sentences
  spoken, and the file in the directory \<^verbatim>\<open>PNG\<close>.  The theory gives the text of the
  progress message and of the file name, a file system with the operations the
  program calls (\<^verbatim>\<open>os.path.exists\<close>, \<^verbatim>\<open>os.makedirs\<close>, \<^verbatim>\<open>Image.save\<close>), the class body
  that creates the directory, and the execution of an output trace on a \<open>world\<close>.
\<close>

section \<open>Text\<close>

text \<open>
  A text is the list of the bytes of its UTF-8 encoding.  \<open>str_int\<close> is \<^verbatim>\<open>str\<close> on an
  integer; \<^verbatim>\<open>str\<close> on a float, the shortest decimal that reads back as the same
  float, is a parameter \<open>str_float\<close> of the definitions that need it.
\<close>

definition digit_char :: "nat \<Rightarrow> char" where
  "digit_char d = ''0123456789'' ! d"

fun str_nat :: "nat \<Rightarrow> string" where
  "str_nat n =
     (if n < 10 then [digit_char n] else str_nat (n div 10) @ [digit_char (n mod 10)])"

declare str_nat.simps [simp del]

definition str_int :: "int \<Rightarrow> string" where
  "str_int n = (if n < 0 then CHR ''-'' # str_nat (nat (- n)) else str_nat (nat n))"

text \<open>\<^verbatim>\<open>P_STRING.format(cr=\<dots>, ci=\<dots>, p=\<dots>)\<close>, with \<^verbatim>\<open>P_STRING\<close> of the class body.\<close>

fun format_progress :: "(real \<Rightarrow> string) \<Rightarrow> progress \<Rightarrow> string" where
  "format_progress str_float (P_STRING cr ci p) =
     ''Your '' @ str_float cr @ ''+'' @ str_float ci @ ''i image is '' @ str_int p @
     '' percent complete.''"

text \<open>
  The text between width and height in the name of the file: the source has the two
  characters U+00C3 and U+2014 there, five bytes in UTF-8.
\<close>

definition size_separator :: string where
  "size_separator = [CHR 0xC3, CHR 0x83, CHR 0xE2, CHR 0x80, CHR 0x94]"

fun file_name :: "(real \<Rightarrow> string) \<Rightarrow> image_file \<Rightarrow> string" where
  "file_name str_float (IMAGE_F cr ci top_im w h) =
     ''mandelbrot center='' @ str_float cr @ ''+'' @ str_float ci @ ''i, top='' @
     str_float top_im @ ''i, '' @ str_int w @ size_separator @ str_int h @ ''.png''"

text \<open>Reading a decimal numeral, the inverse of \<open>str_int\<close>.\<close>

definition digit_of :: "char \<Rightarrow> nat" where
  "digit_of c = of_char c - 48"

definition nat_of_str :: "string \<Rightarrow> nat" where
  "nat_of_str s = foldl (\<lambda>n c. 10 * n + digit_of c) 0 s"

fun int_of_str :: "string \<Rightarrow> int" where
  "int_of_str [] = 0"
| "int_of_str (c # s) =
     (if c = CHR ''-'' then - int (nat_of_str s) else int (nat_of_str (c # s)))"

section \<open>The file system\<close>

text \<open>
  A path is the list of its components below the root, and the file system maps the
  paths that exist to what they name.  The only files the program writes are images,
  and the PNG encoding is lossless, so the content of a file is the array of pixels.
\<close>

type_synonym path = "string list"

datatype node = Directory | Picture "pixel list list"

type_synonym file_system = "path \<Rightarrow> node option"

definition os_path_exists :: "file_system \<Rightarrow> path \<Rightarrow> bool" where
  "os_path_exists fs p \<longleftrightarrow> fs p \<noteq> None"

text \<open>\<^verbatim>\<open>os.mkdir\<close>, the system call under \<^verbatim>\<open>os.makedirs\<close>.\<close>

definition mkdir :: "path \<Rightarrow> file_system \<Rightarrow> file_system result" where
  "mkdir p fs =
     (if os_path_exists fs p then raise FileExistsError
      else case fs (butlast p) of
             None \<Rightarrow> raise FileNotFoundError
           | Some Directory \<Rightarrow> return (fs(p \<mapsto> Directory))
           | Some (Picture img) \<Rightarrow> raise NotADirectoryError)"

text \<open>
  \<^verbatim>\<open>os.makedirs(p)\<close> creates the missing ancestors of \<open>p\<close>, then \<open>p\<close> itself; only
  \<^verbatim>\<open>FileExistsError\<close> from an ancestor is ignored.  The recursion is on the parent of
  the path.
\<close>

function makedirs :: "path \<Rightarrow> file_system \<Rightarrow> file_system result" where
  "makedirs p fs =
     (if p \<noteq> [] \<and> \<not> os_path_exists fs (butlast p)
      then (case makedirs (butlast p) fs of
              Inl e \<Rightarrow> if e = FileExistsError then mkdir p fs else raise e
            | Inr fs' \<Rightarrow> mkdir p fs')
      else mkdir p fs)"
  by pat_completeness auto

termination
  by (relation "measure (\<lambda>(p, fs). length p)") auto

declare makedirs.simps [simp del]

text \<open>
  The class body: \<open>here\<close> is the directory of the module,
  \<^verbatim>\<open>os.path.dirname(os.path.realpath(__file__))\<close>.
\<close>

definition image_dir :: "path \<Rightarrow> path" where
  "image_dir here = here @ [''PNG'']"

definition class_body :: "path \<Rightarrow> file_system \<Rightarrow> file_system result" where
  "class_body here fs =
     (let IMAGE_DIR = image_dir here
      in if \<not> os_path_exists fs IMAGE_DIR then makedirs IMAGE_DIR fs else return fs)"

text \<open>
  \<^verbatim>\<open>Image.fromarray(image_array).save(IMAGE_PATH)\<close>, with \<open>array\<close> for \<^verbatim>\<open>image_array\<close>: the
  file is created or replaced.
\<close>

definition image_save :: "path \<Rightarrow> pixel list list \<Rightarrow> file_system \<Rightarrow> file_system result" where
  "image_save IMAGE_PATH array fs =
     (case fs (butlast IMAGE_PATH) of
        None \<Rightarrow> raise FileNotFoundError
      | Some (Picture img) \<Rightarrow> raise NotADirectoryError
      | Some Directory \<Rightarrow>
          if fs IMAGE_PATH = Some Directory then raise IsADirectoryError
          else return (fs(IMAGE_PATH \<mapsto> Picture array)))"

section \<open>The effects of a call\<close>

text \<open>
  What the program acts on: the lines of the console, the sentences the speech engine
  has queued and those it has spoken, and the files.
\<close>

record world =
  console :: "string list"
  queued :: "string list"
  heard :: "string list"
  files :: file_system

text \<open>
  One output event, executed: \<^verbatim>\<open>print\<close>, \<^verbatim>\<open>tts.say\<close>, \<^verbatim>\<open>tts.runAndWait\<close> and
  \<^verbatim>\<open>write_image\<close> with \<^verbatim>\<open>IMAGE_PATH = os.path.join(self.IMAGE_DIR, IMAGE_F)\<close>.  An
  exception is returned with the world it leaves.
\<close>

fun perform :: "(real \<Rightarrow> string) \<Rightarrow> path \<Rightarrow> world \<Rightarrow> event \<Rightarrow> (error \<times> world) + world" where
  "perform str_float IMAGE_DIR w (Print m) =
     Inr (w\<lparr>console := console w @ [format_progress str_float m]\<rparr>)"
| "perform str_float IMAGE_DIR w (Say m) =
     Inr (w\<lparr>queued := queued w @ [format_progress str_float m]\<rparr>)"
| "perform str_float IMAGE_DIR w RunAndWait =
     Inr (w\<lparr>heard := heard w @ queued w, queued := []\<rparr>)"
| "perform str_float IMAGE_DIR w (Save f array) =
     (case image_save (IMAGE_DIR @ [file_name str_float f]) array (files w) of
        Inl e \<Rightarrow> Inl (e, w)
      | Inr fs \<Rightarrow> Inr (w\<lparr>files := fs\<rparr>))"

abbreviation play :: "(real \<Rightarrow> string) \<Rightarrow> path \<Rightarrow> event list \<Rightarrow> world \<Rightarrow> (error \<times> world) + world" where
  "play str_float IMAGE_DIR \<equiv> for_loop (perform str_float IMAGE_DIR)"

text \<open>
  A call of \<^verbatim>\<open>mandelbrot\<close> with its effects: the output of the call is executed in
  order; an exception of the call leaves the world that its output has made.
\<close>

definition run_mandelbrot ::
  "(real \<Rightarrow> string) \<Rightarrow> path \<Rightarrow> int \<times> int \<Rightarrow> (string \<times> real list) list \<Rightarrow> (real \<times> real) option \<Rightarrow>
   real \<Rightarrow> int \<Rightarrow> int \<Rightarrow> bool \<Rightarrow> world \<Rightarrow> (error \<times> world) + (fractal \<times> world)" where
  "run_mandelbrot str_float here image_size colors center top_im magnification
     divergence_iterations speak w =
     (case mandelbrot image_size colors center top_im magnification divergence_iterations speak of
        Inl (e, evs) \<Rightarrow>
          (case play str_float (image_dir here) evs w of
             Inl (e', w') \<Rightarrow> Inl (e', w')
           | Inr w' \<Rightarrow> Inl (e, w'))
      | Inr (self, evs) \<Rightarrow>
          (case play str_float (image_dir here) evs w of
             Inl (e', w') \<Rightarrow> Inl (e', w')
           | Inr w' \<Rightarrow> Inr (self, w')))"

section \<open>Lemmas on text\<close>

lemma digit_of_digit_char [simp]: "d < 10 \<Longrightarrow> digit_of (digit_char d) = d"
proof -
  assume "d < 10"
  then have "d \<in> set [0..<10]" by simp
  then show ?thesis
    unfolding upt_rec [of 0] by (auto simp: digit_of_def digit_char_def upt_rec)
qed

lemma digit_char_digit: "d < 10 \<Longrightarrow> digit_char d \<in> set ''0123456789''"
  unfolding digit_char_def by (rule nth_mem) simp

lemma str_nat_digits: "set (str_nat n) \<subseteq> set ''0123456789''"
proof (induction n rule: str_nat.induct)
  case (1 n)
  show ?case
  proof (cases "n < 10")
    case True
    then show ?thesis using digit_char_digit [of n] by (subst str_nat.simps) simp
  next
    case False
    with 1 digit_char_digit [of "n mod 10"] show ?thesis by (subst str_nat.simps) simp
  qed
qed

lemma str_nat_not_Nil [simp]: "str_nat n \<noteq> []"
  by (subst str_nat.simps) simp

lemma nat_of_str_snoc [simp]: "nat_of_str (s @ [c]) = 10 * nat_of_str s + digit_of c"
  by (simp add: nat_of_str_def)

lemma nat_of_str_single [simp]: "nat_of_str [c] = digit_of c"
  by (simp add: nat_of_str_def)

lemma nat_of_str_str_nat [simp]: "nat_of_str (str_nat n) = n"
proof (induction n rule: str_nat.induct)
  case (1 n)
  then show ?case by (subst str_nat.simps) simp
qed

text \<open>A numeral has no sign and none of the bytes of the separator.\<close>

lemma str_nat_Cons: "str_nat n = c # s \<Longrightarrow> c \<noteq> CHR ''-''"
  using str_nat_digits [of n] by auto

lemma int_of_str_str_int: "int_of_str (str_int n) = n"
proof (cases "n < 0")
  case True
  then show ?thesis by (simp add: str_int_def)
next
  case False
  obtain c s where cs: "str_nat (nat n) = c # s" by (cases "str_nat (nat n)") simp_all
  then have "nat_of_str (c # s) = nat n" by (metis nat_of_str_str_nat)
  with False cs str_nat_Cons [OF cs] show ?thesis by (simp add: str_int_def)
qed

lemma str_int_inj: "str_int m = str_int n \<Longrightarrow> m = n"
  by (metis int_of_str_str_int)

lemma str_int_chars: "set (str_int n) \<subseteq> insert CHR ''-'' (set ''0123456789'')"
proof (cases "n < 0")
  case True
  then have "set (str_int n) = insert CHR ''-'' (set (str_nat (nat (- n))))"
    by (simp only: str_int_def if_True list.set)
  with str_nat_digits [of "nat (- n)"] show ?thesis by (simp only: insert_mono)
next
  case False
  then have "str_int n = str_nat (nat n)" by (simp only: str_int_def if_False)
  with str_nat_digits [of "nat n"] show ?thesis by (simp only: subset_insertI2)
qed

text \<open>The name of the file determines the size: the numerals have none of the bytes of
  the separator.\<close>

lemma append_separator_eq:
  assumes "xs @ c # r = ys @ c # r'" and "c \<notin> set xs" and "c \<notin> set ys"
  shows "xs = ys \<and> r = r'"
  using assms
proof (induction xs arbitrary: ys)
  case Nil
  then show ?case by (cases ys) auto
next
  case (Cons x xs)
  then show ?case by (cases ys) auto
qed

lemma separator_not_in_str_int: "CHR 0xC3 \<notin> set (str_int n)"
proof -
  have "CHR 0xC3 \<notin> insert CHR ''-'' (set ''0123456789'')" by simp
  with str_int_chars [of n] show ?thesis by (meson subsetD)
qed

lemma file_name_size:
  assumes "file_name str_float (IMAGE_F cr ci top_im w h) =
           file_name str_float (IMAGE_F cr ci top_im w' h')"
  shows "w = w' \<and> h = h'"
proof -
  from assms have "str_int w @ CHR 0xC3 # (tl size_separator @ str_int h @ ''.png'') =
      str_int w' @ CHR 0xC3 # (tl size_separator @ str_int h' @ ''.png'')"
    by (simp add: size_separator_def)
  then have "str_int w = str_int w' \<and>
      tl size_separator @ str_int h @ ''.png'' = tl size_separator @ str_int h' @ ''.png''"
    using separator_not_in_str_int separator_not_in_str_int by (rule append_separator_eq)
  then have "str_int w = str_int w'" and "str_int h = str_int h'" by simp_all
  then show ?thesis by (simp add: str_int_inj)
qed

section \<open>Lemmas on the file system\<close>

text \<open>
  A file system is a tree: the root is a directory, and what exists lies in a
  directory.
\<close>

definition wf_fs :: "file_system \<Rightarrow> bool" where
  "wf_fs fs \<longleftrightarrow>
     fs [] = Some Directory \<and> (\<forall>p. p \<noteq> [] \<longrightarrow> fs p \<noteq> None \<longrightarrow> fs (butlast p) = Some Directory)"

text \<open>What \<^verbatim>\<open>os.makedirs(p)\<close> promises: the missing ancestors of \<open>p\<close>, and \<open>p\<close>, are
  directories and nothing else has changed.\<close>

definition with_dirs :: "path \<Rightarrow> file_system \<Rightarrow> file_system" where
  "with_dirs p fs = (\<lambda>q. if prefix q p \<and> fs q = None then Some Directory else fs q)"

lemma wf_fs_root: "wf_fs fs \<Longrightarrow> fs [] = Some Directory"
  by (simp add: wf_fs_def)

lemma wf_fs_parent: "wf_fs fs \<Longrightarrow> fs (p @ [c]) \<noteq> None \<Longrightarrow> fs p = Some Directory"
  unfolding wf_fs_def by (metis butlast_snoc snoc_eq_iff_butlast)

lemma wf_fs_prefix:
  assumes "wf_fs fs" and "fs p \<noteq> None" and "strict_prefix q p"
  shows "fs q = Some Directory"
  using assms(2,3)
proof (induction p rule: rev_induct)
  case Nil
  then show ?case by simp
next
  case (snoc c p)
  from assms(1) snoc.prems(1) have p: "fs p = Some Directory" by (rule wf_fs_parent)
  from snoc.prems(2) have "q = p \<or> strict_prefix q p" by (auto simp: strict_prefix_def)
  with p snoc.IH show ?case by auto
qed

lemma wf_fs_mkdir:
  assumes "wf_fs fs" and "fs p = Some Directory"
  shows "wf_fs (fs(p @ [c] \<mapsto> Directory))"
  using assms unfolding wf_fs_def by (auto simp: butlast_append)

lemma wf_fs_picture:
  assumes "wf_fs fs" and "fs p = Some Directory" and "fs (p @ [c]) \<noteq> Some Directory"
  shows "wf_fs (fs(p @ [c] \<mapsto> Picture img))"
  using assms unfolding wf_fs_def by (auto simp: butlast_append)

lemma mkdir_eq:
  "fs p = Some Directory \<Longrightarrow> fs (p @ [c]) = None \<Longrightarrow>
   mkdir (p @ [c]) fs = return (fs(p @ [c] \<mapsto> Directory))"
  by (simp add: mkdir_def os_path_exists_def)

lemma mkdir_Inr_iff:
  "mkdir p fs = Inr fs' \<longleftrightarrow>
     fs p = None \<and> fs (butlast p) = Some Directory \<and> fs' = fs(p \<mapsto> Directory)"
  by (auto simp: mkdir_def os_path_exists_def split: option.splits node.splits)

lemma with_dirs_snoc:
  assumes "fs (p @ [c]) = None"
  shows "with_dirs (p @ [c]) fs = (with_dirs p fs)(p @ [c] \<mapsto> Directory)"
  using assms by (auto simp: with_dirs_def fun_eq_iff)

lemma with_dirs_exists: "wf_fs fs \<Longrightarrow> fs p \<noteq> None \<Longrightarrow> with_dirs p fs = fs"
  unfolding with_dirs_def fun_eq_iff
  by (metis option.distinct(1) prefix_order.le_less wf_fs_prefix)

text \<open>The three outcomes of \<^verbatim>\<open>os.makedirs\<close> on a tree.\<close>

lemma makedirs_exists:
  assumes "wf_fs fs" and "fs p \<noteq> None"
  shows "makedirs p fs = raise FileExistsError"
proof (cases p rule: rev_cases)
  case Nil
  with assms show ?thesis by (subst makedirs.simps) (simp add: mkdir_def os_path_exists_def)
next
  case (snoc q c)
  with assms have "fs q = Some Directory" by (auto intro: wf_fs_parent)
  with assms snoc show ?thesis
    by (subst makedirs.simps) (simp add: mkdir_def os_path_exists_def)
qed

lemma makedirs_with_dirs:
  assumes "wf_fs fs" and "fs p = None" and "\<forall>q img. prefix q p \<longrightarrow> fs q \<noteq> Some (Picture img)"
  shows "makedirs p fs = return (with_dirs p fs) \<and> wf_fs (with_dirs p fs)"
  using assms(2,3)
proof (induction p rule: rev_induct)
  case Nil
  with assms(1) show ?case by (simp add: wf_fs_def)
next
  case (snoc c p)
  show ?case
  proof (cases "fs p")
    case None
    with snoc have ih: "makedirs p fs = return (with_dirs p fs)" "wf_fs (with_dirs p fs)"
      by simp_all
    from None snoc.prems(1) have "with_dirs p fs p = Some Directory" "with_dirs p fs (p @ [c]) = None"
      by (simp_all add: with_dirs_def)
    with ih None show ?thesis
      by (subst makedirs.simps)
        (simp add: os_path_exists_def mkdir_eq with_dirs_snoc [of fs p c, OF snoc.prems(1)] wf_fs_mkdir)
  next
    case (Some n)
    with snoc.prems(2) have p: "fs p = Some Directory" by (cases n) auto
    with assms(1) have "with_dirs p fs = fs" by (simp add: with_dirs_exists)
    with p assms(1) snoc.prems(1) show ?thesis
      by (subst makedirs.simps)
        (simp add: os_path_exists_def mkdir_eq with_dirs_snoc [of fs p c, OF snoc.prems(1)] wf_fs_mkdir)
  qed
qed

lemma makedirs_not_a_directory:
  assumes "wf_fs fs" and "fs p = None" and "prefix q p" and "fs q = Some (Picture img)"
  shows "makedirs p fs = raise NotADirectoryError"
  using assms(2,3)
proof (induction p rule: rev_induct)
  case Nil
  with assms(4) show ?case by simp
next
  case (snoc c p)
  from snoc.prems assms(4) have q: "prefix q p" by auto
  show ?case
  proof (cases "fs p")
    case None
    with q snoc.IH have "makedirs p fs = raise NotADirectoryError" by simp
    with None show ?thesis by (subst makedirs.simps) (simp add: os_path_exists_def)
  next
    case (Some n)
    with assms(1,4) q wf_fs_prefix [of fs p q] have "fs p = Some (Picture img)"
      by (cases "q = p") auto
    with snoc.prems(1) show ?thesis
      by (subst makedirs.simps) (simp add: os_path_exists_def mkdir_def)
  qed
qed

text \<open>The class body on a tree: nothing to do, a failure, or the new directories.\<close>

lemma class_body_cases:
  assumes "wf_fs fs"
  shows "class_body here fs =
     (if fs (image_dir here) \<noteq> None then return fs
      else if \<exists>q img. prefix q (image_dir here) \<and> fs q = Some (Picture img)
           then raise NotADirectoryError
           else return (with_dirs (image_dir here) fs))"
  using makedirs_with_dirs [OF assms, of "image_dir here"]
    makedirs_not_a_directory [OF assms, of "image_dir here"]
  by (auto simp: class_body_def os_path_exists_def)

lemma class_body_wf_fs:
  assumes "wf_fs fs" and "class_body here fs = return fs'"
  shows "wf_fs fs'"
  using assms makedirs_with_dirs [OF assms(1), of "image_dir here"]
  by (auto simp: class_body_cases split: if_splits)

lemma class_body_exists:
  assumes "wf_fs fs" and "class_body here fs = return fs'"
  shows "fs' (image_dir here) \<noteq> None"
  using assms by (auto simp: class_body_cases with_dirs_def split: if_splits)

lemma class_body_frame:
  assumes "wf_fs fs" and "class_body here fs = return fs'"
  shows "fs' (image_dir here @ [name]) = fs (image_dir here @ [name])"
  using assms by (auto simp: class_body_cases with_dirs_def split: if_splits)

lemma class_body_directory:
  assumes "wf_fs fs" and "\<forall>q img. prefix q (image_dir here) \<longrightarrow> fs q \<noteq> Some (Picture img)"
  obtains fs' where "class_body here fs = return fs'" and "wf_fs fs'"
    and "fs' (image_dir here) = Some Directory"
proof (cases "fs (image_dir here)")
  case None
  from makedirs_with_dirs [OF assms(1) None assms(2)] assms None show ?thesis
    by (intro that [of "with_dirs (image_dir here) fs"])
      (simp_all add: class_body_cases, simp add: with_dirs_def)
next
  case (Some n)
  with assms(2) have "fs (image_dir here) = Some Directory" by (cases n) auto
  with assms(1) show ?thesis by (intro that [of fs]) (simp_all add: class_body_cases)
qed

text \<open>Saving an image.\<close>

lemma image_save_eq:
  "fs p = Some Directory \<Longrightarrow> fs (p @ [f]) \<noteq> Some Directory \<Longrightarrow>
   image_save (p @ [f]) img fs = return (fs(p @ [f] \<mapsto> Picture img))"
  by (simp add: image_save_def)

lemma image_save_Inr_iff:
  "image_save p img fs = Inr fs' \<longleftrightarrow>
     fs (butlast p) = Some Directory \<and> fs p \<noteq> Some Directory \<and> fs' = fs(p \<mapsto> Picture img)"
  by (auto simp: image_save_def split: option.splits node.splits)

lemma image_save_Inl_iff:
  "image_save p img fs = Inl e \<longleftrightarrow>
     (case fs (butlast p) of
        None \<Rightarrow> e = FileNotFoundError
      | Some (Picture a) \<Rightarrow> e = NotADirectoryError
      | Some Directory \<Rightarrow> fs p = Some Directory \<and> e = IsADirectoryError)"
  by (auto simp: image_save_def split: option.splits node.splits)

lemma image_save_wf_fs:
  assumes "wf_fs fs" and "image_save p img fs = return fs'"
  shows "wf_fs fs'"
proof (cases p rule: rev_cases)
  case Nil
  with assms show ?thesis by (auto simp: image_save_Inr_iff wf_fs_def)
next
  case (snoc q name)
  with assms show ?thesis by (auto simp: image_save_Inr_iff intro: wf_fs_picture)
qed

section \<open>The output of a call\<close>

text \<open>
  The output of the loops is a sequence of announcements: \<open>replay self ps\<close> is the
  output that announces the percentages \<open>ps\<close>, and \<open>extends self evs evs'\<close> says that
  \<open>evs'\<close> is \<open>evs\<close> followed by announcements.
\<close>

definition replay :: "fractal \<Rightarrow> int list \<Rightarrow> event list" where
  "replay self ps = concat (map (announce self) ps)"

definition extends :: "fractal \<Rightarrow> event list \<Rightarrow> event list \<Rightarrow> bool" where
  "extends self evs evs' \<longleftrightarrow> (\<exists>ps. evs' = evs @ replay self ps)"

lemma replay_simps [simp]:
  "replay self [] = []"
  "replay self (p # ps) = announce self p @ replay self ps"
  "replay self (ps @ qs) = replay self ps @ replay self qs"
  by (simp_all add: replay_def)

lemma written_replay [simp]: "written (replay self ps) = []"
  by (induction ps) simp_all

lemma announced_replay [simp]: "announced (replay self ps) = ps"
  by (induction ps) simp_all

lemma extends_refl [simp, intro]: "extends self evs evs"
  unfolding extends_def by (rule exI [of _ "[]"]) simp

lemma extends_announce [simp, intro]: "extends self evs (evs @ announce self p)"
  unfolding extends_def by (rule exI [of _ "[p]"]) simp

lemma extends_trans [trans]:
  "extends self a b \<Longrightarrow> extends self b c \<Longrightarrow> extends self a c"
  unfolding extends_def by (metis append_assoc replay_simps(3))

lemma render_pixel_trace:
  "render_pixel self cs y st x = Inr st' \<Longrightarrow> extends self (trace st) (trace st')"
  by (auto simp: render_pixel_def count_pixel_def Let_def split: sum.splits if_splits)

lemma render_pixel_Inl_trace:
  "render_pixel self cs y st x = Inl (e, evs) \<Longrightarrow> evs = trace st"
  by (auto simp: render_pixel_def count_pixel_def Let_def split: sum.splits if_splits)

lemma render_row_trace:
  assumes "render_row self cs s0 y = Inr s"
  shows "extends self (trace s0) (trace s)"
  using assms unfolding render_row_def
  by (rule for_loop_invariant [where P = "\<lambda>s. extends self (trace s0) (trace s)"])
    (auto intro: extends_trans render_pixel_trace)

lemma render_row_Inl_trace:
  assumes "render_row self cs s0 y = Inl (e, evs)"
  shows "extends self (trace s0) evs"
  using assms unfolding render_row_def
  by (rule for_loop_raises [where P = "\<lambda>s. extends self (trace s0) (trace s)"])
    (auto intro: extends_trans render_pixel_trace dest: render_pixel_Inl_trace)

lemma render_image_trace:
  assumes "render_image self cs s0 = Inr s"
  shows "extends self (trace s0) (trace s)"
  using assms unfolding render_image_def
  by (rule for_loop_invariant [where P = "\<lambda>s. extends self (trace s0) (trace s)"])
    (auto intro: extends_trans render_row_trace)

lemma render_image_Inl_trace:
  assumes "render_image self cs s0 = Inl (e, evs)"
  shows "extends self (trace s0) evs"
  using assms unfolding render_image_def
  by (rule for_loop_raises [where P = "\<lambda>s. extends self (trace s0) (trace s)"])
    (auto intro: extends_trans render_row_trace render_row_Inl_trace)

text \<open>The output of a call that returns, and of a call that raises.\<close>

lemma mandelbrot_Inr_trace:
  assumes "mandelbrot image_size colors center top_im magnification divergence_iterations speak =
     Inr (self, evs)"
  obtains cs img where
    "configure image_size colors center top_im magnification divergence_iterations speak =
       return (self, cs)"
    and "rendered self cs img"
    and "evs = replay self (announced evs) @ [Save (image_path self) img]"
proof -
  from assms obtain cs zeros st where
    c: "configure image_size colors center top_im magnification divergence_iterations speak =
        return (self, cs)"
    and r: "render_image self cs (initial_state self zeros) = Inr st"
    and e: "evs = trace st @ write_image (image_array st) (image_path self)"
    unfolding mandelbrot_Inr_iff by blast
  from render_image_trace [OF r] obtain ps where "trace st = replay self (0 # ps)"
    by (auto simp: extends_def initial_state_def)
  with e have "evs = replay self (announced evs) @ [Save (image_path self) (image_array st)]"
    by (simp add: write_image_def)
  moreover from assms obtain cs' img where
    "configure image_size colors center top_im magnification divergence_iterations speak =
        return (self, cs')" "rendered self cs' img" "last evs = Save (image_path self) img"
    by (rule mandelbrot_image)
  ultimately show ?thesis by (metis that event.inject(3) last_snoc)
qed

lemma mandelbrot_Inl_trace:
  assumes "mandelbrot image_size colors center top_im magnification divergence_iterations speak =
     Inl (e, evs)"
  obtains "evs = []"
  | self cs where
    "configure image_size colors center top_im magnification divergence_iterations speak =
       return (self, cs)"
    and "evs = replay self (announced evs)"
  using assms
proof (cases rule: mandelbrot_Inl_cases)
  case (loops self cs zeros)
  from render_image_Inl_trace [OF loops(3)] obtain ps where "evs = replay self (0 # ps)"
    by (auto simp: extends_def initial_state_def)
  then have "evs = replay self (announced evs)" by (metis announced_replay)
  with loops(1) show ?thesis by (rule that(2))
qed (auto intro: that)

section \<open>Lemmas on the effects\<close>

text \<open>
  \<open>message\<close> is the line that announces a percentage, and \<open>told str_float self ps w\<close>
  is the world after the percentages \<open>ps\<close> have been announced: every line is on the
  console and, with speech on, every line and whatever was queued has been spoken.
\<close>

definition message :: "(real \<Rightarrow> string) \<Rightarrow> fractal \<Rightarrow> int \<Rightarrow> string" where
  "message str_float self p =
     format_progress str_float (P_STRING (fst (CENTER self)) (snd (CENTER self)) p)"

definition told :: "(real \<Rightarrow> string) \<Rightarrow> fractal \<Rightarrow> int list \<Rightarrow> world \<Rightarrow> world" where
  "told str_float self ps w =
     (if SPEAK self \<and> ps \<noteq> []
      then w\<lparr>console := console w @ map (message str_float self) ps, queued := [],
             heard := heard w @ queued w @ map (message str_float self) ps\<rparr>
      else w\<lparr>console := console w @ map (message str_float self) ps\<rparr>)"

lemma told_Nil [simp]: "told str_float self [] w = w"
  by (simp add: told_def)

lemma told_append: "told str_float self (ps @ qs) w = told str_float self qs (told str_float self ps w)"
  by (simp add: told_def)

lemma files_told [simp]: "files (told str_float self ps w) = files w"
  by (simp add: told_def)

lemma console_told [simp]:
  "console (told str_float self ps w) = console w @ map (message str_float self) ps"
  by (simp add: told_def)

text \<open>The speech of a call that returns: with speech on, every line printed has been
  spoken, after whatever was queued before, and nothing is left in the queue.\<close>

lemma told_speech:
  "SPEAK self \<Longrightarrow> ps \<noteq> [] \<Longrightarrow>
   queued (told str_float self ps w) = [] \<and>
   heard (told str_float self ps w) = heard w @ queued w @ map (message str_float self) ps"
  by (simp add: told_def)

lemma told_silent:
  "\<not> SPEAK self \<Longrightarrow>
   queued (told str_float self ps w) = queued w \<and> heard (told str_float self ps w) = heard w"
  by (simp add: told_def)

lemma play_announce:
  "play str_float dir (announce self p) w = Inr (told str_float self [p] w)"
  by (simp add: announce_def told_def message_def)

lemma play_replay: "play str_float dir (replay self ps) w = Inr (told str_float self ps w)"
proof (induction ps arbitrary: w)
  case Nil
  show ?case by simp
next
  case (Cons p ps)
  have "told str_float self (p # ps) w = told str_float self ps (told str_float self [p] w)"
    using told_append [of str_float self "[p]" ps w] by simp
  with Cons show ?case by (simp add: for_loop_append play_announce)
qed

text \<open>The path of the image of a configured object.\<close>

definition image_file_path :: "(real \<Rightarrow> string) \<Rightarrow> path \<Rightarrow> fractal \<Rightarrow> path" where
  "image_file_path str_float here self = image_dir here @ [file_name str_float (image_path self)]"

text \<open>The effects of a call that returns: the announcements, then the image is
  saved.\<close>

lemma run_mandelbrot_Inr:
  assumes "mandelbrot image_size colors center top_im magnification divergence_iterations speak =
     Inr (self, evs)"
  obtains cs img where
    "configure image_size colors center top_im magnification divergence_iterations speak =
       return (self, cs)"
    and "rendered self cs img" and "last evs = Save (image_path self) img"
    and "run_mandelbrot str_float here image_size colors center top_im magnification
           divergence_iterations speak w =
         (case image_save (image_file_path str_float here self) img (files w) of
            Inl e \<Rightarrow> Inl (e, told str_float self (announced evs) w)
          | Inr fs \<Rightarrow> Inr (self, told str_float self (announced evs) w\<lparr>files := fs\<rparr>))"
proof -
  from assms obtain cs img where
    c: "configure image_size colors center top_im magnification divergence_iterations speak =
       return (self, cs)"
    and r: "rendered self cs img"
    and e: "evs = replay self (announced evs) @ [Save (image_path self) img]"
    by (rule mandelbrot_Inr_trace)
  have "play str_float (image_dir here) evs w =
      perform str_float (image_dir here) (told str_float self (announced evs) w)
        (Save (image_path self) img)"
    by (subst e) (simp add: for_loop_snoc play_replay del: perform.simps)
  moreover from e have "last evs = Save (image_path self) img" by (metis last_snoc)
  ultimately show ?thesis using assms
    by (intro that [OF c r]) (simp_all add: run_mandelbrot_def image_file_path_def split: sum.splits)
qed

text \<open>The effects of a call that raises: the announcements made before.\<close>

lemma run_mandelbrot_Inl:
  assumes "mandelbrot image_size colors center top_im magnification divergence_iterations speak =
     Inl (e, evs)"
  obtains
    "evs = []"
    "run_mandelbrot str_float here image_size colors center top_im magnification
       divergence_iterations speak w = Inl (e, w)"
  | self cs where
    "configure image_size colors center top_im magnification divergence_iterations speak =
       return (self, cs)"
    "run_mandelbrot str_float here image_size colors center top_im magnification
       divergence_iterations speak w = Inl (e, told str_float self (announced evs) w)"
  using assms
proof (cases rule: mandelbrot_Inl_trace)
  case 1
  with assms show ?thesis by (intro that(1)) (simp_all add: run_mandelbrot_def)
next
  case (2 self cs)
  have "play str_float (image_dir here) evs w = Inr (told str_float self (announced evs) w)"
    by (subst 2(2)) (rule play_replay)
  with assms 2(1) show ?thesis by (intro that(2) [of self cs]) (simp_all add: run_mandelbrot_def)
qed

text \<open>When the saving fails: the render is complete and announced, and the image is
  lost.\<close>

lemma run_mandelbrot_save_fails:
  assumes "mandelbrot image_size colors center top_im magnification divergence_iterations speak =
     Inr (self, evs)"
    and "image_save (image_file_path str_float here self) img' (files w) = raise e"
  shows "run_mandelbrot str_float here image_size colors center top_im magnification
      divergence_iterations speak w = Inl (e, told str_float self (announced evs) w)"
proof -
  from assms(1) obtain img where "run_mandelbrot str_float here image_size colors center top_im
      magnification divergence_iterations speak w =
    (case image_save (image_file_path str_float here self) img (files w) of
       Inl e \<Rightarrow> Inl (e, told str_float self (announced evs) w)
     | Inr fs \<Rightarrow> Inr (self, told str_float self (announced evs) w\<lparr>files := fs\<rparr>))"
    by (rule run_mandelbrot_Inr)
  moreover from assms(2) have "image_save (image_file_path str_float here self) img (files w) =
      raise e"
    by (simp add: image_save_Inl_iff split: option.splits node.splits)
  ultimately show ?thesis by simp
qed

text \<open>A plain file named \<^verbatim>\<open>PNG\<close> passes the class body and fails every save.\<close>

lemma class_body_plain_file:
  "fs (image_dir here) = Some (Picture a) \<Longrightarrow> class_body here fs = return fs"
  by (simp add: class_body_def os_path_exists_def)

lemma image_save_plain_file:
  "fs (image_dir here) = Some (Picture a) \<Longrightarrow>
   image_save (image_file_path str_float here self) img fs = raise NotADirectoryError"
  by (simp add: image_save_def image_file_path_def)

lemma image_save_missing_directory:
  "fs (image_dir here) = None \<Longrightarrow>
   image_save (image_file_path str_float here self) img fs = raise FileNotFoundError"
  by (simp add: image_save_def image_file_path_def)

text \<open>A call keeps the file system a tree.\<close>

lemma run_mandelbrot_wf_fs:
  assumes "wf_fs (files w)"
    and "run_mandelbrot str_float here image_size colors center top_im magnification
      divergence_iterations speak w = Inr (self, w')"
  shows "wf_fs (files w')"
proof (cases "mandelbrot image_size colors center top_im magnification divergence_iterations speak")
  case (Inl x)
  with assms(2) show ?thesis by (simp add: run_mandelbrot_def split: sum.splits prod.splits)
next
  case (Inr x)
  then obtain self' evs where m: "mandelbrot image_size colors center top_im magnification
      divergence_iterations speak = Inr (self', evs)" by (cases x) simp
  then obtain img where "run_mandelbrot str_float here image_size colors center top_im magnification
           divergence_iterations speak w =
         (case image_save (image_file_path str_float here self') img (files w) of
            Inl e \<Rightarrow> Inl (e, told str_float self' (announced evs) w)
          | Inr fs \<Rightarrow> Inr (self', told str_float self' (announced evs) w\<lparr>files := fs\<rparr>))"
    by (rule run_mandelbrot_Inr)
  with assms show ?thesis by (auto split: sum.splits dest: image_save_wf_fs)
qed

section \<open>A worked example\<close>

text \<open>
  \<open>str_integral\<close> is \<^verbatim>\<open>str\<close> on the floats with an integral value, \<^verbatim>\<open>'2.0'\<close> for 2.0;
  the examples use it for \<open>str_float\<close>.  Their file system has the directory
  \<^verbatim>\<open>/src\<close> of the module and, once the class exists, \<^verbatim>\<open>/src/PNG\<close>.
\<close>

definition str_integral :: "real \<Rightarrow> string" where
  "str_integral x = str_int \<lfloor>x\<rfloor> @ ''.0''"

abbreviation example_files :: file_system where
  "example_files \<equiv> [[] \<mapsto> Directory, [''src''] \<mapsto> Directory]"

abbreviation example_world :: world where
  "example_world \<equiv>
     \<lparr>console = [], queued = [], heard = [],
      files = example_files([''src'', ''PNG''] \<mapsto> Directory)\<rparr>"

lemmas text_simps = str_integral_def str_int_def str_nat.simps digit_char_def

lemma example_message:
  "format_progress str_integral (P_STRING 0 0 50) = ''Your 0.0+0.0i image is 50 percent complete.''"
  by (simp add: text_simps)

lemma example_file_name:
  "file_name str_integral (IMAGE_F 0 0 2 640 480) =
     ''mandelbrot center=0.0+0.0i, top=2.0i, 640'' @ size_separator @ ''480.png''"
  by (simp add: text_simps)

lemma wf_fs_example_files: "wf_fs example_files"
  by (auto simp: wf_fs_def)

lemma example_class_body:
  "class_body [''src''] example_files = return (example_files([''src'', ''PNG''] \<mapsto> Directory))"
  by (simp add: class_body_def image_dir_def os_path_exists_def makedirs.simps mkdir_def)

section \<open>Properties\<close>

text \<open>
  C15. The name of the file determines the size of the image: for the same centre and
  top, two images get the same name exactly when they have the same width and the same
  height.  The text between the two numbers keeps them apart, so that 64 by 480 and
  644 by 80 are different names; renders that differ in size never write the same
  file.
\<close>

theorem file_name_determines_size:
  "file_name str_float (IMAGE_F cr ci top_im w h) =
   file_name str_float (IMAGE_F cr ci top_im w' h') \<longleftrightarrow> w = w' \<and> h = h'"
  using file_name_size [of str_float cr ci top_im w h w' h'] by blast

theorem file_name_determines_size_witness:
  "file_name str_integral (IMAGE_F 0 0 2 64 480) \<noteq> file_name str_integral (IMAGE_F 0 0 2 644 80)"
  using file_name_determines_size [of str_integral 0 0 2 64 480 644 80] by simp

text \<open>
  C14. On a file system that is a tree in which no ancestor of the directory \<^verbatim>\<open>PNG\<close>,
  and not \<^verbatim>\<open>PNG\<close> itself, is a plain file, the class body succeeds, and afterwards
  \<^verbatim>\<open>PNG\<close> is a directory, the file system is still a tree, everything that existed
  is unchanged, and running the class body again changes nothing.
\<close>

theorem class_body_creates_directory:
  assumes "wf_fs fs" and "\<forall>q img. prefix q (image_dir here) \<longrightarrow> fs q \<noteq> Some (Picture img)"
  shows "\<exists>fs'. class_body here fs = return fs' \<and> wf_fs fs' \<and>
      fs' (image_dir here) = Some Directory \<and> (\<forall>p. fs p \<noteq> None \<longrightarrow> fs' p = fs p) \<and>
      class_body here fs' = return fs'"
proof (cases "fs (image_dir here)")
  case None
  let ?fs = "with_dirs (image_dir here) fs"
  from assms None have "class_body here fs = return ?fs" by (simp add: class_body_cases)
  moreover from assms None have wf: "wf_fs ?fs" by (simp add: makedirs_with_dirs)
  moreover from None have "?fs (image_dir here) = Some Directory" by (simp add: with_dirs_def)
  moreover from this wf have "class_body here ?fs = return ?fs" by (simp add: class_body_cases)
  ultimately show ?thesis by (simp add: with_dirs_def)
next
  case (Some n)
  with assms(2) have "fs (image_dir here) = Some Directory" by (cases n) auto
  with assms(1) show ?thesis by (simp add: class_body_cases)
qed

theorem class_body_creates_directory_witness:
  "wf_fs example_files \<and>
   (\<exists>fs'. class_body [''src''] example_files = return fs' \<and>
      fs' [''src'', ''PNG''] = Some Directory \<and> fs' [''src''] = Some Directory)"
proof -
  have "\<forall>q img. prefix q (image_dir [''src'']) \<longrightarrow> example_files q \<noteq> Some (Picture img)"
    by simp
  from class_body_creates_directory [OF wf_fs_example_files this] obtain fs' where
    c: "class_body [''src''] example_files = return fs'"
    and d: "fs' (image_dir [''src'']) = Some Directory"
    and f: "\<forall>p. example_files p \<noteq> None \<longrightarrow> fs' p = example_files p" by blast
  from f [rule_format, of "[''src'']"] have "fs' [''src''] = Some Directory" by simp
  with c d wf_fs_example_files show ?thesis
    by (intro conjI exI [of _ fs']) (simp_all add: image_dir_def)
qed

end
