(* ===== verification/Object.thy ===== *)
theory Object
  imports Render "HOL-Library.AList" "HOL-Library.Monad_Syntax"
begin

text \<open>
  What a call of \<^verbatim>\<open>mandelbrot\<close> does to the two objects it shares with its caller: the
  instance of \<^verbatim>\<open>Fractal\<close>, whose attributes it assigns one after the other, and the
  dictionary \<^verbatim>\<open>colors\<close>, whose values it replaces by arrays.  \<open>mandelbrot_on\<close> is the
  method on these two; the lemmas show that it computes what \<open>mandelbrot\<close> computes,
  whatever the object held before, and what it leaves behind when it raises.
\<close>

section \<open>The object\<close>

text \<open>
  An attribute that has not been assigned is \<open>None\<close>.  \<^verbatim>\<open>__init__\<close> assigns the speech
  engine and nothing else.
\<close>

record object =
  attr_tts :: bool
  attr_SPEAK :: "bool option"
  attr_MAGNIFICATION :: "int option"
  attr_DIVERGENCE_ITERATIONS :: "int option"
  attr_DIVERGENCE_LEVELS :: "int list option"
  attr_IMAGE_SIZE :: "(int \<times> int) option"
  attr_CENTER :: "(real \<times> real) option"
  attr_TOP :: "real option"
  attr_CENTER_PIXEL :: "(int \<times> int) option"

definition init :: object where
  "init =
     \<lparr>attr_tts = True, attr_SPEAK = None, attr_MAGNIFICATION = None,
      attr_DIVERGENCE_ITERATIONS = None, attr_DIVERGENCE_LEVELS = None, attr_IMAGE_SIZE = None,
      attr_CENTER = None, attr_TOP = None, attr_CENTER_PIXEL = None\<rparr>"

text \<open>
  The attributes as the code after the assignments reads them, \<^verbatim>\<open>self.SPEAK\<close> to
  \<^verbatim>\<open>self.CENTER_PIXEL\<close>: reading one that is missing raises \<open>AttributeError\<close>.
\<close>

definition the_fractal :: "object \<Rightarrow> fractal option" where
  "the_fractal obj = do {
     speak \<leftarrow> attr_SPEAK obj;
     magnification \<leftarrow> attr_MAGNIFICATION obj;
     divergence_iterations \<leftarrow> attr_DIVERGENCE_ITERATIONS obj;
     levels \<leftarrow> attr_DIVERGENCE_LEVELS obj;
     image_size \<leftarrow> attr_IMAGE_SIZE obj;
     center \<leftarrow> attr_CENTER obj;
     top_im \<leftarrow> attr_TOP obj;
     center_px \<leftarrow> attr_CENTER_PIXEL obj;
     Some \<lparr>SPEAK = speak, MAGNIFICATION = magnification,
            DIVERGENCE_ITERATIONS = divergence_iterations,
            DIVERGENCE_LEVELS = levels, IMAGE_SIZE = image_size, CENTER = center,
            TOP = top_im, CENTER_PIXEL = center_px\<rparr>
   }"

definition read_attributes :: "object \<Rightarrow> fractal result" where
  "read_attributes obj =
     (case the_fractal obj of None \<Rightarrow> raise AttributeError | Some self \<Rightarrow> return self)"

section \<open>The dictionary of colours\<close>

text \<open>
  A value of the dictionary is the list the caller wrote or the array of a previous
  call.  \<open>np_array\<close> is the data of \<^verbatim>\<open>np.array(value)\<close>, in order; the dictionary is an
  association list with one entry per key, and \<^verbatim>\<open>colors[key] = \<dots>\<close> is \<open>AList.update\<close>.
\<close>

datatype color_value = Listed "real list" | Reshaped color

type_synonym color_dict = "(string \<times> color_value) list"

fun np_array :: "color_value \<Rightarrow> real list" where
  "np_array (Listed v) = v"
| "np_array (Reshaped c) = [red c, green c, blue c]"

text \<open>
  \<^verbatim>\<open>for key, value in colors.items(): colors[key] = np.array(value).reshape(1, 3)\<close>, on
  the dictionary of the caller: an exception leaves the entries replaced so far.
\<close>

fun reshape_entry :: "color_dict \<Rightarrow> string \<times> color_value \<Rightarrow> (error \<times> color_dict) + color_dict" where
  "reshape_entry colors (key, v) =
     (case reshape (np_array v) of
        Inl e \<Rightarrow> Inl (e, colors)
      | Inr c \<Rightarrow> Inr (AList.update key (Reshaped c) colors))"

definition reshape_in_place :: "color_dict \<Rightarrow> (error \<times> color_dict) + color_dict" where
  "reshape_in_place colors = for_loop reshape_entry colors colors"

text \<open>The dictionary as the loops read it, \<^verbatim>\<open>colors['m']\<close> and \<^verbatim>\<open>colors['d']\<close>.\<close>

fun as_colors :: "color_dict \<Rightarrow> colors" where
  "as_colors [] = []"
| "as_colors ((key, Reshaped c) # d) = (key, c) # as_colors d"
| "as_colors ((key, Listed v) # d) = as_colors d"

section \<open>The method on the object\<close>

text \<open>The method from the allocation of the image to its end.\<close>

definition render_and_write :: "object \<Rightarrow> color_dict \<Rightarrow> event list outcome" where
  "render_and_write obj colors =
     (case read_attributes obj of
        Inl e \<Rightarrow> Inl (e, [])
      | Inr self \<Rightarrow>
          (case np_zeros (snd (IMAGE_SIZE self)) (fst (IMAGE_SIZE self)) of
             Inl e \<Rightarrow> Inl (e, [])
           | Inr zeros \<Rightarrow>
               (case render_image self (as_colors colors)
                       \<lparr>image_array = zeros, pixels_done = 0, p_complete = 0,
                        trace = announce self 0\<rparr> of
                  Inl x \<Rightarrow> Inl x
                | Inr st \<Rightarrow> Inr (trace st @ write_image (image_array st) (image_path self)))))"

text \<open>
  The method: the object and the dictionary as it leaves them, and its output or its
  exception.
\<close>

definition mandelbrot_on ::
  "object \<Rightarrow> int \<times> int \<Rightarrow> color_dict \<Rightarrow> (real \<times> real) option \<Rightarrow> real \<Rightarrow> int \<Rightarrow> int \<Rightarrow> bool
    \<Rightarrow> (object \<times> color_dict) \<times> event list outcome" where
  "mandelbrot_on obj image_size colors center top_im magnification divergence_iterations speak =
     (let obj = obj\<lparr>attr_SPEAK := Some speak\<rparr>
      in if fst image_size mod 2 = 1 \<or> snd image_size mod 2 = 1
         then ((obj, colors), Inl (OddResolutionError, []))
         else
           let center = (case center of None \<Rightarrow> (- 66 / 100, 0) | Some c \<Rightarrow> c)
           in if snd center \<ge> top_im then ((obj, colors), Inl (TopError, []))
              else
                let obj = obj\<lparr>attr_MAGNIFICATION := Some magnification,
                              attr_DIVERGENCE_ITERATIONS := Some divergence_iterations,
                              attr_DIVERGENCE_LEVELS :=
                                Some (divergence_levels divergence_iterations)\<rparr>
                in (case reshape_in_place colors of
                      Inl (e, colors) \<Rightarrow> ((obj, colors), Inl (e, []))
                    | Inr colors \<Rightarrow>
                        let obj = obj\<lparr>attr_IMAGE_SIZE := Some image_size,
                                      attr_CENTER := Some center,
                                      attr_TOP := Some top_im,
                                      attr_CENTER_PIXEL := Some (center_pixel image_size)\<rparr>
                        in ((obj, colors), render_and_write obj colors)))"

text \<open>
  \<^verbatim>\<open>pixels_to_coordinates\<close> as a method of the object: it reads the four attributes of
  the geometry (\<open>geometry\<close> fills the others, which it does not read).
\<close>

definition geometry :: "int \<times> int \<Rightarrow> real \<times> real \<Rightarrow> real \<Rightarrow> int \<times> int \<Rightarrow> fractal" where
  "geometry image_size center top_im center_px =
     \<lparr>SPEAK = False, MAGNIFICATION = 1, DIVERGENCE_ITERATIONS = 0, DIVERGENCE_LEVELS = [],
      IMAGE_SIZE = image_size, CENTER = center, TOP = top_im, CENTER_PIXEL = center_px\<rparr>"

definition pixels_to_coordinates_on :: "object \<Rightarrow> real \<Rightarrow> real \<Rightarrow> (real \<times> real) result" where
  "pixels_to_coordinates_on obj pixel_x pixel_y =
     (case do {
        top_im \<leftarrow> attr_TOP obj;
        image_size \<leftarrow> attr_IMAGE_SIZE obj;
        center_px \<leftarrow> attr_CENTER_PIXEL obj;
        center \<leftarrow> attr_CENTER obj;
        Some (geometry image_size center top_im center_px)
      } of
        None \<Rightarrow> raise AttributeError
      | Some self \<Rightarrow> pixels_to_coordinates self pixel_x pixel_y)"

section \<open>Lemmas on the object\<close>

text \<open>\<open>assign self obj\<close> is the object with every attribute of \<open>self\<close> assigned.\<close>

definition assign :: "fractal \<Rightarrow> object \<Rightarrow> object" where
  "assign self obj =
     obj\<lparr>attr_SPEAK := Some (SPEAK self), attr_MAGNIFICATION := Some (MAGNIFICATION self),
         attr_DIVERGENCE_ITERATIONS := Some (DIVERGENCE_ITERATIONS self),
         attr_DIVERGENCE_LEVELS := Some (DIVERGENCE_LEVELS self),
         attr_IMAGE_SIZE := Some (IMAGE_SIZE self), attr_CENTER := Some (CENTER self),
         attr_TOP := Some (TOP self), attr_CENTER_PIXEL := Some (CENTER_PIXEL self)\<rparr>"

lemma the_fractal_assign [simp]: "the_fractal (assign self obj) = Some self"
  by (simp add: the_fractal_def assign_def)

lemma the_fractal_init [simp]: "the_fractal init = None"
  by (simp add: the_fractal_def init_def)

lemma the_fractal_eq_Some_iff:
  "the_fractal obj = Some self \<longleftrightarrow> assign self obj = obj"
proof
  assume "the_fractal obj = Some self"
  then show "assign self obj = obj"
    by (auto simp: the_fractal_def assign_def bind_eq_Some_conv)
next
  assume "assign self obj = obj"
  then show "the_fractal obj = Some self" by (metis the_fractal_assign)
qed

lemma assign_assign [simp]: "assign self (assign self' obj) = assign self obj"
  by (simp add: assign_def)

lemma attr_tts_assign [simp]: "attr_tts (assign self obj) = attr_tts obj"
  by (simp add: assign_def)

lemma pixels_to_coordinates_geometry:
  "pixels_to_coordinates (geometry (IMAGE_SIZE self) (CENTER self) (TOP self) (CENTER_PIXEL self)) =
   pixels_to_coordinates self"
  by (simp add: geometry_def pixels_to_coordinates_def unit_per_pixel_def fun_eq_iff)

lemma pixels_to_coordinates_on_assign [simp]:
  "pixels_to_coordinates_on (assign self obj) = pixels_to_coordinates self"
  using pixels_to_coordinates_geometry [of self]
  by (simp add: pixels_to_coordinates_on_def assign_def fun_eq_iff)

lemma pixels_to_coordinates_on_init [simp]:
  "pixels_to_coordinates_on init x y = raise AttributeError"
  by (simp add: pixels_to_coordinates_on_def init_def)

section \<open>Lemmas on the dictionary\<close>

text \<open>\<open>flat\<close> is the dictionary as lists of numbers, \<open>arrays\<close> a table of colours as a
  dictionary of arrays.\<close>

definition flat :: "color_dict \<Rightarrow> (string \<times> real list) list" where
  "flat d = map (\<lambda>(key, v). (key, np_array v)) d"

definition arrays :: "colors \<Rightarrow> color_dict" where
  "arrays cs = map (\<lambda>(key, c). (key, Reshaped c)) cs"

lemma flat_simps [simp]:
  "flat [] = []"
  "flat ((key, v) # d) = (key, np_array v) # flat d"
  "flat (d @ d') = flat d @ flat d'"
  by (simp_all add: flat_def)

lemma arrays_simps [simp]:
  "arrays [] = []"
  "arrays ((key, c) # cs) = (key, Reshaped c) # arrays cs"
  "arrays (cs @ cs') = arrays cs @ arrays cs'"
  by (simp_all add: arrays_def)

lemma as_colors_arrays [simp]: "as_colors (arrays cs) = cs"
  by (induction cs) auto

lemma map_fst_flat [simp]: "map fst (flat d) = map fst d"
  by (induction d) auto

lemma map_fst_arrays [simp]: "map fst (arrays cs) = map fst cs"
  by (induction cs) auto

lemma reshape_np_array: "reshape (np_array v) = return c \<Longrightarrow> np_array (Reshaped c) = np_array v"
  by (simp add: reshape_eq_Inr_iff)

lemma reshape_rgb [simp]: "reshape [red c, green c, blue c] = return c"
  by (simp add: reshape_eq_Inr_iff)

lemma update_middle:
  "key \<notin> fst ` set pre \<Longrightarrow> AList.update key v (pre @ (key, v0) # rest) = pre @ (key, v) # rest"
  by (induction pre) auto

text \<open>
  \<open>converted d\<close> is the dictionary with its entries replaced by arrays up to the first
  one that cannot be reshaped.
\<close>

fun converted :: "color_dict \<Rightarrow> color_dict" where
  "converted [] = []"
| "converted ((key, v) # d) =
     (case reshape (np_array v) of
        Inl e \<Rightarrow> (key, v) # d
      | Inr c \<Rightarrow> (key, Reshaped c) # converted d)"

lemma flat_converted [simp]: "flat (converted d) = flat d"
  by (induction d) (auto simp: reshape_eq_Inr_iff split: sum.splits)

lemma map_fst_converted [simp]: "map fst (converted d) = map fst d"
  by (induction d) (auto split: sum.splits)

lemma converted_arrays [simp]: "converted (arrays cs) = arrays cs"
  by (induction cs) auto

lemma converted_ok: "reshape_colors (flat d) = return cs \<Longrightarrow> converted d = arrays cs"
  by (induction d arbitrary: cs) (auto simp: reshape_colors_Cons split: sum.splits)

text \<open>The loop over the items, started after the entries \<open>pre\<close>.\<close>

lemma reshape_loop:
  assumes "distinct (map fst (pre @ rest))"
  shows "for_loop reshape_entry rest (pre @ rest) =
     (case reshape_colors (flat rest) of
        Inl e \<Rightarrow> Inl (e, pre @ converted rest)
      | Inr cs \<Rightarrow> Inr (pre @ arrays cs))"
  using assms
proof (induction rest arbitrary: pre)
  case Nil
  show ?case by simp
next
  case (Cons kv rest)
  obtain key v where kv: "kv = (key, v)" by (cases kv)
  show ?case
  proof (cases "reshape (np_array v)")
    case (Inl e)
    then show ?thesis by (simp add: kv reshape_colors_Cons)
  next
    case (Inr c)
    from Cons.prems have "key \<notin> fst ` set pre" by (auto simp: kv)
    then have u: "AList.update key (Reshaped c) (pre @ (key, v) # rest) =
        (pre @ [(key, Reshaped c)]) @ rest"
      by (simp add: update_middle)
    from Cons.prems have "distinct (map fst ((pre @ [(key, Reshaped c)]) @ rest))"
      by (simp add: kv)
    from Cons.IH [OF this] Inr u show ?thesis
      by (simp add: kv reshape_colors_Cons split: sum.splits)
  qed
qed

lemma reshape_in_place_eq:
  assumes "distinct (map fst colors)"
  shows "reshape_in_place colors =
     (case reshape_colors (flat colors) of
        Inl e \<Rightarrow> Inl (e, converted colors)
      | Inr cs \<Rightarrow> Inr (arrays cs))"
  using reshape_loop [of "[]" colors] assms by (simp add: reshape_in_place_def split: sum.splits)

section \<open>Lemmas on the method\<close>

text \<open>
  \<open>after_raise e \<dots> obj\<close> is the object that an exception \<open>e\<close> of the validation or of
  the reshaping leaves: the speech flag is assigned before the checks, the sampling
  parameters before the reshaping, the geometry after it.
\<close>

definition after_raise :: "error \<Rightarrow> int \<Rightarrow> int \<Rightarrow> bool \<Rightarrow> object \<Rightarrow> object" where
  "after_raise e magnification divergence_iterations speak obj =
     (if e = ValueError
      then obj\<lparr>attr_SPEAK := Some speak, attr_MAGNIFICATION := Some magnification,
               attr_DIVERGENCE_ITERATIONS := Some divergence_iterations,
               attr_DIVERGENCE_LEVELS := Some (divergence_levels divergence_iterations)\<rparr>
      else obj\<lparr>attr_SPEAK := Some speak\<rparr>)"

lemma render_and_write_assign:
  "render_and_write (assign self obj) (arrays cs) =
     (case np_zeros (snd (IMAGE_SIZE self)) (fst (IMAGE_SIZE self)) of
        Inl e \<Rightarrow> Inl (e, [])
      | Inr zeros \<Rightarrow>
          (case render_image self cs (initial_state self zeros) of
             Inl x \<Rightarrow> Inl x
           | Inr st \<Rightarrow> Inr (trace st @ write_image (image_array st) (image_path self))))"
  by (simp add: render_and_write_def read_attributes_def initial_state_def cong: case_congs)

text \<open>The method on the object, by the outcome of the validation.\<close>

lemma mandelbrot_on_cases:
  assumes "distinct (map fst colors)"
  shows "mandelbrot_on obj image_size colors center top_im magnification divergence_iterations speak =
     (if odd (fst image_size) \<or> odd (snd image_size)
      then ((obj\<lparr>attr_SPEAK := Some speak\<rparr>, colors), Inl (OddResolutionError, []))
      else if top_im \<le> snd (case center of None \<Rightarrow> (- 66 / 100, 0) | Some c \<Rightarrow> c)
      then ((obj\<lparr>attr_SPEAK := Some speak\<rparr>, colors), Inl (TopError, []))
      else case reshape_colors (flat colors) of
             Inl e \<Rightarrow>
               ((obj\<lparr>attr_SPEAK := Some speak, attr_MAGNIFICATION := Some magnification,
                      attr_DIVERGENCE_ITERATIONS := Some divergence_iterations,
                      attr_DIVERGENCE_LEVELS := Some (divergence_levels divergence_iterations)\<rparr>,
                 converted colors), Inl (e, []))
           | Inr cs \<Rightarrow>
               ((assign \<lparr>SPEAK = speak, MAGNIFICATION = magnification,
                   DIVERGENCE_ITERATIONS = divergence_iterations,
                   DIVERGENCE_LEVELS = divergence_levels divergence_iterations,
                   IMAGE_SIZE = image_size,
                   CENTER = (case center of None \<Rightarrow> (- 66 / 100, 0) | Some c \<Rightarrow> c),
                   TOP = top_im, CENTER_PIXEL = center_pixel image_size\<rparr> obj, arrays cs),
                render_and_write
                  (assign \<lparr>SPEAK = speak, MAGNIFICATION = magnification,
                     DIVERGENCE_ITERATIONS = divergence_iterations,
                     DIVERGENCE_LEVELS = divergence_levels divergence_iterations,
                     IMAGE_SIZE = image_size,
                     CENTER = (case center of None \<Rightarrow> (- 66 / 100, 0) | Some c \<Rightarrow> c),
                     TOP = top_im, CENTER_PIXEL = center_pixel image_size\<rparr> obj) (arrays cs)))"
  by (simp add: mandelbrot_on_def Let_def odd_iff_mod_2_eq_one reshape_in_place_eq [OF assms]
      assign_def split: sum.splits)

lemma mandelbrot_on_raise:
  assumes "distinct (map fst colors)"
    and "configure image_size (flat colors) center top_im magnification divergence_iterations
           speak = raise e"
  shows "mandelbrot_on obj image_size colors center top_im magnification divergence_iterations
           speak =
         ((after_raise e magnification divergence_iterations speak obj,
           if e = ValueError then converted colors else colors), Inl (e, []))"
  using assms(2) reshape_colors_raises [of "flat colors"]
  by (auto simp: mandelbrot_on_cases [OF assms(1)] configure_cases after_raise_def
      split: if_splits sum.splits)

lemma mandelbrot_on_return:
  assumes "distinct (map fst colors)"
    and "configure image_size (flat colors) center top_im magnification divergence_iterations
           speak = return (self, cs)"
  shows "mandelbrot_on obj image_size colors center top_im magnification divergence_iterations
           speak =
         ((assign self obj, arrays cs),
          map_sum id snd (mandelbrot image_size (flat colors) center top_im magnification
            divergence_iterations speak))"
proof -
  from assms(2) have "IMAGE_SIZE self = image_size" by (rule configure_IMAGE_SIZE)
  then have "render_and_write (assign self obj) (arrays cs) =
      map_sum id snd (mandelbrot image_size (flat colors) center top_im magnification
        divergence_iterations speak)"
    by (simp add: render_and_write_assign mandelbrot_def assms(2) initial_state_def
        split: sum.splits)
  with assms(2) show ?thesis
    unfolding configure_Inr_iff by (simp add: mandelbrot_on_cases [OF assms(1)])
qed

lemma flat_arrays: "reshape_colors colors = return cs \<Longrightarrow> flat (arrays cs) = colors"
proof (induction colors arbitrary: cs)
  case Nil
  then show ?case by simp
next
  case (Cons kv colors)
  obtain key v where kv: "kv = (key, v)" by (cases kv)
  from Cons.prems obtain c cs' where "reshape v = return c" "reshape_colors colors = return cs'"
    "cs = (key, c) # cs'"
    unfolding kv reshape_colors_Cons by (auto split: sum.splits)
  with Cons.IH [of cs'] show ?case by (simp add: kv reshape_eq_Inr_iff)
qed

lemma reshape_colors_arrays [simp]: "reshape_colors (flat (arrays cs)) = return cs"
  by (induction cs) (auto simp: reshape_colors_Cons)

text \<open>The dictionary that a call leaves denotes the colours it was given.\<close>

lemma mandelbrot_on_colors:
  assumes "distinct (map fst colors)"
    and "mandelbrot_on obj image_size colors center top_im magnification divergence_iterations
           speak = ((obj', colors'), r)"
  shows "flat colors' = flat colors" and "distinct (map fst colors')"
proof -
  have "flat colors' = flat colors \<and> map fst colors' = map fst colors"
  proof (cases "reshape_colors (flat colors)")
    case (Inl e)
    with assms(2) show ?thesis
      by (auto simp: mandelbrot_on_cases [OF assms(1)] split: if_splits)
  next
    case (Inr cs)
    from flat_arrays [OF Inr] have "flat (arrays cs) = flat colors" .
    moreover from this have "map fst (arrays cs) = map fst colors" by (metis map_fst_flat)
    ultimately show ?thesis using assms(2) Inr
      by (auto simp: mandelbrot_on_cases [OF assms(1)] split: if_splits)
  qed
  with assms(1) show "flat colors' = flat colors" and "distinct (map fst colors')" by simp_all
qed

section \<open>Objects in use\<close>

text \<open>
  The objects that a program can hold: the one made by \<^verbatim>\<open>__init__\<close>, and the ones left
  by calls of \<^verbatim>\<open>mandelbrot\<close> on them, whether they returned or raised.
\<close>

inductive in_use :: "object \<Rightarrow> bool" where
  fresh: "in_use init"
| called:
    "in_use obj \<Longrightarrow> distinct (map fst colors) \<Longrightarrow>
     mandelbrot_on obj image_size colors center top_im magnification divergence_iterations speak =
       ((obj', colors'), r) \<Longrightarrow>
     in_use obj'"

text \<open>
  The attributes of an object in use: the geometry, when it is there, is one that
  passed the validation, and it is there only with the sampling parameters, which are
  there only with the speech flag.
\<close>

definition geometry_ok :: "object \<Rightarrow> bool" where
  "geometry_ok obj \<longleftrightarrow>
     (case attr_IMAGE_SIZE obj of
        None \<Rightarrow> attr_CENTER obj = None \<and> attr_TOP obj = None \<and> attr_CENTER_PIXEL obj = None
      | Some image_size \<Rightarrow>
          even (fst image_size) \<and> even (snd image_size) \<and>
          attr_CENTER_PIXEL obj = Some (center_pixel image_size) \<and>
          (case (attr_CENTER obj, attr_TOP obj) of
             (Some center, Some top_im) \<Rightarrow> snd center < top_im
           | _ \<Rightarrow> False) \<and>
          attr_DIVERGENCE_ITERATIONS obj \<noteq> None)"

definition sampling_ok :: "object \<Rightarrow> bool" where
  "sampling_ok obj \<longleftrightarrow>
     (case attr_DIVERGENCE_ITERATIONS obj of
        None \<Rightarrow> attr_MAGNIFICATION obj = None \<and> attr_DIVERGENCE_LEVELS obj = None
      | Some n \<Rightarrow>
          attr_DIVERGENCE_LEVELS obj = Some (divergence_levels n) \<and>
          attr_MAGNIFICATION obj \<noteq> None \<and> attr_SPEAK obj \<noteq> None)"

definition object_inv :: "object \<Rightarrow> bool" where
  "object_inv obj \<longleftrightarrow> attr_tts obj \<and> geometry_ok obj \<and> sampling_ok obj"

lemma object_inv_init: "object_inv init"
  by (simp add: object_inv_def geometry_ok_def sampling_ok_def init_def)

lemma object_inv_speak:
  "object_inv obj \<Longrightarrow> object_inv (obj\<lparr>attr_SPEAK := Some speak\<rparr>)"
  by (auto simp: object_inv_def geometry_ok_def sampling_ok_def split: option.splits)

lemma object_inv_sampling:
  "object_inv obj \<Longrightarrow>
   object_inv (obj\<lparr>attr_SPEAK := Some speak, attr_MAGNIFICATION := Some magnification,
     attr_DIVERGENCE_ITERATIONS := Some divergence_iterations,
     attr_DIVERGENCE_LEVELS := Some (divergence_levels divergence_iterations)\<rparr>)"
  by (auto simp: object_inv_def geometry_ok_def sampling_ok_def split: option.splits)

lemma object_inv_assign:
  assumes "attr_tts obj" and "configured self"
    and "DIVERGENCE_LEVELS self = divergence_levels (DIVERGENCE_ITERATIONS self)"
    and "CENTER_PIXEL self = center_pixel (IMAGE_SIZE self)"
  shows "object_inv (assign self obj)"
  using assms
  by (simp add: object_inv_def geometry_ok_def sampling_ok_def assign_def configured_def)

lemma mandelbrot_on_object_inv:
  assumes "distinct (map fst colors)" and "object_inv obj"
    and "mandelbrot_on obj image_size colors center top_im magnification divergence_iterations
           speak = ((obj', colors'), r)"
  shows "object_inv obj'"
proof (cases "configure image_size (flat colors) center top_im magnification
    divergence_iterations speak")
  case (Inl e)
  from assms(3) have "obj' = after_raise e magnification divergence_iterations speak obj"
    by (simp add: mandelbrot_on_raise [OF assms(1) Inl])
  with assms(2) show ?thesis
    by (simp add: after_raise_def object_inv_speak object_inv_sampling)
next
  case (Inr x)
  obtain self cs where x: "x = (self, cs)" by (cases x)
  from assms(3) have obj': "obj' = assign self obj"
    by (simp add: mandelbrot_on_return [OF assms(1) Inr [unfolded x]])
  from Inr have "configured self" unfolding x by (rule configure_configured)
  moreover from Inr have "DIVERGENCE_LEVELS self = divergence_levels (DIVERGENCE_ITERATIONS self)"
    "CENTER_PIXEL self = center_pixel (IMAGE_SIZE self)"
    unfolding x configure_Inr_iff by simp_all
  ultimately show ?thesis using assms(2) unfolding obj'
    by (intro object_inv_assign) (simp_all add: object_inv_def)
qed

lemma in_use_object_inv: "in_use obj \<Longrightarrow> object_inv obj"
proof (induction rule: in_use.induct)
  case fresh
  show ?case by (rule object_inv_init)
next
  case (called obj colors image_size center top_im magnification divergence_iterations speak
      obj' colors' r)
  from called.hyps(2) called.IH called.hyps(3) show ?case by (rule mandelbrot_on_object_inv)
qed

section \<open>A worked example\<close>

text \<open>The dictionary \<^verbatim>\<open>{'m': [255, 0, 0], 'd': [0, 0, 255]}\<close> of the example of theory
  \<open>Render\<close>, and the object that the call of the example leaves.\<close>

abbreviation example_dict :: color_dict where
  "example_dict \<equiv> [(''m'', Listed [255, 0, 0]), (''d'', Listed [0, 0, 255])]"

abbreviation example_object :: object where
  "example_object \<equiv> assign (example_self False) init"

lemma example_configure:
  "configure (2, 2) (flat example_dict) (Some (0, 0)) 2 1 2 False =
     return (example_self False, [(''m'', RGB 255 0 0), (''d'', RGB 0 0 255)])"
  by (simp add: configure_cases reshape_colors_Cons reshape_def center_pixel_def)

lemma example_call:
  "mandelbrot_on init (2, 2) example_dict (Some (0, 0)) 2 1 2 False =
     ((example_object, arrays [(''m'', RGB 255 0 0), (''d'', RGB 0 0 255)]),
      Inr [Print (P_STRING 0 0 0), Print (P_STRING 0 0 50), Print (P_STRING 0 0 70),
           Print (P_STRING 0 0 100), Print (P_STRING 0 0 120),
           Save (IMAGE_F 0 0 2 2 2) example_image])"
  using mandelbrot_on_return [OF _ example_configure, of init] example_2x2 by simp

section \<open>Properties\<close>

text \<open>
  C16. The method on the object computes what the function \<open>mandelbrot\<close> computes from
  the numbers in the dictionary: the same exception with the same output before it, or
  the same output, whatever the attributes of the object were before the call and
  whether the values of the dictionary are lists or arrays of an earlier call.  When
  the call returns, the attributes of the object are those of the configuration.
\<close>

theorem mandelbrot_on_refines:
  assumes "distinct (map fst colors)"
  shows "snd (mandelbrot_on obj image_size colors center top_im magnification
           divergence_iterations speak) =
         map_sum id snd (mandelbrot image_size (flat colors) center top_im magnification
           divergence_iterations speak) \<and>
         (case mandelbrot image_size (flat colors) center top_im magnification
                 divergence_iterations speak of
            Inl x \<Rightarrow> True
          | Inr (self, evs) \<Rightarrow>
              the_fractal (fst (fst (mandelbrot_on obj image_size colors center top_im
                magnification divergence_iterations speak))) = Some self)"
proof (cases "configure image_size (flat colors) center top_im magnification
    divergence_iterations speak")
  case (Inl e)
  then show ?thesis
    by (simp add: mandelbrot_on_raise [OF assms] mandelbrot_configure_raises)
next
  case (Inr x)
  obtain self cs where x: "x = (self, cs)" by (cases x)
  from Inr show ?thesis unfolding x
    by (auto simp: mandelbrot_on_return [OF assms] mandelbrot_Inr_iff split: sum.splits)
qed

theorem mandelbrot_on_refines_witness:
  "distinct (map fst example_dict) \<and>
   snd (mandelbrot_on init (2, 2) example_dict (Some (0, 0)) 2 1 2 False) =
     Inr [Print (P_STRING 0 0 0), Print (P_STRING 0 0 50), Print (P_STRING 0 0 70),
          Print (P_STRING 0 0 100), Print (P_STRING 0 0 120),
          Save (IMAGE_F 0 0 2 2 2) example_image] \<and>
   the_fractal (fst (fst (mandelbrot_on init (2, 2) example_dict (Some (0, 0)) 2 1 2 False))) =
     Some (example_self False)"
  using mandelbrot_on_refines [of example_dict init "(2, 2)" "Some (0, 0)" 2 1 2 False]
  by (simp add: example_2x2)

text \<open>
  C17. Determinism on repeated runs.  Calling the method again on the object and the
  dictionary that a call has left, with the same arguments, has the same outcome: the
  same exception, or the same output and image; and after a call that returned, the
  second call leaves the object and the dictionary exactly as it found them.
\<close>

theorem repeated_call_same_result:
  assumes "distinct (map fst colors)"
    and "mandelbrot_on obj image_size colors center top_im magnification divergence_iterations
           speak = ((obj', colors'), r)"
  shows "snd (mandelbrot_on obj' image_size colors' center top_im magnification
           divergence_iterations speak) = r \<and>
         (\<forall>evs. r = Inr evs \<longrightarrow>
            mandelbrot_on obj' image_size colors' center top_im magnification
              divergence_iterations speak = ((obj', colors'), r))"
proof (cases "configure image_size (flat colors) center top_im magnification
    divergence_iterations speak")
  case (Inl e)
  note f = mandelbrot_on_colors [OF assms]
  from assms(2) have "r = Inl (e, [])" by (simp add: mandelbrot_on_raise [OF assms(1) Inl])
  with Inl show ?thesis by (simp add: mandelbrot_on_raise [OF f(2)] f(1))
next
  case (Inr x)
  obtain self cs where x: "x = (self, cs)" by (cases x)
  note f = mandelbrot_on_colors [OF assms]
  from assms(2) have "obj' = assign self obj" "colors' = arrays cs"
    "r = map_sum id snd (mandelbrot image_size (flat colors) center top_im magnification
       divergence_iterations speak)"
    by (simp_all add: mandelbrot_on_return [OF assms(1) Inr [unfolded x]])
  with Inr f show ?thesis unfolding x
    using mandelbrot_on_return [OF f(2), of image_size center top_im magnification
        divergence_iterations speak self cs obj']
    by simp
qed

theorem repeated_call_same_result_witness:
  "\<exists>obj' colors' evs.
     mandelbrot_on init (2, 2) example_dict (Some (0, 0)) 2 1 2 False =
       ((obj', colors'), Inr evs) \<and>
     mandelbrot_on obj' (2, 2) colors' (Some (0, 0)) 2 1 2 False = ((obj', colors'), Inr evs) \<and>
     colors' = [(''m'', Reshaped (RGB 255 0 0)), (''d'', Reshaped (RGB 0 0 255))]"
  using repeated_call_same_result [OF _ example_call] example_call by simp

text \<open>
  C18. A call that the validation or the reshaping rejects raises before any output,
  and the object it leaves mixes two configurations: the speech flag is the one of
  the rejected call, and so are the sampling parameters when a colour was rejected,
  while the geometry, and with it \<^verbatim>\<open>pixels_to_coordinates\<close>, is still that of the
  previous call.  The dictionary is untouched unless a colour was rejected; then its
  entries before the rejected one have been replaced by arrays.
\<close>

theorem rejected_call_keeps_geometry:
  assumes "distinct (map fst colors)"
    and "configure image_size (flat colors) center top_im magnification divergence_iterations
           speak = raise e"
  shows "\<exists>obj' colors'.
      mandelbrot_on obj image_size colors center top_im magnification divergence_iterations
        speak = ((obj', colors'), Inl (e, [])) \<and>
      attr_SPEAK obj' = Some speak \<and>
      attr_IMAGE_SIZE obj' = attr_IMAGE_SIZE obj \<and> attr_CENTER obj' = attr_CENTER obj \<and>
      attr_TOP obj' = attr_TOP obj \<and> attr_CENTER_PIXEL obj' = attr_CENTER_PIXEL obj \<and>
      pixels_to_coordinates_on obj' = pixels_to_coordinates_on obj \<and>
      (if e = ValueError
       then attr_MAGNIFICATION obj' = Some magnification \<and>
            attr_DIVERGENCE_ITERATIONS obj' = Some divergence_iterations \<and>
            colors' = converted colors
       else attr_MAGNIFICATION obj' = attr_MAGNIFICATION obj \<and>
            attr_DIVERGENCE_ITERATIONS obj' = attr_DIVERGENCE_ITERATIONS obj \<and>
            colors' = colors)"
  by (simp add: mandelbrot_on_raise [OF assms] after_raise_def pixels_to_coordinates_on_def
      fun_eq_iff)

theorem rejected_call_keeps_geometry_witness:
  "\<exists>obj' colors'.
      mandelbrot_on example_object (4, 4) [(''m'', Listed [255, 0, 0]), (''d'', Listed [0, 255])]
        (Some (0, 0)) 2 3 10 True = ((obj', colors'), Inl (ValueError, [])) \<and>
      attr_SPEAK obj' = Some True \<and> attr_MAGNIFICATION obj' = Some 3 \<and>
      attr_IMAGE_SIZE obj' = Some (2, 2) \<and>
      pixels_to_coordinates_on obj' = pixels_to_coordinates (example_self False) \<and>
      colors' = [(''m'', Reshaped (RGB 255 0 0)), (''d'', Listed [0, 255])]"
proof -
  have "configure (4, 4) (flat [(''m'', Listed [255, 0, 0]), (''d'', Listed [0, 255])])
      (Some (0, 0)) 2 3 10 True = raise ValueError"
    by (simp add: configure_cases reshape_colors_Cons reshape_def)
  from rejected_call_keeps_geometry [OF _ this, of example_object] show ?thesis
    by (auto simp: reshape_def) (simp add: assign_def)
qed

text \<open>
  C19. Every object in use, made by \<^verbatim>\<open>__init__\<close> and passed through any number of
  calls that returned or raised, has its speech engine; its geometry, when it has one,
  passed the validation (even dimensions, the centre pixel at half of them, the centre
  below the top) and comes with sampling parameters; and its table of levels is the
  one of its iteration budget.
\<close>

theorem in_use_invariant:
  assumes "in_use obj"
  shows "object_inv obj"
  using assms by (rule in_use_object_inv)

theorem in_use_invariant_witness:
  "in_use example_object \<and> object_inv example_object"
proof -
  have "in_use example_object"
    using fresh _ example_call by (rule called) simp
  with in_use_invariant [of example_object] show ?thesis by simp
qed

end
