(* ===== verification/Schedule.thy ===== *)
theory Schedule
  imports Render "HOL-Library.Multiset"
begin

text \<open>
  The order of the pixels.  The program renders the pixels in row-major order; the
  value of a pixel does not depend on the others, and the progress counter does not
  depend on which pixel was counted.  \<open>render_schedule\<close> renders the pixels in a given
  order, and the lemmas show that every order that visits each pixel once ends in the
  state in which the loops of the program end.
\<close>

section \<open>Schedules\<close>

text \<open>The positions \<open>(pixel_y, pixel_x)\<close> in the order of the two loops.\<close>

definition row_major :: "fractal \<Rightarrow> (nat \<times> nat) list" where
  "row_major self =
     List.product (py_range (snd (IMAGE_SIZE self))) (py_range (fst (IMAGE_SIZE self)))"

text \<open>The body of the loops, run for the positions of a list in their order.\<close>

definition render_schedule ::
  "fractal \<Rightarrow> colors \<Rightarrow> (nat \<times> nat) list \<Rightarrow> render_state \<Rightarrow> render_state outcome" where
  "render_schedule self colors ps st =
     for_loop (\<lambda>st (pixel_y, pixel_x). render_pixel self colors pixel_y st pixel_x) ps st"

text \<open>The part of the state that the progress block reads and writes.\<close>

definition counters :: "render_state \<Rightarrow> nat \<times> int \<times> event list" where
  "counters st = (pixels_done st, p_complete st, trace st)"

section \<open>The loops are the row-major schedule\<close>

lemma render_image_schedule:
  "render_image self colors st = render_schedule self colors (row_major self) st"
  by (simp add: render_image_def render_row_def [abs_def] render_schedule_def row_major_def
      product_concat_map for_loop_concat for_loop_map)

lemma set_row_major:
  "set (row_major self) =
     {(y, x). y < nat (snd (IMAGE_SIZE self)) \<and> x < nat (fst (IMAGE_SIZE self))}"
  by (auto simp: row_major_def)

lemma distinct_row_major: "distinct (row_major self)"
  by (simp add: row_major_def py_range_def distinct_product)

lemma length_row_major:
  "length (row_major self) = nat (snd (IMAGE_SIZE self)) * nat (fst (IMAGE_SIZE self))"
  by (simp add: row_major_def)

section \<open>Lemmas on schedules\<close>

lemma render_schedule_Nil [simp]: "render_schedule self colors [] st = Inr st"
  by (simp add: render_schedule_def)

lemma render_schedule_Cons:
  "render_schedule self colors ((y, x) # ps) st =
     (case render_pixel self colors y st x of
        Inl e \<Rightarrow> Inl e
      | Inr st' \<Rightarrow> render_schedule self colors ps st')"
  by (simp add: render_schedule_def cong: case_congs)

text \<open>The progress block reads the counters only.\<close>

lemma render_pixel_counters:
  assumes "render_pixel self colors y st x = Inr st'"
    and "render_pixel self colors y' t x' = Inr t'" and "counters st = counters t"
  shows "counters st' = counters t'"
  using assms
  by (auto simp: render_pixel_def count_pixel_def counters_def Let_def
      split: sum.splits if_splits)

lemma render_schedule_counters:
  assumes "length ps = length qs"
    and "render_schedule self colors ps s0 = Inr s"
    and "render_schedule self colors qs t0 = Inr t" and "counters s0 = counters t0"
  shows "counters s = counters t"
  using assms
proof (induction ps qs arbitrary: s0 t0 rule: list_induct2)
  case Nil
  then show ?case by simp
next
  case (Cons p ps q qs)
  obtain y x y' x' where p: "p = (y, x)" and q: "q = (y', x')" by (cases p, cases q) auto
  from Cons.prems(1) obtain s1 where s1: "render_pixel self colors y s0 x = Inr s1"
    "render_schedule self colors ps s1 = Inr s"
    by (auto simp: p render_schedule_Cons split: sum.splits)
  from Cons.prems(2) obtain t1 where t1: "render_pixel self colors y' t0 x' = Inr t1"
    "render_schedule self colors qs t1 = Inr t"
    by (auto simp: q render_schedule_Cons split: sum.splits)
  from s1(1) t1(1) Cons.prems(3) have "counters s1 = counters t1" by (rule render_pixel_counters)
  with s1(2) t1(2) show ?case by (rule Cons.IH)
qed

text \<open>A schedule stores the value of every pixel it visits and leaves the others.\<close>

lemma render_schedule_image:
  assumes "render_schedule self colors ps s0 = Inr s" and "shape_ok self (image_array s0)"
    and "distinct ps" and "set ps \<subseteq> set (row_major self)"
  shows "shape_ok self (image_array s) \<and>
     (\<forall>(y, x)\<in>set ps. pixel_value self colors x y = return (image_array s ! y ! x)) \<and>
     (\<forall>y x. y < nat (snd (IMAGE_SIZE self)) \<longrightarrow> (y, x) \<notin> set ps \<longrightarrow>
        image_array s ! y ! x = image_array s0 ! y ! x)"
  using assms
proof (induction ps arbitrary: s0)
  case Nil
  then show ?case by simp
next
  case (Cons p ps)
  obtain y x where p: "p = (y, x)" by (cases p)
  from Cons.prems(4) have y: "y < nat (snd (IMAGE_SIZE self))"
    and x: "x < nat (fst (IMAGE_SIZE self))"
    by (simp_all add: p set_row_major)
  from Cons.prems(1) obtain s1 where s1: "render_pixel self colors y s0 x = Inr s1"
    and rest: "render_schedule self colors ps s1 = Inr s"
    by (auto simp: p render_schedule_Cons split: sum.splits)
  from render_pixel_step [OF Cons.prems(2) y x s1] obtain v where
    v: "pixel_value self colors x y = return v"
    and a: "image_array s1 = (image_array s0)[y := (image_array s0 ! y)[x := v]]" by blast
  from a have sh: "shape_ok self (image_array s1)"
    using shape_ok_update [OF Cons.prems(2) y] by simp
  note upd = nth_nth_update [OF Cons.prems(2) y x, of _ v]
  from Cons.IH [OF rest sh] Cons.prems(3,4) have ih:
    "shape_ok self (image_array s)"
    "\<forall>(y, x)\<in>set ps. pixel_value self colors x y = return (image_array s ! y ! x)"
    "\<forall>y x. y < nat (snd (IMAGE_SIZE self)) \<longrightarrow> (y, x) \<notin> set ps \<longrightarrow>
        image_array s ! y ! x = image_array s1 ! y ! x"
    by simp_all
  from Cons.prems(3) have "(y, x) \<notin> set ps" by (simp add: p)
  with ih(3) y have "image_array s ! y ! x = v" by (simp add: a upd)
  with v ih(1,2) have "\<forall>(y, x)\<in>set (p # ps).
      pixel_value self colors x y = return (image_array s ! y ! x)"
    by (simp add: p)
  moreover have "image_array s ! y' ! x' = image_array s0 ! y' ! x'"
    if "y' < nat (snd (IMAGE_SIZE self))" "(y', x') \<notin> set (p # ps)" for y' x'
    using that ih(3) by (auto simp: p a upd)
  ultimately show ?case using ih(1) by blast
qed

text \<open>A schedule returns when the pixels it visits have a value.\<close>

lemma render_schedule_total:
  assumes "shape_ok self (image_array s0)" and "set ps \<subseteq> set (row_major self)"
    and "\<forall>(y, x)\<in>set ps. is_ok (pixel_value self colors x y)"
  shows "\<exists>s. render_schedule self colors ps s0 = Inr s"
proof -
  have "\<exists>s. render_schedule self colors ps s0 = Inr s \<and> shape_ok self (image_array s)"
    unfolding render_schedule_def
  proof (rule for_loop_total [where P = "\<lambda>s. shape_ok self (image_array s)"])
    show "shape_ok self (image_array s0)" by fact
  next
    fix s :: render_state and p
    assume p: "p \<in> set ps" and sh: "shape_ok self (image_array s)"
    obtain y x where yx: "p = (y, x)" by (cases p)
    from p assms(2) have y: "y < nat (snd (IMAGE_SIZE self))"
      and x: "x < nat (fst (IMAGE_SIZE self))"
      by (auto simp: yx set_row_major)
    from p assms(3) have "is_ok (pixel_value self colors x y)" by (auto simp: yx)
    with sh y x obtain s' where s': "render_pixel self colors y s x = Inr s'"
      using render_pixel_total by blast
    from render_pixel_step [OF sh y x s'] shape_ok_update [OF sh y]
    have "shape_ok self (image_array s')" by auto
    with s' show "\<exists>s'. (case p of (pixel_y, pixel_x) \<Rightarrow> render_pixel self colors pixel_y s pixel_x) =
        Inr s' \<and> shape_ok self (image_array s')"
      by (simp add: yx)
  qed
  then show ?thesis by blast
qed

section \<open>Every order gives the same state\<close>

text \<open>A permutation of the row-major schedule visits every pixel once.\<close>

lemma permutation_positions:
  assumes "mset ps = mset (row_major self)"
  shows "set ps = set (row_major self)" and "distinct ps"
    and "length ps = length (row_major self)"
proof -
  from assms show "set ps = set (row_major self)" by (rule mset_eq_setD)
  from mset_eq_imp_distinct_iff [OF assms] show "distinct ps"
    by (simp add: distinct_row_major)
  from assms show "length ps = length (row_major self)" by (rule mset_eq_length)
qed

lemma schedule_rendered:
  assumes "mset ps = mset (row_major self)" and "shape_ok self (image_array s0)"
    and "render_schedule self colors ps s0 = Inr s"
  shows "rendered self colors (image_array s)"
  using render_schedule_image [OF assms(3,2)] permutation_positions [OF assms(1)]
  by (auto simp: rendered_def set_row_major)

lemma schedule_unique:
  assumes "mset ps = mset (row_major self)" and "mset qs = mset (row_major self)"
    and "shape_ok self (image_array s0)"
    and "render_schedule self colors ps s0 = Inr s"
    and "render_schedule self colors qs s0 = Inr t"
  shows "s = t"
proof -
  from assms have "image_array s = image_array t"
    by (intro rendered_unique [of self colors]) (auto intro: schedule_rendered)
  moreover from assms(1,2) have "length ps = length qs" by (metis mset_eq_length)
  then have "counters s = counters t" using assms(4,5) by (rule render_schedule_counters) simp
  ultimately show ?thesis by (cases s, cases t) (simp add: counters_def)
qed

lemma schedule_returns:
  assumes "mset ps = mset (row_major self)" and "mset qs = mset (row_major self)"
    and "shape_ok self (image_array s0)"
    and "render_schedule self colors ps s0 = Inr s"
  shows "\<exists>t. render_schedule self colors qs s0 = Inr t"
proof -
  from schedule_rendered [OF assms(1,3,4)]
  have "\<forall>(y, x)\<in>set (row_major self). is_ok (pixel_value self colors x y)"
    by (auto simp: rendered_def set_row_major)
  with assms(3) permutation_positions(1) [OF assms(2)] show ?thesis
    by (intro render_schedule_total) simp_all
qed

lemma schedule_permute:
  assumes "mset ps = mset (row_major self)" and "mset qs = mset (row_major self)"
    and "shape_ok self (image_array s0)"
    and "render_schedule self colors ps s0 = Inr s"
  shows "render_schedule self colors qs s0 = Inr s"
  using schedule_returns [OF assms] schedule_unique [OF assms] by auto

section \<open>A worked example\<close>

text \<open>The schedule that visits the four pixels of the example of theory \<open>Render\<close> from
  the last to the first.\<close>

lemma example_backwards:
  "mset [(1, 1), (1, 0), (0, 1), (0, 0)] = mset (row_major (example_self False))"
  by (simp add: row_major_def py_range_def upt_rec)

section \<open>Properties\<close>

text \<open>
  C20. The order of the pixels does not matter.  Running the body of the loops for the
  pixels in any order that visits each pixel exactly once returns if and only if the
  loops of the program return, and then with the same state: the same image, the
  same counter and the same announcements.  An implementation may therefore render
  the pixels in any order, or partition them, without changing the result.
\<close>

theorem any_order_same_state:
  assumes "mset ps = mset (row_major self)" and "shape_ok self (image_array s0)"
  shows "render_schedule self colors ps s0 = Inr s \<longleftrightarrow> render_image self colors s0 = Inr s"
  unfolding render_image_schedule
proof
  assume "render_schedule self colors ps s0 = Inr s"
  with assms(1) refl assms(2) show "render_schedule self colors (row_major self) s0 = Inr s"
    by (rule schedule_permute)
next
  assume "render_schedule self colors (row_major self) s0 = Inr s"
  with refl assms show "render_schedule self colors ps s0 = Inr s"
    by (rule schedule_permute)
qed

theorem any_order_same_state_witness:
  "mset [(1, 1), (1, 0), (0, 1), (0, 0)] = mset (row_major (example_self False)) \<and>
   shape_ok (example_self False) (image_array example_start) \<and>
   render_schedule (example_self False) example_table [(1, 1), (1, 0), (0, 1), (0, 0)]
     example_start = Inr example_end"
  using any_order_same_state [OF example_backwards example_shape, of example_table example_end]
    example_backwards example_shape example_render_image
  by simp

end
