(* ===== verification/Spec2Isabelle.thy ===== *)
theory Spec2Isabelle
  imports Machine Output Object Schedule
begin

text \<open>
  \<^bold>\<open>A verification development for the Mandelbrot renderer of \<^verbatim>\<open>src/Fractals.py\<close>.\<close>

  \<^bold>\<open>The program.\<close>  The repository is one class, \<^verbatim>\<open>Fractal\<close>.  Its class body creates
  the directory \<^verbatim>\<open>PNG\<close> beside the module, \<^verbatim>\<open>__init__\<close> creates the speech engine, and
  the method \<^verbatim>\<open>mandelbrot\<close> validates the configuration (even dimensions, centre below
  the top), stores it on the object, reshapes the colour table in the dictionary of
  the caller, allocates the image and renders it pixel by pixel in row-major order.
  Each pixel is sampled at \<^verbatim>\<open>MAGNIFICATION\<close> sub-pixel positions along its diagonal;
  each position is mapped to the complex plane (\<^verbatim>\<open>pixels_to_coordinates\<close>), tested
  against the disc of radius 2 (\<^verbatim>\<open>coordinates_good\<close>) and iterated with
  \<^verbatim>\<open>next_mandelbrot\<close> until it leaves the disc or the budget \<^verbatim>\<open>DIVERGENCE_ITERATIONS\<close> is
  spent; a diverging sample is given one of 255 brightness levels by a search in
  \<^verbatim>\<open>DIVERGENCE_LEVELS\<close>; the samples of a pixel are blended into one colour and stored
  as three bytes.  After each pixel the progress is printed, and spoken when \<^verbatim>\<open>SPEAK\<close>
  is set, whenever it reaches a new multiple of ten; at the end \<^verbatim>\<open>write_image\<close> saves
  the image in \<^verbatim>\<open>PNG\<close> under a name built from the centre, the top and the size.

  \<^bold>\<open>The theories\<close>, in the order of their imports:

  \<^item> \<open>Prelude\<close>.  The exceptions as the datatype \<open>error\<close> and results as sums
    (\<open>Inl\<close> an exception); \<open>for_loop\<close>, the \<^verbatim>\<open>for\<close> statement with exception
    propagation, with its rules for invariants (\<open>for_loop_invariant\<close>,
    \<open>for_loop_upt_invariant\<close>), totality (\<open>for_loop_total\<close>), exceptions
    (\<open>for_loop_raises\<close>), functional refinement (\<open>for_loop_commute\<close>) and nesting
    (\<open>for_loop_concat\<close>, \<open>for_loop_map\<close>); the Python and NumPy primitives the program
    calls: \<open>py_int\<close>, \<open>py_range\<close>, \<open>py_min\<close>, \<open>py_index\<close>, \<open>getitem\<close>, \<open>setitem2\<close>,
    \<open>np_average\<close>, \<open>to_uint8\<close>, each with the exception it can raise and the lemmas
    that characterise it.
  \<^item> \<open>Geometry\<close> (\<^verbatim>\<open>pixels_to_coordinates\<close>, \<^verbatim>\<open>coordinates_good\<close>).  The record
    \<open>fractal\<close> has one field per attribute that \<^verbatim>\<open>mandelbrot\<close> assigns.  The lemmas give
    the affine map in closed form, its value at the centre pixel and on the top row,
    its uniform steps and injectivity, and the escape test as \<open>re\<^sup>2 + im\<^sup>2 \<le> 4\<close>.
  \<^item> \<open>Escape\<close> (\<^verbatim>\<open>next_mandelbrot\<close>, the loop \<^verbatim>\<open>for d_i in range(\<dots>)\<close> of
    \<^verbatim>\<open>mandelbrot\<close>).  \<open>divergence_loop\<close> returns the index at which the loop breaks.
    Its specification is the orbit of 0 under \<open>z \<mapsto> z\<^sup>2 + c\<close> (\<open>orbit\<close>, \<open>escapes_at\<close>,
    \<open>escape_time\<close>, \<open>mandelbrot_set\<close>); the lemmas prove the refinement, that an orbit
    that has left the disc never returns, that a larger budget does not change the
    result, and that the loop is symmetric under conjugation.
  \<^item> \<open>Levels\<close> (\<^verbatim>\<open>DIVERGENCE_LEVELS\<close>, \<^verbatim>\<open>d_min\<close>, \<^verbatim>\<open>divergence_multiplier\<close>).  The
    table of thresholds and the search \<^verbatim>\<open>min\<close>-then-\<^verbatim>\<open>index\<close>, characterised as a
    first-index search on a sorted table and reduced to the closed form \<open>bucket\<close>.
  \<^item> \<open>Sampler\<close> (the loop \<^verbatim>\<open>for magnification in range(\<dots>)\<close>).  The record
    \<open>pixel_tally\<close>, the classification of one sample (\<open>classify\<close>), one pass of the
    loop (\<open>subpixel\<close>) and the loop (\<open>sample_pixel\<close>), with the invariant \<open>tally_inv\<close>,
    the number of samples and the soundness of the classification with respect to
    \<open>mandelbrot_set\<close>.  \<open>classify_by_loop\<close> is the classification without the pre-check
    for points outside the disc, the reference with which \<open>classify\<close> is compared: the
    two agree for budgets of at least 255 and differ for positive budgets below.
  \<^item> \<open>Color\<close> (the reshaping of \<^verbatim>\<open>colors\<close>, the block from \<^verbatim>\<open>np.empty\<close> to the
    assignment to \<^verbatim>\<open>image_array\<close>).  \<open>pixel_color\<close> is specified by \<open>blend\<close>; the lemmas
    give the exceptions, the special cases and the range of the bytes.
  \<^item> \<open>Render\<close> (\<^verbatim>\<open>mandelbrot\<close> as a function of its arguments, \<^verbatim>\<open>write_image\<close>).  The
    loop state is the record \<open>render_state\<close>; \<open>configure\<close> is the method up to the
    assignment of \<^verbatim>\<open>CENTER_PIXEL\<close>, \<open>render_pixel\<close>, \<open>render_row\<close> and \<open>render_image\<close> are
    the loops, \<open>count_pixel\<close> is the progress block, \<open>mandelbrot\<close> composes them.
    Output is a list of events (\<open>Print\<close>, \<open>Say\<close>, \<open>RunAndWait\<close>, \<open>Save\<close>); an exception
    is returned with the output written before it; \<open>announced\<close>, \<open>spoken\<close> and
    \<open>written\<close> read the percentages and the images off it.  The invariants are \<open>shape_ok\<close> and
    \<open>progress_inv\<close>, the specification of the image is \<open>rendered\<close>, and \<open>silent\<close>, \<open>mute\<close>
    relate a run with speech to the run without.
  \<^item> \<open>Machine\<close> (the two \<^verbatim>\<open>for\<close> loops over the pixels, again).  The inductive relation
    \<open>step\<close> takes one pass of the loop body for the pixel that the counter \<^verbatim>\<open>i\<close>
    designates; \<open>reachable\<close> are the states reached from the initial state.  The
    lemmas show that \<open>render_image\<close> is a run of the machine to a final configuration,
    that the reachable states satisfy \<open>machine_inv\<close> (by rule induction), and that
    every run ends, in one configuration only.
  \<^item> \<open>Schedule\<close> (the order of the two loops).  \<open>row_major\<close> is the list of positions in
    the order of the program and \<open>render_schedule\<close> runs the loop body over any list of
    positions.  The lemmas show that the loops are the row-major schedule and that every
    permutation of it returns in the same cases and with the same state, because a
    pixel is computed from the configuration alone and the progress block reads the
    counter alone.
  \<^item> \<open>Output\<close> (the class body, the texts, \<^verbatim>\<open>Image.save\<close>).  \<open>str_int\<close> is \<^verbatim>\<open>str\<close> on an
    integer, with \<open>int_of_str\<close> as its inverse; \<open>format_progress\<close> and \<open>file_name\<close> are
    the progress line and the name of the file, and the lemmas show that the name
    determines the size.  The file system is a partial map from
    paths to \<open>Directory\<close> or \<open>Picture\<close>, with \<open>os_path_exists\<close>, \<open>mkdir\<close>, \<open>makedirs\<close> (a
    recursion on the parent of the path, with its termination proof), \<open>class_body\<close>
    and \<open>image_save\<close>; \<open>wf_fs\<close> says that it is a tree and \<open>with_dirs\<close> specifies
    \<open>makedirs\<close>.  The record \<open>world\<close> holds the console, the queue of the speech
    engine, what was spoken and the files; \<open>perform\<close> executes one event on it and
    \<open>run_mandelbrot\<close> is a call with its effects.  The lemmas show that the output of
    the loops is a sequence of announcements (\<open>replay\<close>, \<open>extends\<close>) and give the world
    after a call that returns and after a call that raises.
  \<^item> \<open>Object\<close> (\<^verbatim>\<open>__init__\<close>, the assignments to \<^verbatim>\<open>self\<close>, the dictionary \<^verbatim>\<open>colors\<close>).
    The record \<open>object\<close> has an optional value per attribute; \<open>mandelbrot_on\<close> is the
    method on an object and a dictionary, with the assignments between the checks as
    the code has them and the values of the dictionary replaced through
    \<open>AList.update\<close>.  The lemmas show that it computes what \<open>mandelbrot\<close> computes
    (\<open>the_fractal\<close> and \<open>flat\<close> are the abstraction functions), what it leaves after an
    exception (\<open>after_raise\<close>, \<open>converted\<close>), and the invariant \<open>object_inv\<close> of the
    objects in use (\<open>in_use\<close>, by rule induction).
  \<^item> \<open>Spec2Isabelle\<close> (this theory): the properties of a call of \<^verbatim>\<open>mandelbrot\<close> that
    span the components.

  \<^bold>\<open>Modelling decisions.\<close>
  \<^item> Python floats are exact reals and complex floats are \<open>complex\<close>: rounding,
    overflow (\<^verbatim>\<open>OverflowError\<close> of \<^verbatim>\<open>**\<close> on huge coordinates) and infinities are
    outside the model.  The one NaN the program produces without overflow, the average
    of no rows, is the value \<open>None\<close>, and its cast to a byte is taken to be 0.
  \<^item> Python integers are \<open>int\<close>; loop indices and counters, never negative, are
    \<open>nat\<close>; a byte is an \<open>8 word\<close>.  The cast of a channel to a byte, which NumPy
    performs in the assignment to \<^verbatim>\<open>image_array\<close>, is the integer part for channels from 0
    up to 256, the only ones the program produces from colours in that range; outside
    it NumPy leaves the cast undefined and the model wraps around.
  \<^item> The built-in and library functions the program calls (\<^verbatim>\<open>range\<close>, \<^verbatim>\<open>int\<close>, \<^verbatim>\<open>min\<close>,
    \<^verbatim>\<open>list.index\<close>, \<^verbatim>\<open>str\<close>, \<^verbatim>\<open>np.average\<close>, \<^verbatim>\<open>np.zeros\<close>, \<^verbatim>\<open>os.path.exists\<close>,
    \<^verbatim>\<open>os.makedirs\<close>, \<^verbatim>\<open>Image.save\<close>) are definitions of the model written from their
    documented behaviour; the lines they are mapped to are the calls in the source.
  \<^item> The dictionary \<^verbatim>\<open>colors\<close> is an association list with distinct keys, a NumPy row
    of three numbers is a value of \<open>'a rgb\<close>, the image is a list of rows.
  \<^item> Loops are \<open>for_loop\<close> over the list of their indices, so every loop terminates by
    structural recursion; the escape loop is its own recursive function because of its
    \<^verbatim>\<open>break\<close>, and \<open>makedirs\<close> recurses on the parent of its path, with the length of
    the path as measure.  No fuel is used anywhere.
  \<^item> Every exception is a value: those the program raises itself
    (\<open>OddResolutionError\<close>, \<open>TopError\<close>), those of the primitives (\<open>ValueError\<close>,
    \<open>KeyError\<close>, \<open>ZeroDivisionError\<close>, \<open>IndexError\<close>, \<open>AttributeError\<close>) and those of
    the operating system (\<open>FileExistsError\<close>, \<open>FileNotFoundError\<close>,
    \<open>NotADirectoryError\<close>, \<open>IsADirectoryError\<close>).
  \<^item> A text is the list of the bytes of its UTF-8 encoding.  \<^verbatim>\<open>str\<close> on a float is a
    parameter \<open>str_float\<close> of every definition that prints one; the centre is a pair of
    reals also when the caller passed integers.  The text between width and height in
    the name of the file is what the source file has there, the characters U+00C3 and
    U+2014.
  \<^item> A path is the list of its components; \<^verbatim>\<open>os.path.join\<close> appends the name of the file
    as one component, and the directory of the module is a parameter \<open>here\<close>.  A file
    holds the array of pixels that was saved: the PNG encoding is taken to be lossless.
  \<^item> The effects of a call are its output executed in order on a \<open>world\<close>.  This is the
    order of the program, because nothing that it prints, says or saves is read back
    by it; the one effect that can fail, the saving, is the last.
  \<^item> The examples evaluate the model in the logic on an image of 2 by 2 pixels with a
    budget of 2 iterations, where the four samples cover the three outcomes of the
    classification; exact arithmetic on points of the set doubles the size of the
    numbers with each iteration, so larger budgets are reasoned about, not evaluated.

  \<^bold>\<open>Not modelled.\<close>  The speech engine beyond its queue (\<^verbatim>\<open>pyttsx3.init\<close> is taken to
  succeed, and \<^verbatim>\<open>say\<close> and \<^verbatim>\<open>runAndWait\<close> not to raise), the PNG encoding and what PIL
  does with an array without pixels, permissions and other failures of the operating
  system than the four above, rounding and overflow of floats, and the script under
  \<^verbatim>\<open>__main__\<close>, whose body is \<^verbatim>\<open>pass\<close>.
\<close>

section \<open>The rendered image\<close>

text \<open>
  C1. A call of \<^verbatim>\<open>mandelbrot\<close> that returns has written exactly one image, as its
  last output, under the file name built from the centre, the top and the size
  (\<open>written\<close> lists the images of the output); the output before it is the sequence
  of its progress announcements and nothing else.  The
  image has \<open>height\<close> rows of \<open>width\<close> pixels, and the pixel in row \<open>y\<close> and column
  \<open>x\<close> is the value computed for that pixel from the configured object and the
  reshaped colours alone: sampling, classification, blending and the cast to bytes.
\<close>

theorem mandelbrot_renders:
  assumes "mandelbrot image_size colors center top_im magnification divergence_iterations speak =
     Inr (self, evs)"
  shows "\<exists>cs img.
      configure image_size colors center top_im magnification divergence_iterations speak =
        return (self, cs) \<and>
      evs \<noteq> [] \<and> last evs = Save (image_path self) img \<and>
      butlast evs = replay self (announced evs) \<and>
      written evs = [(image_path self, img)] \<and>
      length img = nat (snd image_size) \<and>
      (\<forall>y<nat (snd image_size). length (img ! y) = nat (fst image_size) \<and>
         (\<forall>x<nat (fst image_size). pixel_value self cs x y = return (img ! y ! x)))"
proof -
  from assms obtain cs img where
    c: "configure image_size colors center top_im magnification divergence_iterations speak =
        return (self, cs)"
    and r: "rendered self cs img"
    and e: "evs = replay self (announced evs) @ [Save (image_path self) img]"
    by (rule mandelbrot_Inr_trace)
  from e have l: "evs \<noteq> []" "last evs = Save (image_path self) img"
    "butlast evs = replay self (announced evs)"
    by (metis snoc_eq_iff_butlast)+
  from arg_cong [OF e, of written] have w: "written evs = [(image_path self, img)]"
    by simp
  from c have "IMAGE_SIZE self = image_size" by (rule configure_IMAGE_SIZE)
  with r have "length img = nat (snd image_size) \<and>
      (\<forall>y<nat (snd image_size). length (img ! y) = nat (fst image_size) \<and>
         (\<forall>x<nat (fst image_size). pixel_value self cs x y = return (img ! y ! x)))"
    by (simp add: rendered_def shape_ok_def)
  with c l w show ?thesis by blast
qed

theorem mandelbrot_renders_witness:
  "\<exists>cs img.
      configure (2, 2) example_colors (Some (0, 0)) 2 1 2 False = return (example_self False, cs) \<and>
      last [Print (P_STRING 0 0 0), Print (P_STRING 0 0 50), Print (P_STRING 0 0 70),
            Print (P_STRING 0 0 100), Print (P_STRING 0 0 120),
            Save (IMAGE_F 0 0 2 2 2) example_image] = Save (image_path (example_self False)) img \<and>
      written [Print (P_STRING 0 0 0), Print (P_STRING 0 0 50), Print (P_STRING 0 0 70),
               Print (P_STRING 0 0 100), Print (P_STRING 0 0 120),
               Save (IMAGE_F 0 0 2 2 2) example_image] = [(image_path (example_self False), img)] \<and>
      length img = 2 \<and> pixel_value (example_self False) cs 1 0 = return (img ! 0 ! 1)"
  using mandelbrot_renders [OF example_2x2] by fastforce

text \<open>
  C2. A call with even, non-negative dimensions, a centre below the top, three
  numbers for every colour and both colours \<^verbatim>\<open>'m'\<close> and \<^verbatim>\<open>'d'\<close> in the table returns:
  it raises no exception, whatever the magnification, the iteration budget and the
  speech flag are.
\<close>

theorem mandelbrot_succeeds:
  assumes "even (fst image_size)" and "even (snd image_size)"
    and "0 \<le> fst image_size" and "0 \<le> snd image_size"
    and "snd (case center of None \<Rightarrow> (- 66 / 100, 0) | Some c \<Rightarrow> c) < top_im"
    and "\<forall>(key, v)\<in>set colors. length v = 3"
    and "''m'' \<in> fst ` set colors" and "''d'' \<in> fst ` set colors"
  shows "\<exists>self evs.
      mandelbrot image_size colors center top_im magnification divergence_iterations speak =
        Inr (self, evs)"
  using assms by (rule mandelbrot_returns)

theorem mandelbrot_succeeds_witness:
  "\<exists>self evs.
      mandelbrot (640, 480) [(''m'', [255, 128, 0]), (''d'', [0, 64, 255])] None (16 / 10) 3 1600 True =
        Inr (self, evs)"
  using mandelbrot_succeeds
    [of "(640, 480)" None "16 / 10" "[(''m'', [255, 128, 0]), (''d'', [0, 64, 255])]" 3 1600 True]
  by simp

section \<open>Rejected configurations\<close>

text \<open>
  C5. An odd width or an odd height is rejected with \<open>OddResolutionError\<close> before
  anything is printed, spoken or written, whatever the other arguments are.
\<close>

theorem mandelbrot_odd_resolution:
  assumes "odd (fst image_size) \<or> odd (snd image_size)"
  shows "mandelbrot image_size colors center top_im magnification divergence_iterations speak =
     Inl (OddResolutionError, [])"
  using assms
  by (cases "odd (fst image_size)")
    (simp_all add: mandelbrot_def configure_def odd_iff_mod_2_eq_one)

theorem mandelbrot_odd_resolution_witness:
  "mandelbrot (641, 480) example_colors None (16 / 10) 1 1600 True = Inl (OddResolutionError, [])"
  using mandelbrot_odd_resolution [of "(641, 480)"] by simp

text \<open>
  C6. With even dimensions, a centre whose imaginary part is not below \<^verbatim>\<open>top\<close> is
  rejected with \<open>TopError\<close> before any output; the centre defaults to \<open>-0.66 + 0i\<close>.
\<close>

theorem mandelbrot_top_error:
  assumes "even (fst image_size)" and "even (snd image_size)"
    and "top_im \<le> snd (case center of None \<Rightarrow> (- 66 / 100, 0) | Some c \<Rightarrow> c)"
  shows "mandelbrot image_size colors center top_im magnification divergence_iterations speak =
     Inl (TopError, [])"
  using assms by (simp add: mandelbrot_def configure_def Let_def even_iff_mod_2_eq_zero)

theorem mandelbrot_top_error_witness:
  "mandelbrot (640, 480) example_colors None 0 1 1600 True = Inl (TopError, []) \<and>
   mandelbrot (640, 480) example_colors (Some (0, 1)) 1 1 1600 True = Inl (TopError, [])"
  using mandelbrot_top_error [of "(640, 480)" 0 None]
    mandelbrot_top_error [of "(640, 480)" 1 "Some (0, 1)"]
  by simp

text \<open>
  A colour that is not a list of three numbers is rejected with \<open>ValueError\<close>
  by the reshaping of the colour table, after the checks of the size and of the top
  and before any output.
\<close>

theorem mandelbrot_bad_color:
  assumes "even (fst image_size)" and "even (snd image_size)"
    and "snd (case center of None \<Rightarrow> (- 66 / 100, 0) | Some c \<Rightarrow> c) < top_im"
    and "(key, v) \<in> set colors" and "length v \<noteq> 3"
  shows "mandelbrot image_size colors center top_im magnification divergence_iterations speak =
     Inl (ValueError, [])"
proof -
  from assms(4,5) have "\<not> is_ok (reshape_colors colors)"
    by (auto simp: reshape_colors_ok_iff)
  then obtain e where "reshape_colors colors = raise e"
    by (cases "reshape_colors colors") simp_all
  with reshape_colors_raises [OF this] assms(1-3) show ?thesis
    by (simp add: mandelbrot_def configure_cases)
qed

theorem mandelbrot_bad_color_witness:
  "mandelbrot (640, 480) [(''m'', [255, 0, 0]), (''d'', [0, 0, 255, 255])] None (16 / 10) 1 1600 True =
     Inl (ValueError, [])"
  using mandelbrot_bad_color
    [of "(640, 480)" None "16 / 10" "''d''" "[0, 0, 255, 255]"
      "[(''m'', [255, 0, 0]), (''d'', [0, 0, 255, 255])]"]
  by simp

text \<open>
  A negative even dimension passes the validation and is rejected only by the
  allocation of the image, with \<open>ValueError\<close> and no output.
\<close>

theorem mandelbrot_negative_size:
  assumes "even (fst image_size)" and "even (snd image_size)"
    and "snd (case center of None \<Rightarrow> (- 66 / 100, 0) | Some c \<Rightarrow> c) < top_im"
    and "\<forall>(key, v)\<in>set colors. length v = 3"
    and "fst image_size < 0 \<or> snd image_size < 0"
  shows "mandelbrot image_size colors center top_im magnification divergence_iterations speak =
     Inl (ValueError, [])"
proof -
  from assms(4) obtain cs where cs: "reshape_colors colors = return cs"
    using reshape_colors_ok_iff [of colors] by (auto simp: is_ok_iff)
  from configure_eq [OF assms(1,2,3) cs] assms(5) show ?thesis
    by (auto simp: mandelbrot_def np_zeros_def)
qed

theorem mandelbrot_negative_size_witness:
  "mandelbrot (- 2, 2) example_colors None (16 / 10) 1 1600 True = Inl (ValueError, [])"
  using mandelbrot_negative_size [of "(- 2, 2)" None "16 / 10" example_colors] by simp

section \<open>Exceptions\<close>

text \<open>
  C28. The exceptions that leave \<^verbatim>\<open>mandelbrot\<close> are \<open>OddResolutionError\<close>, \<open>TopError\<close>
  and \<open>ValueError\<close>, raised before any output, and \<open>KeyError\<close>, raised in the render
  loop after the announcement of 0 percent, for a colour missing from the table.  No
  division by zero and no index out of range leaves the method, and no image is
  written when an exception is raised.
\<close>

theorem mandelbrot_exceptions:
  assumes "mandelbrot image_size colors center top_im magnification divergence_iterations speak =
     Inl (e, evs)"
  shows "e \<in> {OddResolutionError, TopError, ValueError} \<and> evs = [] \<or>
         e = KeyError \<and> announced evs \<noteq> [] \<and> hd (announced evs) = 0 \<and>
           sorted_wrt (<) (announced evs)"
  using assms
proof (cases rule: mandelbrot_Inl_cases)
  case configure
  with configure_raises [OF configure(2)] show ?thesis by simp
next
  case (zeros self cs)
  then show ?thesis by simp
next
  case (loops self cs zeros)
  then have "interrupted e evs" by (rule mandelbrot_loops_Inl)
  then show ?thesis by (simp add: interrupted_def)
qed

theorem mandelbrot_exceptions_witness:
  "mandelbrot (2, 2) [(''m'', [255, 0, 0])] (Some (0, 0)) 2 1 2 False =
     Inl (KeyError, [Print (P_STRING 0 0 0), Print (P_STRING 0 0 50)]) \<and>
   announced [Print (P_STRING 0 0 0), Print (P_STRING 0 0 50)] = [0, 50]"
  using mandelbrot_exceptions [OF example_missing_key] example_missing_key by simp

section \<open>Progress announcements\<close>

text \<open>
  C26. The percentages announced by a call that returns start with 0, increase
  strictly and are multiples of ten; each is printed once, and spoken after it is
  printed exactly when \<^verbatim>\<open>speak\<close> is set.
\<close>

theorem mandelbrot_announcements:
  assumes "mandelbrot image_size colors center top_im magnification divergence_iterations speak =
     Inr (self, evs)"
  shows "announced evs \<noteq> [] \<and> hd (announced evs) = 0 \<and> sorted_wrt (<) (announced evs) \<and>
         (\<forall>p\<in>set (announced evs). p mod 10 = 0) \<and>
         spoken evs = (if speak then announced evs else [])"
proof -
  from assms obtain cs st where
    c: "configure image_size colors center top_im magnification divergence_iterations speak =
        return (self, cs)"
    and p: "progress_inv self st" and e: "evs = trace st @ [Save (image_path self) (image_array st)]"
    by (rule mandelbrot_success)
  from c have "SPEAK self = speak" by (simp add: configure_Inr_iff)
  with p show ?thesis
    unfolding e progress_inv_def by simp
qed

theorem mandelbrot_announcements_witness:
  "announced [Print (P_STRING 0 0 0), Say (P_STRING 0 0 0), RunAndWait,
           Print (P_STRING 0 0 50), Say (P_STRING 0 0 50), RunAndWait,
           Print (P_STRING 0 0 70), Say (P_STRING 0 0 70), RunAndWait,
           Print (P_STRING 0 0 100), Say (P_STRING 0 0 100), RunAndWait,
           Print (P_STRING 0 0 120), Say (P_STRING 0 0 120), RunAndWait,
           Save (IMAGE_F 0 0 2 2 2) example_image] = [0, 50, 70, 100, 120] \<and>
   spoken [Print (P_STRING 0 0 0), Say (P_STRING 0 0 0), RunAndWait,
           Print (P_STRING 0 0 50), Say (P_STRING 0 0 50), RunAndWait,
           Print (P_STRING 0 0 70), Say (P_STRING 0 0 70), RunAndWait,
           Print (P_STRING 0 0 100), Say (P_STRING 0 0 100), RunAndWait,
           Print (P_STRING 0 0 120), Say (P_STRING 0 0 120), RunAndWait,
           Save (IMAGE_F 0 0 2 2 2) example_image] = [0, 50, 70, 100, 120]"
  using mandelbrot_announcements [OF example_2x2_spoken] by simp

text \<open>
  C27. The last percentage announced for an image of \<open>n > 0\<close> pixels is
  \<open>(100 + 100 div n) div 10 * 10\<close>, because the percentage is computed from the
  counter plus one after the counter has been incremented: it is 100 for more than
  ten pixels, and more than 100 for an image of at most ten pixels.
\<close>

theorem final_percentage:
  assumes "mandelbrot image_size colors center top_im magnification divergence_iterations speak =
     Inr (self, evs)"
    and "fst image_size * snd image_size \<noteq> 0"
  shows "last (announced evs) = (100 + 100 div (fst image_size * snd image_size)) div 10 * 10"
proof -
  from assms(1) obtain cs st where
    c: "configure image_size colors center top_im magnification divergence_iterations speak =
        return (self, cs)"
    and p: "progress_inv self st" and n: "pixels_done st = nat (snd image_size) * nat (fst image_size)"
    and e: "evs = trace st @ [Save (image_path self) (image_array st)]"
    by (rule mandelbrot_success)
  from assms(1) have "is_ok (np_zeros (snd image_size) (fst image_size))"
    by (auto simp: mandelbrot_Inr_iff)
  with assms(2) have pos: "0 < fst image_size" "0 < snd image_size"
    by (auto simp: np_zeros_ok_iff order_less_le)
  from c have size: "IMAGE_SIZE self = image_size" by (rule configure_IMAGE_SIZE)
  from pos have "0 < n_pixels self" "int (pixels_done st) = n_pixels self"
    by (simp_all add: size n)
  then have "percent self (pixels_done st) = (100 + 100 div n_pixels self) div 10 * 10"
    by (rule percent_last)
  moreover from pos have "pixels_done st \<noteq> 0" by (simp add: n)
  ultimately show ?thesis
    using p unfolding e progress_inv_def by (simp add: size)
qed

theorem final_percentage_witness:
  "last (announced [Print (P_STRING 0 0 0), Print (P_STRING 0 0 50), Print (P_STRING 0 0 70),
           Print (P_STRING 0 0 100), Print (P_STRING 0 0 120),
           Save (IMAGE_F 0 0 2 2 2) example_image]) = 120"
  using final_percentage [OF example_2x2] by simp

section \<open>A call without samples\<close>

text \<open>
  C35. With a magnification of 0 or less no sample is taken: a call that passes the
  validation returns and writes an image that is black everywhere, whatever the
  colour table holds.
\<close>

theorem mandelbrot_no_samples:
  assumes "magnification \<le> 0"
    and "mandelbrot image_size colors center top_im magnification divergence_iterations speak =
      Inr (self, evs)"
  shows "last evs = Save (image_path self)
           (replicate (nat (snd image_size)) (replicate (nat (fst image_size)) (RGB 0 0 0)))"
proof -
  let ?black = "replicate (nat (snd image_size)) (replicate (nat (fst image_size)) (RGB 0 0 0))"
  from assms(2) obtain cs img where
    c: "configure image_size colors center top_im magnification divergence_iterations speak =
        return (self, cs)"
    and r: "rendered self cs img" and e: "last evs = Save (image_path self) img"
    by (rule mandelbrot_image)
  from c have self: "IMAGE_SIZE self = image_size" "MAGNIFICATION self = magnification"
    by (simp_all add: configure_Inr_iff)
  with assms(1) have "pixel_value self cs x y = return (RGB 0 0 0)" for x y
    by (simp add: pixel_value_def sample_pixel_empty pixel_color_no_samples empty_tally_def
        cast_pixel_def)
  then have "rendered self cs ?black"
    by (simp add: rendered_def shape_ok_def self)
  with r have "img = ?black" by (rule rendered_unique)
  with e show ?thesis by simp
qed

theorem mandelbrot_no_samples_witness:
  "mandelbrot (2, 2) [] (Some (0, 0)) 2 0 2 False =
     Inr (\<lparr>SPEAK = False, MAGNIFICATION = 0, DIVERGENCE_ITERATIONS = 2,
            DIVERGENCE_LEVELS = divergence_levels 2, IMAGE_SIZE = (2, 2), CENTER = (0, 0),
            TOP = 2, CENTER_PIXEL = (1, 1)\<rparr>,
          [Print (P_STRING 0 0 0), Print (P_STRING 0 0 50), Print (P_STRING 0 0 70),
           Print (P_STRING 0 0 100), Print (P_STRING 0 0 120),
           Save (IMAGE_F 0 0 2 2 2) [[RGB 0 0 0, RGB 0 0 0], [RGB 0 0 0, RGB 0 0 0]]])"
proof -
  have run: "mandelbrot (2, 2) [] (Some (0, 0)) 2 0 2 False =
     Inr (\<lparr>SPEAK = False, MAGNIFICATION = 0, DIVERGENCE_ITERATIONS = 2,
            DIVERGENCE_LEVELS = divergence_levels 2, IMAGE_SIZE = (2, 2), CENTER = (0, 0),
            TOP = 2, CENTER_PIXEL = (1, 1)\<rparr>,
          [Print (P_STRING 0 0 0), Print (P_STRING 0 0 50), Print (P_STRING 0 0 70),
           Print (P_STRING 0 0 100), Print (P_STRING 0 0 120),
           Save (IMAGE_F 0 0 2 2 2) [[RGB 0 0 0, RGB 0 0 0], [RGB 0 0 0, RGB 0 0 0]]])"
    by (simp add: example_simps del: divergence_levels_def divergence_multiplier_def)
  from mandelbrot_no_samples [OF _ run] run show ?thesis by simp
qed

section \<open>Speech\<close>

text \<open>
  C34. Speech changes nothing but the speech: the call with \<^verbatim>\<open>speak=False\<close> is the
  call with any value of \<^verbatim>\<open>speak\<close> with the speech events erased from its output and
  the flag cleared on the object.  It returns or raises alike, with the same image
  and the same printed announcements.
\<close>

theorem speech_is_erasable:
  "map_sum (map_prod id silent) (map_prod mute silent)
     (mandelbrot image_size colors center top_im magnification divergence_iterations speak) =
   mandelbrot image_size colors center top_im magnification divergence_iterations False"
proof (cases "configure image_size colors center top_im magnification divergence_iterations speak")
  case (Inl e)
  with configure_mute [of image_size colors center top_im magnification divergence_iterations speak]
  have "configure image_size colors center top_im magnification divergence_iterations False =
    raise e" by simp
  with Inl show ?thesis by (simp add: mandelbrot_def)
next
  case (Inr r)
  obtain self cs where r: "r = (self, cs)" by (cases r)
  from Inr configure_mute [of image_size colors center top_im magnification divergence_iterations speak]
  have c: "configure image_size colors center top_im magnification divergence_iterations False =
    return (mute self, cs)" by (simp add: r)
  show ?thesis
  proof (cases "np_zeros (snd image_size) (fst image_size)")
    case (Inl e)
    with Inr c show ?thesis by (simp add: mandelbrot_def r)
  next
    case zeros: (Inr zeros)
    let ?s = "\<lparr>image_array = zeros, pixels_done = 0, p_complete = 0, trace = announce self 0\<rparr>"
    have "render_image (mute self) cs
          \<lparr>image_array = zeros, pixels_done = 0, p_complete = 0, trace = announce (mute self) 0\<rparr> =
        map_sum (map_prod id silent) mute_state (render_image self cs ?s)"
      by (simp add: render_image_mute mute_state_def)
    with Inr c zeros show ?thesis
      by (cases "render_image self cs ?s") (auto simp: mandelbrot_def r)
  qed
qed

section \<open>Pixels inside the set and outside the disc\<close>

text \<open>
  C30. A pixel all of whose sampled points are in the Mandelbrot set is stored as
  \<^verbatim>\<open>colors['m']\<close>, cast to bytes, whatever the iteration budget is: the escape loop
  never takes a member of the set for a diverging point.
\<close>

theorem member_pixel_is_m:
  assumes "0 < MAGNIFICATION self" and "snd (IMAGE_SIZE self) \<noteq> 0"
    and "\<forall>k\<in>{1..MAGNIFICATION self}. sample_point self x y k \<in> mandelbrot_set"
    and "map_of colors ''m'' = Some cm"
  shows "pixel_value self colors x y = return (map_rgb to_uint8 cm)"
  using assms
  by (simp add: pixel_value_def sample_pixel_members pixel_color_members cast_pixel_def)

theorem member_pixel_is_m_witness:
  "pixel_value (example_self False) [(''m'', RGB 255 0 0)] 0 0 = return (RGB 255 0 0)"
  using member_pixel_is_m [of "example_self False" 0 0 "[(''m'', RGB 255 0 0)]" "RGB 255 0 0"]
  by (simp add: sample_point_def to_uint8_def Complex_eq)

text \<open>
  C31. A pixel all of whose sampled points lie outside the disc of radius 2 is
  stored as black, whatever \<^verbatim>\<open>colors['d']\<close> is: such samples are given brightness
  level 0 without running the escape loop.
\<close>

theorem outside_pixel_is_black:
  assumes "0 < MAGNIFICATION self" and "snd (IMAGE_SIZE self) \<noteq> 0"
    and "\<forall>k\<in>{1..MAGNIFICATION self}. 2 < cmod (sample_point self x y k)"
    and "DIVERGENCE_LEVELS self \<noteq> []" and "map_of colors ''d'' = Some cd"
  shows "pixel_value self colors x y = return (RGB 0 0 0)"
  using assms
  by (simp add: pixel_value_def sample_pixel_outside pixel_color_level_0 cast_pixel_def
      to_uint8_def)

theorem outside_pixel_is_black_witness:
  "pixel_value (example_self False) [(''d'', RGB 0 0 255)] 1 1 = return (RGB 0 0 0)"
  using outside_pixel_is_black [of "example_self False" 1 1 "[(''d'', RGB 0 0 255)]" "RGB 0 0 255"]
  by (simp add: sample_point_def unit_per_pixel_def complex_norm real_less_rsqrt)

section \<open>The effects of a call\<close>

text \<open>
  C12. Saving and reading back.  When the directory \<^verbatim>\<open>PNG\<close> exists and the path of the
  image does not name a directory, a call of \<^verbatim>\<open>mandelbrot\<close> that returns has written
  the file: reading the path of the image afterwards gives the rendered image, pixel
  for pixel, and every other path of the file system is as it was.
\<close>

theorem saved_image_reads_back:
  assumes "mandelbrot image_size colors center top_im magnification divergence_iterations speak =
     Inr (self, evs)"
    and "files w (image_dir here) = Some Directory"
    and "files w (image_file_path str_float here self) \<noteq> Some Directory"
  shows "\<exists>cs img w'.
      configure image_size colors center top_im magnification divergence_iterations speak =
        return (self, cs) \<and>
      rendered self cs img \<and> last evs = Save (image_path self) img \<and>
      run_mandelbrot str_float here image_size colors center top_im magnification
        divergence_iterations speak w = Inr (self, w') \<and>
      files w' (image_file_path str_float here self) = Some (Picture img) \<and>
      (\<forall>p. p \<noteq> image_file_path str_float here self \<longrightarrow> files w' p = files w p)"
proof -
  from assms(1) obtain cs img where
    c: "configure image_size colors center top_im magnification divergence_iterations speak =
       return (self, cs)"
    and r: "rendered self cs img" and l: "last evs = Save (image_path self) img"
    and run: "run_mandelbrot str_float here image_size colors center top_im magnification
           divergence_iterations speak w =
         (case image_save (image_file_path str_float here self) img (files w) of
            Inl e \<Rightarrow> Inl (e, told str_float self (announced evs) w)
          | Inr fs \<Rightarrow> Inr (self, told str_float self (announced evs) w\<lparr>files := fs\<rparr>))"
    by (rule run_mandelbrot_Inr)
  from assms(2,3) have "image_save (image_file_path str_float here self) img (files w) =
      return ((files w)(image_file_path str_float here self \<mapsto> Picture img))"
    unfolding image_file_path_def by (rule image_save_eq)
  with run have "run_mandelbrot str_float here image_size colors center top_im magnification
      divergence_iterations speak w =
    Inr (self, told str_float self (announced evs) w
      \<lparr>files := (files w)(image_file_path str_float here self \<mapsto> Picture img)\<rparr>)"
    by simp
  with c r l show ?thesis by simp
qed

theorem saved_image_reads_back_witness:
  "\<exists>w'. run_mandelbrot str_integral [''src''] (2, 2) example_colors (Some (0, 0)) 2 1 2 False
           example_world = Inr (example_self False, w') \<and>
         files w' (image_file_path str_integral [''src''] (example_self False)) =
           Some (Picture example_image)"
  using saved_image_reads_back [OF example_2x2, of example_world "[''src'']" str_integral]
  by (auto simp: image_dir_def image_file_path_def)

text \<open>
  C11. The program as a whole.  On a file system that is a tree, in which neither the
  directory \<^verbatim>\<open>PNG\<close> nor one of its ancestors is a plain file and nothing inside \<^verbatim>\<open>PNG\<close> is
  a directory, creating the class and calling \<^verbatim>\<open>mandelbrot\<close> with a valid configuration
  (even non-negative dimensions, the centre below the top, three numbers for each of
  the colours \<^verbatim>\<open>'m'\<close> and \<^verbatim>\<open>'d'\<close>) raises nothing: the class body returns, the call returns,
  and afterwards the file of the image holds an image with as many rows as the
  configured height, in a file system that is still a tree.
\<close>

theorem session_writes_image:
  assumes "wf_fs (files w)"
    and "\<forall>q img. prefix q (image_dir here) \<longrightarrow> files w q \<noteq> Some (Picture img)"
    and "\<forall>name. files w (image_dir here @ [name]) \<noteq> Some Directory"
    and "even (fst image_size)" and "even (snd image_size)"
    and "0 \<le> fst image_size" and "0 \<le> snd image_size"
    and "snd (case center of None \<Rightarrow> (- 66 / 100, 0) | Some c \<Rightarrow> c) < top_im"
    and "\<forall>(key, v)\<in>set colors. length v = 3"
    and "''m'' \<in> fst ` set colors" and "''d'' \<in> fst ` set colors"
  shows "\<exists>fs self w' img.
      class_body here (files w) = return fs \<and>
      run_mandelbrot str_float here image_size colors center top_im magnification
        divergence_iterations speak (w\<lparr>files := fs\<rparr>) = Inr (self, w') \<and>
      files w' (image_file_path str_float here self) = Some (Picture img) \<and>
      length img = nat (snd image_size) \<and> wf_fs (files w')"
proof -
  from assms(1,2) obtain fs where fs: "class_body here (files w) = return fs" "wf_fs fs"
    "fs (image_dir here) = Some Directory"
    by (rule class_body_directory)
  from assms(4-11) obtain self evs where m: "mandelbrot image_size colors center top_im
      magnification divergence_iterations speak = Inr (self, evs)"
    using mandelbrot_returns by blast
  let ?p = "image_file_path str_float here self"
  from class_body_frame [OF assms(1) fs(1)] assms(3) have p: "fs ?p \<noteq> Some Directory"
    by (simp add: image_file_path_def)
  from m obtain cs img where c: "configure image_size colors center top_im magnification
      divergence_iterations speak = return (self, cs)" and r: "rendered self cs img"
    and run: "run_mandelbrot str_float here image_size colors center top_im magnification
        divergence_iterations speak (w\<lparr>files := fs\<rparr>) =
      (case image_save ?p img (files (w\<lparr>files := fs\<rparr>)) of
         Inl e \<Rightarrow> Inl (e, told str_float self (announced evs) (w\<lparr>files := fs\<rparr>))
       | Inr fs' \<Rightarrow> Inr (self, told str_float self (announced evs) (w\<lparr>files := fs\<rparr>)
           \<lparr>files := fs'\<rparr>))"
    by (rule run_mandelbrot_Inr)
  from fs(3) p have s: "image_save ?p img fs = return (fs(?p \<mapsto> Picture img))"
    unfolding image_file_path_def by (rule image_save_eq)
  from fs(2,3) p have "wf_fs (fs(?p \<mapsto> Picture img))"
    unfolding image_file_path_def by (rule wf_fs_picture)
  moreover from c r have "length img = nat (snd image_size)"
    by (simp add: rendered_def shape_ok_def configure_IMAGE_SIZE)
  ultimately show ?thesis using fs(1) run s by simp
qed

theorem session_writes_image_witness:
  "wf_fs example_files \<and>
   (\<exists>fs self w' img.
      class_body [''src''] example_files = return fs \<and>
      run_mandelbrot str_integral [''src''] (2, 2) example_colors (Some (0, 0)) 2 1 2 False
        \<lparr>console = [], queued = [], heard = [], files = fs\<rparr> = Inr (self, w') \<and>
      files w' (image_file_path str_integral [''src''] self) = Some (Picture img) \<and>
      length img = 2 \<and> wf_fs (files w'))"
proof -
  let ?w = "\<lparr>console = [], queued = [], heard = [], files = example_files\<rparr>"
  have "\<forall>q img. prefix q (image_dir [''src'']) \<longrightarrow> files ?w q \<noteq> Some (Picture img)"
    and "\<forall>name. files ?w (image_dir [''src''] @ [name]) \<noteq> Some Directory"
    by (simp_all add: image_dir_def)
  with wf_fs_example_files
    session_writes_image [of ?w "[''src'']" "(2, 2)" "Some (0, 0)" 2 example_colors str_integral 1 2 False]
  show ?thesis by simp
qed

text \<open>
  C13. A call that raises, whether in the validation, in the render loop or when the
  image is saved, leaves every file as it was: no image is written, and none is
  damaged.  The lines printed before the exception stay on the console.
\<close>

theorem failed_call_writes_nothing:
  assumes "run_mandelbrot str_float here image_size colors center top_im magnification
     divergence_iterations speak w = Inl (e, w')"
  shows "files w' = files w \<and> (\<exists>ls. console w' = console w @ ls)"
proof (cases "mandelbrot image_size colors center top_im magnification divergence_iterations speak")
  case (Inl x)
  then obtain e0 evs where "mandelbrot image_size colors center top_im magnification
      divergence_iterations speak = Inl (e0, evs)" by (cases x) simp
  then show ?thesis
  proof (cases rule: run_mandelbrot_Inl [where str_float = str_float and here = here and w = w])
    case 1
    with assms show ?thesis by simp
  next
    case (2 self cs)
    with assms show ?thesis by auto
  qed
next
  case (Inr x)
  then obtain self evs where "mandelbrot image_size colors center top_im magnification
      divergence_iterations speak = Inr (self, evs)" by (cases x) simp
  then obtain img where "run_mandelbrot str_float here image_size colors center top_im magnification
           divergence_iterations speak w =
         (case image_save (image_file_path str_float here self) img (files w) of
            Inl e \<Rightarrow> Inl (e, told str_float self (announced evs) w)
          | Inr fs \<Rightarrow> Inr (self, told str_float self (announced evs) w\<lparr>files := fs\<rparr>))"
    by (rule run_mandelbrot_Inr)
  with assms show ?thesis by (auto split: sum.splits)
qed

theorem failed_call_writes_nothing_witness:
  "\<exists>w'. run_mandelbrot str_integral [''src''] (2, 2) [(''m'', [255, 0, 0])] (Some (0, 0)) 2 1 2 False
           example_world = Inl (KeyError, w') \<and> files w' = files example_world"
proof -
  from example_missing_key obtain w' where
    r: "run_mandelbrot str_integral [''src''] (2, 2) [(''m'', [255, 0, 0])] (Some (0, 0)) 2 1 2 False
           example_world = Inl (KeyError, w')"
    by (rule run_mandelbrot_Inl
        [where str_float = str_integral and here = "[''src'']" and w = example_world]) blast+
  with failed_call_writes_nothing [OF r] show ?thesis by blast
qed

end
